theory Spec2Isabelle
  imports Complex_Main "HOL-Library.AList" "HOL-Library.Char_ord" "HOL-Library.List_Lexorder"
begin

section \<open>Values, errors and the Python operations the controller relies on\<close>

text \<open>
  The JSON columns of the artifacts table (\<open>manifest\<close>, \<open>config\<close>, \<open>secrets\<close>) hold what
  the caller sent, so they are modelled as JSON values; a Python \<open>dict\<close> is an association
  list with unique keys in insertion order, and Python's \<open>None\<close> is \<open>JNull\<close>.
\<close>

datatype json =
    JNull
  | JBool bool
  | JInt int
  | JFloat rat
  | JStr string
  | JArr "json list"
  | JObj "(string \<times> json) list"

type_synonym dict = "(string \<times> json) list"

text \<open>Every exception the modelled code can raise is a value.\<close>

datatype error =
    ValueError
  | KeyError
  | PermissionError
  | AssertionError
  | TypeError
  | AttributeError
  | IndexError
  | FileExistsError
  | FileNotFoundError
  | RuntimeError
  | ValidationError
  | ClientError
  | MultipleResultsFound
  | IntegrityError
  | OperationalError

text \<open>\<open>needle in haystack\<close> on two Python strings: the substring test.\<close>

fun is_prefix :: "string \<Rightarrow> string \<Rightarrow> bool" where
  "is_prefix [] ys = True"
| "is_prefix (x # xs) [] = False"
| "is_prefix (x # xs) (y # ys) = (x = y \<and> is_prefix xs ys)"

fun is_substring :: "string \<Rightarrow> string \<Rightarrow> bool" where
  "is_substring xs [] = (xs = [])"
| "is_substring xs (y # ys) = (is_prefix xs (y # ys) \<or> is_substring xs ys)"

text \<open>
  \<open>s in c\<close> for a string \<open>s\<close>: membership in a list, key membership in a dict, the
  substring test in a string, and a \<open>TypeError\<close> for a container that is not iterable.
\<close>

fun str_in :: "string \<Rightarrow> json \<Rightarrow> error + bool" where
  "str_in s (JArr xs) = Inr (JStr s \<in> set xs)"
| "str_in s (JObj kvs) = Inr (s \<in> fst ` set kvs)"
| "str_in s (JStr t) = Inr (is_substring s t)"
| "str_in s JNull = Inl TypeError"
| "str_in s (JBool b) = Inl TypeError"
| "str_in s (JInt i) = Inl TypeError"
| "str_in s (JFloat r) = Inl TypeError"

text \<open>\<open>c[s]\<close> for a string key \<open>s\<close>: only a dict can be indexed by a string.\<close>

fun str_getitem :: "json \<Rightarrow> string \<Rightarrow> error + json" where
  "str_getitem (JObj kvs) s = (case map_of kvs s of None \<Rightarrow> Inl KeyError | Some v \<Rightarrow> Inr v)"
| "str_getitem JNull s = Inl TypeError"
| "str_getitem (JBool b) s = Inl TypeError"
| "str_getitem (JInt i) s = Inl TypeError"
| "str_getitem (JFloat r) s = Inl TypeError"
| "str_getitem (JStr t) s = Inl TypeError"
| "str_getitem (JArr xs) s = Inl TypeError"

text \<open>Python truthiness of a JSON value.\<close>

fun truthy :: "json \<Rightarrow> bool" where
  "truthy JNull = False"
| "truthy (JBool b) = b"
| "truthy (JInt i) = (i \<noteq> 0)"
| "truthy (JFloat r) = (r \<noteq> 0)"
| "truthy (JStr s) = (s \<noteq> [])"
| "truthy (JArr xs) = (xs \<noteq> [])"
| "truthy (JObj kvs) = (kvs \<noteq> [])"

section \<open>The data model\<close>

text \<open>
  \<open>versions\<close> and \<open>staging\<close> are written by the controller only, so their entries are
  records. The \<open>staging\<close> column keeps the difference the listing query tests for: SQL
  NULL, the JSON literal \<open>null\<close>, or a list of staged files; Python reads both nulls as
  \<open>None\<close>.
\<close>

record version_entry =
  version :: string
  comment :: "string option"
  created_at_v :: int

record file_entry =
  path :: string
  download_weight :: "rat option"

datatype staging_col = SqlNull | JsonNull | Staged "file_entry list"

record artifact =
  id_col :: string
  type_col :: "string option"
  workspace :: string
  parent_id :: "string option"
  alias_col :: "string option"
  manifest :: "dict option"
  staging :: staging_col
  download_count :: rat
  view_count :: rat
  file_count :: int
  created_at :: int
  created_by :: "string option"
  last_modified :: int
  versions :: "version_entry list option"
  config :: "dict option"
  secrets :: "dict option"

text \<open>
  \<open>UserInfo\<close> comes from \<open>hypha.core\<close>; of it the controller reads \<open>id\<close>,
  \<open>is_anonymous\<close> and calls \<open>check_permission(workspace, tier)\<close>, which is carried here
  as a field of the user.
\<close>

datatype user_permission = perm_read | perm_read_write | perm_admin

record user_info =
  user_id :: string
  is_anonymous :: bool
  check_permission :: "string \<Rightarrow> user_permission \<Rightarrow> bool"

section \<open>Permission engine\<close>

definition permission_map :: "(string \<times> string list) list" where
  "permission_map =
    [(''n'', []),
     (''l'', [''list'']),
     (''l+'', [''list'', ''create'', ''commit'']),
     (''lv'', [''list'', ''list_vectors'']),
     (''lv+'', [''list'', ''list_vectors'', ''create'', ''commit'', ''add_vectors'',
               ''add_documents'']),
     (''lf'', [''list'', ''list_files'']),
     (''lf+'', [''list'', ''list_files'', ''create'', ''commit'', ''put_file'']),
     (''r'', [''read'', ''get_file'', ''list_files'', ''list'', ''search_by_vector'',
             ''search_by_text'', ''get_vector'']),
     (''r+'', [''read'', ''get_file'', ''put_file'', ''list_files'', ''list'',
              ''search_by_vector'', ''search_by_text'', ''get_vector'', ''create'',
              ''commit'', ''add_vectors'', ''add_documents'']),
     (''rw'', [''read'', ''get_file'', ''get_vector'', ''search_by_vector'',
              ''search_by_text'', ''list_files'', ''list_vectors'', ''list'', ''edit'',
              ''commit'', ''put_file'', ''add_vectors'', ''add_documents'', ''remove_file'',
              ''remove_vectors'']),
     (''rw+'', [''read'', ''get_file'', ''get_vector'', ''search_by_vector'',
               ''search_by_text'', ''list_files'', ''list_vectors'', ''list'', ''edit'',
               ''commit'', ''put_file'', ''add_vectors'', ''add_documents'', ''remove_file'',
               ''remove_vectors'', ''create'']),
     (''*'', [''read'', ''get_file'', ''get_vector'', ''search_by_vector'',
             ''search_by_text'', ''list_files'', ''list_vectors'', ''list'', ''edit'',
             ''commit'', ''put_file'', ''add_vectors'', ''add_documents'', ''remove_file'',
             ''remove_vectors'', ''create'', ''reset_stats'', ''publish''])]"

text \<open>
  \<open>_expand_permission\<close>: a string is looked up in the table, with the empty list as the
  default; anything else is returned as it is.
\<close>

fun expand_permission :: "json \<Rightarrow> json" where
  "expand_permission (JStr code) =
     (case map_of permission_map code of
        None \<Rightarrow> JArr []
      | Some ops \<Rightarrow> JArr (map JStr ops))"
| "expand_permission p = p"

text \<open>
  One step of \<open>_check_permissions\<close>:
  \<open>if key in permissions: if operation in self._expand_permission(permissions[key]): return True\<close>.
  \<open>Inr False\<close> means the step did not grant and the next one runs.
\<close>

definition check_entry :: "json \<Rightarrow> string \<Rightarrow> string \<Rightarrow> error + bool" where
  "check_entry permissions key operation =
     (case str_in key permissions of
        Inl e \<Rightarrow> Inl e
      | Inr False \<Rightarrow> Inr False
      | Inr True \<Rightarrow>
          (case str_getitem permissions key of
             Inl e \<Rightarrow> Inl e
           | Inr p \<Rightarrow> str_in operation (expand_permission p)))"

text \<open>\<open>artifact.config.get("permissions", {}) if artifact.config else {}\<close>\<close>

definition artifact_permissions :: "artifact \<Rightarrow> json" where
  "artifact_permissions a =
     (case config a of
        None \<Rightarrow> JObj []
      | Some [] \<Rightarrow> JObj []
      | Some c \<Rightarrow> (case map_of c ''permissions'' of None \<Rightarrow> JObj [] | Some p \<Rightarrow> p))"

text \<open>The two wildcard steps that follow the user's own entry.\<close>

definition check_wildcards :: "json \<Rightarrow> user_info \<Rightarrow> string \<Rightarrow> error + bool" where
  "check_wildcards permissions user_info operation =
     (case (if \<not> is_anonymous user_info then check_entry permissions ''@'' operation
            else Inr False) of
        Inl e \<Rightarrow> Inl e
      | Inr True \<Rightarrow> Inr True
      | Inr False \<Rightarrow> check_entry permissions ''*'' operation)"

definition check_permissions :: "artifact \<Rightarrow> user_info \<Rightarrow> string \<Rightarrow> error + bool" where
  "check_permissions a user_info operation =
     (let permissions = artifact_permissions a in
      case check_entry permissions (user_id user_info) operation of
        Inl e \<Rightarrow> Inl e
      | Inr True \<Rightarrow> Inr True
      | Inr False \<Rightarrow> check_wildcards permissions user_info operation)"

definition operation_map :: "(string \<times> user_permission) list" where
  "operation_map =
    [(''list'', perm_read),
     (''read'', perm_read),
     (''get_vector'', perm_read),
     (''get_file'', perm_read),
     (''list_files'', perm_read),
     (''list_vectors'', perm_read),
     (''search_by_text'', perm_read),
     (''search_by_vector'', perm_read),
     (''create'', perm_read_write),
     (''edit'', perm_read_write),
     (''commit'', perm_read_write),
     (''add_vectors'', perm_read_write),
     (''add_documents'', perm_read_write),
     (''put_file'', perm_read_write),
     (''remove_vectors'', perm_read_write),
     (''remove_file'', perm_read_write),
     (''delete'', perm_admin),
     (''reset_stats'', perm_admin),
     (''publish'', perm_admin)]"

subsection \<open>Finding an artifact\<close>

text \<open>\<open>str.split(sep)\<close> for a one-character separator.\<close>

fun split_on :: "char \<Rightarrow> string \<Rightarrow> string list" where
  "split_on c [] = [[]]"
| "split_on c (x # xs) =
     (if x = c then [] # split_on c xs
      else (case split_on c xs of
              [] \<Rightarrow> [[x]]
            | p # ps \<Rightarrow> (x # p) # ps))"

text \<open>
  \<open>_get_artifact_id_cond\<close>: an id with a slash is \<open>workspace/alias\<close> (exactly two parts,
  asserted), any other id is compared with the \<open>id\<close> column. An SQL comparison with a NULL
  alias is not true.
\<close>

definition get_artifact_id_cond :: "string \<Rightarrow> error + (artifact \<Rightarrow> bool)" where
  "get_artifact_id_cond artifact_id =
     (if CHR ''/'' \<in> set artifact_id then
        (case split_on CHR ''/'' artifact_id of
           [ws, al] \<Rightarrow> Inr (\<lambda>a. workspace a = ws \<and> alias_col a = Some al)
         | _ \<Rightarrow> Inl AssertionError)
      else Inr (\<lambda>a. id_col a = artifact_id))"

text \<open>\<open>scalar_one_or_none\<close> of the rows a condition selects.\<close>

definition scalar_one_or_none :: "artifact list \<Rightarrow> (artifact \<Rightarrow> bool) \<Rightarrow> error + artifact option" where
  "scalar_one_or_none rows cond =
     (case filter cond rows of
        [] \<Rightarrow> Inr None
      | [a] \<Rightarrow> Inr (Some a)
      | _ \<Rightarrow> Inl MultipleResultsFound)"

definition get_artifact :: "artifact list \<Rightarrow> string \<Rightarrow> error + artifact" where
  "get_artifact rows artifact_id =
     (case get_artifact_id_cond artifact_id of
        Inl e \<Rightarrow> Inl e
      | Inr cond \<Rightarrow>
          (case scalar_one_or_none rows cond of
             Inl e \<Rightarrow> Inl e
           | Inr None \<Rightarrow> Inl KeyError
           | Inr (Some a) \<Rightarrow> Inr a))"

definition get_artifact_with_parent ::
  "artifact list \<Rightarrow> string \<Rightarrow> error + (artifact \<times> artifact option)" where
  "get_artifact_with_parent rows artifact_id =
     (case get_artifact rows artifact_id of
        Inl e \<Rightarrow> Inl e
      | Inr a \<Rightarrow>
          (case parent_id a of
             None \<Rightarrow> Inr (a, None)
           | Some [] \<Rightarrow> Inr (a, None)
           | Some pid \<Rightarrow>
               (case get_artifact_id_cond pid of
                  Inl e \<Rightarrow> Inl e
                | Inr cond \<Rightarrow>
                    (case scalar_one_or_none rows cond of
                       Inl e \<Rightarrow> Inl e
                     | Inr p \<Rightarrow> Inr (a, p)))))"

text \<open>
  \<open>_get_artifact_with_permission\<close>: the operation's tier is looked up first (an unknown
  operation is a \<open>ValueError\<close>), then the artifact is fetched (a missing one is a
  \<open>KeyError\<close>), then the artifact's own permissions are tried and, last, the user's
  permission on the artifact's workspace.
\<close>

definition get_artifact_with_permission ::
  "artifact list \<Rightarrow> user_info \<Rightarrow> string \<Rightarrow> string \<Rightarrow> error + (artifact \<times> artifact option)" where
  "get_artifact_with_permission rows user_info artifact_id operation =
     (case map_of operation_map operation of
        None \<Rightarrow> Inl ValueError
      | Some required_perm \<Rightarrow>
          (case get_artifact_with_parent rows artifact_id of
             Inl e \<Rightarrow> Inl e
           | Inr (a, parent_artifact) \<Rightarrow>
               (case check_permissions a user_info operation of
                  Inl e \<Rightarrow> Inl e
                | Inr True \<Rightarrow> Inr (a, parent_artifact)
                | Inr False \<Rightarrow>
                    if check_permission user_info (workspace a) required_perm
                    then Inr (a, parent_artifact)
                    else Inl PermissionError)))"

section \<open>Version index\<close>

text \<open>
  The selector a caller passes: \<open>None\<close>, a string, an integer, or a value of another type.
\<close>

datatype version_sel = VNone | VStr string | VInt int | VOther

text \<open>
  The loop \<open>for i, v in enumerate(artifact.versions): if v["version"] == version: ... break\<close>,
  started with \<open>version_index = -1\<close>.
\<close>

fun find_version :: "version_entry list \<Rightarrow> string \<Rightarrow> nat \<Rightarrow> int" where
  "find_version [] label i = - 1"
| "find_version (v # vs) label i =
     (if version v = label then int i else find_version vs label (Suc i))"

text \<open>
  \<open>_get_version_index\<close>. When no entry carries the label the function raises, whether or
  not the label is a digit string (the assignment before the \<open>raise\<close> is lost with it).
  \<open>len\<close> of a \<open>None\<close> versions column is a \<open>TypeError\<close>.
\<close>

definition get_version_index :: "artifact \<Rightarrow> version_sel \<Rightarrow> error + int" where
  "get_version_index a v =
     (case v of
        VNone \<Rightarrow>
          (case versions a of
             None \<Rightarrow> Inl TypeError
           | Some vs \<Rightarrow> Inr (max 0 (int (length vs) - 1)))
      | VStr s \<Rightarrow>
          (if s = ''latest'' then
             (case versions a of
                None \<Rightarrow> Inl TypeError
              | Some vs \<Rightarrow> Inr (int (length vs) - 1))
           else if s = ''stage'' then
             (case versions a of
                None \<Rightarrow> Inl TypeError
              | Some vs \<Rightarrow> Inr (int (length vs)))
           else
             (case versions a of
                None \<Rightarrow> Inl TypeError
              | Some vs \<Rightarrow>
                  (let version_index = find_version vs s 0 in
                   if version_index < 0 then Inl ValueError else Inr version_index)))
      | VInt i \<Rightarrow> (if i \<ge> 0 then Inr i else Inl AssertionError)
      | VOther \<Rightarrow> Inl ValueError)"

section \<open>Raising and sequencing\<close>

text \<open>A raised exception ends the operation: \<open>on_ok m f\<close> runs \<open>f\<close> on the value of \<open>m\<close>.\<close>

definition on_ok :: "error + 'a \<Rightarrow> ('a \<Rightarrow> error + 'b) \<Rightarrow> error + 'b" where
  "on_ok m f = (case m of Inl e \<Rightarrow> Inl e | Inr x \<Rightarrow> f x)"

definition check :: "bool \<Rightarrow> error \<Rightarrow> error + unit" where
  "check b e = (if b then Inr () else Inl e)"

section \<open>Strings\<close>

text \<open>\<open>str(n)\<close> for a natural number, and \<open>str(x)\<close> for an optional string.\<close>

definition digit_char :: "nat \<Rightarrow> char" where
  "digit_char d = ''0123456789'' ! d"

fun str_of_nat :: "nat \<Rightarrow> string" where
  "str_of_nat n =
     (if n < 10 then [digit_char n] else str_of_nat (n div 10) @ [digit_char (n mod 10)])"

declare str_of_nat.simps [simp del]

definition str_of_opt :: "string option \<Rightarrow> string" where
  "str_of_opt s = (case s of None \<Rightarrow> ''None'' | Some t \<Rightarrow> t)"

text \<open>
  The characters \<open>str.strip()\<close> removes, among the code points below 256.
\<close>

definition is_space :: "char \<Rightarrow> bool" where
  "is_space c =
     (let n = (of_char c :: nat)
      in (9 \<le> n \<and> n \<le> 13) \<or> (28 \<le> n \<and> n \<le> 32) \<or> n = 133 \<or> n = 160)"

definition strip :: "string \<Rightarrow> string" where
  "strip s = rev (dropWhile is_space (rev (dropWhile is_space s)))"

text \<open>
  \<open>re.match(r"^[0-9a-f]{8}-[0-9a-f]{4}-[0-9a-f]{4}-[0-9a-f]{4}-[0-9a-f]{12}$", s)\<close>; the
  \<open>$\<close> also matches before one final newline.
\<close>

definition is_hex :: "char \<Rightarrow> bool" where
  "is_hex c = (c \<in> set ''0123456789abcdef'')"

definition uuid_shape :: "string \<Rightarrow> bool" where
  "uuid_shape s =
     (map length (split_on CHR ''-'' s) = [8, 4, 4, 4, 12]
      \<and> list_all (list_all is_hex) (split_on CHR ''-'' s))"

definition matches_uuid :: "string \<Rightarrow> bool" where
  "matches_uuid s =
     (uuid_shape s \<or> (s \<noteq> [] \<and> last s = CHR 0x0A \<and> uuid_shape (butlast s)))"

text \<open>Truthiness of an optional string and of an optional dict.\<close>

definition truthy_str :: "string option \<Rightarrow> bool" where
  "truthy_str s = (case s of None \<Rightarrow> False | Some t \<Rightarrow> t \<noteq> [])"

definition truthy_dict :: "dict option \<Rightarrow> bool" where
  "truthy_dict d = (case d of None \<Rightarrow> False | Some kvs \<Rightarrow> kvs \<noteq> [])"

text \<open>\<open>d.get(k, default)\<close> and \<open>d.get(k)\<close> on a dict.\<close>

definition dict_get :: "dict \<Rightarrow> string \<Rightarrow> json \<Rightarrow> json" where
  "dict_get d k dflt = (case map_of d k of None \<Rightarrow> dflt | Some v \<Rightarrow> v)"

text \<open>\<open>c[k] = v\<close> for a string key: only a dict takes it.\<close>

fun str_setitem :: "json \<Rightarrow> string \<Rightarrow> json \<Rightarrow> error + json" where
  "str_setitem (JObj kvs) k v = Inr (JObj (AList.update k v kvs))"
| "str_setitem c k v = Inl TypeError"

text \<open>
  \<open>d.update(other)\<close> on two dicts with string keys: the entries of \<open>other\<close> are set one
  after the other.
\<close>

definition dict_update :: "dict \<Rightarrow> dict \<Rightarrow> dict" where
  "dict_update d other = fold (\<lambda>(k, v). AList.update k v) other d"

subsection \<open>Dicts in memory\<close>

text \<open>
  \<open>dict.update\<close> also takes an iterable of key/value pairs, and a key read from such a
  pair need not be a string. So a dict in memory is an association list whose keys are
  hashable values: of the JSON values all but lists and dicts. Numbers and booleans that
  are equal as numbers are one key (\<open>1 == 1.0 == True\<close>).
\<close>

type_synonym pydict = "(json \<times> json) list"

fun hashable :: "json \<Rightarrow> bool" where
  "hashable (JArr xs) = False"
| "hashable (JObj kvs) = False"
| "hashable k = True"

fun key_number :: "json \<Rightarrow> rat option" where
  "key_number (JBool b) = Some (if b then 1 else 0)"
| "key_number (JInt i) = Some (of_int i)"
| "key_number (JFloat r) = Some r"
| "key_number k = None"

definition key_eq :: "json \<Rightarrow> json \<Rightarrow> bool" where
  "key_eq k1 k2 =
     (case key_number k1 of
        Some x \<Rightarrow> key_number k2 = Some x
      | None \<Rightarrow> key_number k2 = None \<and> k1 = k2)"

text \<open>\<open>d[k] = v\<close>: the value of an equal key is replaced, a new key is added at the end.\<close>

fun dict_setitem :: "pydict \<Rightarrow> json \<Rightarrow> json \<Rightarrow> pydict" where
  "dict_setitem [] k v = [(k, v)]"
| "dict_setitem (e # d) k v =
     (if key_eq (fst e) k then (fst e, v) # d else e # dict_setitem d k v)"

definition to_pydict :: "dict \<Rightarrow> pydict" where
  "to_pydict d = map (\<lambda>(k, v). (JStr k, v)) d"

text \<open>
  One element of an update sequence is read as a sequence of length two: a list of two
  values, a string of two characters, or a dict with two keys (its keys are what iterating
  it gives). Another length is a \<open>ValueError\<close>, an element that is no sequence a
  \<open>TypeError\<close>.
\<close>

definition update_pair :: "json \<Rightarrow> error + (json \<times> json)" where
  "update_pair e =
     (case e of
        JArr xs \<Rightarrow> (case xs of [k, v] \<Rightarrow> Inr (k, v) | _ \<Rightarrow> Inl ValueError)
      | JStr s \<Rightarrow> (case s of [a, b] \<Rightarrow> Inr (JStr [a], JStr [b]) | _ \<Rightarrow> Inl ValueError)
      | JObj kvs \<Rightarrow> (case kvs of [kv1, kv2] \<Rightarrow> Inr (JStr (fst kv1), JStr (fst kv2))
                     | _ \<Rightarrow> Inl ValueError)
      | _ \<Rightarrow> Inl TypeError)"

text \<open>
  The pairs of an update sequence, in order; setting an unhashable key is a \<open>TypeError\<close>.
\<close>

fun sequence_entries :: "json list \<Rightarrow> error + pydict" where
  "sequence_entries [] = Inr []"
| "sequence_entries (e # es) =
     (case update_pair e of
        Inl err \<Rightarrow> Inl err
      | Inr (k, v) \<Rightarrow>
          if \<not> hashable k then Inl TypeError
          else (case sequence_entries es of
                  Inl err \<Rightarrow> Inl err
                | Inr kvs \<Rightarrow> Inr ((k, v) # kvs)))"

text \<open>
  The entries the argument of \<open>d.update(other)\<close> stands for: those of a dict; the pairs of
  a list; none for the empty string, while a string with characters is a sequence of
  elements of length one (a \<open>ValueError\<close>); \<open>None\<close>, a boolean or a number is not iterable
  (a \<open>TypeError\<close>).
\<close>

definition update_entries :: "json \<Rightarrow> error + pydict" where
  "update_entries other =
     (case other of
        JObj kvs \<Rightarrow> Inr (to_pydict kvs)
      | JArr es \<Rightarrow> sequence_entries es
      | JStr s \<Rightarrow> (if s = [] then Inr [] else Inl ValueError)
      | _ \<Rightarrow> Inl TypeError)"

text \<open>
  \<open>c.update(other)\<close>: only a dict has the method; the entries are set one after the
  other. An exception ends the operation that called it, so the entries set before it are
  not seen. The result is the dict in memory.
\<close>

definition set_entries :: "pydict \<Rightarrow> pydict \<Rightarrow> pydict" where
  "set_entries d kvs = fold (\<lambda>(k, v) acc. dict_setitem acc k v) kvs d"

definition py_update :: "json \<Rightarrow> json \<Rightarrow> error + pydict" where
  "py_update c other =
     (case c of
        JObj d \<Rightarrow>
          (case update_entries other of
             Inl err \<Rightarrow> Inl err
           | Inr kvs \<Rightarrow> Inr (set_entries (to_pydict d) kvs))
      | _ \<Rightarrow> Inl AttributeError)"

text \<open>
  \<open>json.dumps\<close> writes a key that is no string as a string: \<open>true\<close>, \<open>false\<close>, \<open>null\<close>,
  the decimal digits of an integer, and for a float its \<open>repr\<close>, which is taken as given.
  \<open>json.loads\<close> keeps, of the entries the text then has under one key, the last value at
  the first place. \<open>json_dict\<close> is a dict in memory after it was written to a JSON column
  or to a snapshot and read back.
\<close>

definition str_of_int :: "int \<Rightarrow> string" where
  "str_of_int i = (if i < 0 then CHR ''-'' # str_of_nat (nat (- i)) else str_of_nat (nat i))"

definition json_key :: "(rat \<Rightarrow> string) \<Rightarrow> json \<Rightarrow> string" where
  "json_key float_repr k =
     (case k of
        JStr s \<Rightarrow> s
      | JBool b \<Rightarrow> (if b then ''true'' else ''false'')
      | JNull \<Rightarrow> ''null''
      | JInt i \<Rightarrow> str_of_int i
      | JFloat r \<Rightarrow> float_repr r
      | _ \<Rightarrow> [])"

definition json_dict :: "(rat \<Rightarrow> string) \<Rightarrow> pydict \<Rightarrow> dict" where
  "json_dict float_repr d = fold (\<lambda>(k, v). AList.update (json_key float_repr k) v) d []"

section \<open>Rows as dicts\<close>

text \<open>\<open>model_to_dict\<close>: one entry per column, in the order of the table's columns.\<close>

definition enc_opt_str :: "string option \<Rightarrow> json" where
  "enc_opt_str s = (case s of None \<Rightarrow> JNull | Some t \<Rightarrow> JStr t)"

definition enc_opt_dict :: "dict option \<Rightarrow> json" where
  "enc_opt_dict d = (case d of None \<Rightarrow> JNull | Some kvs \<Rightarrow> JObj kvs)"

definition enc_version :: "version_entry \<Rightarrow> json" where
  "enc_version v =
     JObj [(''version'', JStr (version v)), (''comment'', enc_opt_str (comment v)),
           (''created_at'', JInt (created_at_v v))]"

definition enc_versions :: "version_entry list option \<Rightarrow> json" where
  "enc_versions vs = (case vs of None \<Rightarrow> JNull | Some l \<Rightarrow> JArr (map enc_version l))"

definition enc_file :: "file_entry \<Rightarrow> json" where
  "enc_file f =
     JObj ((''path'', JStr (path f)) #
           (case download_weight f of None \<Rightarrow> [] | Some w \<Rightarrow> [(''download_weight'', JFloat w)]))"

definition enc_staging :: "staging_col \<Rightarrow> json" where
  "enc_staging s =
     (case s of SqlNull \<Rightarrow> JNull | JsonNull \<Rightarrow> JNull | Staged fs \<Rightarrow> JArr (map enc_file fs))"

definition model_to_dict :: "artifact \<Rightarrow> dict" where
  "model_to_dict a =
     [(''id'', JStr (id_col a)),
      (''type'', enc_opt_str (type_col a)),
      (''workspace'', JStr (workspace a)),
      (''parent_id'', enc_opt_str (parent_id a)),
      (''alias'', enc_opt_str (alias_col a)),
      (''manifest'', enc_opt_dict (manifest a)),
      (''staging'', enc_staging (staging a)),
      (''download_count'', JFloat (download_count a)),
      (''view_count'', JFloat (view_count a)),
      (''file_count'', JInt (file_count a)),
      (''created_at'', JInt (created_at a)),
      (''created_by'', enc_opt_str (created_by a)),
      (''last_modified'', JInt (last_modified a)),
      (''versions'', enc_versions (versions a)),
      (''config'', enc_opt_dict (config a)),
      (''secrets'', enc_opt_dict (secrets a))]"

text \<open>
  \<open>_generate_artifact_data\<close>: the row as a dict, \<open>parent_id\<close> and \<open>id\<close> rendered as
  \<open>workspace/alias\<close>, the internal id under \<open>_id\<close>, and \<open>secrets\<close> popped.
\<close>

definition generate_artifact_data :: "artifact \<Rightarrow> artifact option \<Rightarrow> dict" where
  "generate_artifact_data a parent_artifact =
     (let artifact_data = model_to_dict a;
          artifact_data =
            (case parent_artifact of
               None \<Rightarrow> artifact_data
             | Some p \<Rightarrow>
                 AList.update ''parent_id''
                   (JStr (workspace p @ ''/'' @ str_of_opt (alias_col p))) artifact_data);
          artifact_data =
            AList.update ''id'' (JStr (workspace a @ ''/'' @ str_of_opt (alias_col a)))
              artifact_data;
          artifact_data = AList.update ''_id'' (JStr (id_col a)) artifact_data
      in AList.delete ''secrets'' artifact_data)"

text \<open>
  \<open>ArtifactModel(**data)\<close>: the columns are read back from a dict. The columns are typed
  here, so a value of another shape than the controller writes is read as the column's
  default; a missing \<open>id\<close> is drawn afresh.
\<close>

definition dec_opt_str :: "json \<Rightarrow> string option" where
  "dec_opt_str j = (case j of JStr t \<Rightarrow> Some t | _ \<Rightarrow> None)"

definition dec_str :: "json \<Rightarrow> string" where
  "dec_str j = (case j of JStr t \<Rightarrow> t | _ \<Rightarrow> [])"

definition dec_int :: "json \<Rightarrow> int" where
  "dec_int j = (case j of JInt i \<Rightarrow> i | _ \<Rightarrow> 0)"

definition dec_float :: "json \<Rightarrow> rat" where
  "dec_float j = (case j of JFloat r \<Rightarrow> r | JInt i \<Rightarrow> of_int i | _ \<Rightarrow> 0)"

definition dec_opt_dict :: "json \<Rightarrow> dict option" where
  "dec_opt_dict j = (case j of JObj kvs \<Rightarrow> Some kvs | _ \<Rightarrow> None)"

definition dec_version :: "json \<Rightarrow> version_entry" where
  "dec_version j =
     (case j of
        JObj kvs \<Rightarrow>
          \<lparr>version = dec_str (dict_get kvs ''version'' JNull),
           comment = dec_opt_str (dict_get kvs ''comment'' JNull),
           created_at_v = dec_int (dict_get kvs ''created_at'' JNull)\<rparr>
      | _ \<Rightarrow> \<lparr>version = [], comment = None, created_at_v = 0\<rparr>)"

definition dec_versions :: "json \<Rightarrow> version_entry list option" where
  "dec_versions j = (case j of JArr xs \<Rightarrow> Some (map dec_version xs) | _ \<Rightarrow> None)"

definition dec_file :: "json \<Rightarrow> file_entry" where
  "dec_file j =
     (case j of
        JObj kvs \<Rightarrow>
          \<lparr>path = dec_str (dict_get kvs ''path'' JNull),
           download_weight =
             (case dict_get kvs ''download_weight'' JNull of
                JFloat r \<Rightarrow> Some r
              | JInt i \<Rightarrow> Some (of_int i)
              | _ \<Rightarrow> None)\<rparr>
      | _ \<Rightarrow> \<lparr>path = [], download_weight = None\<rparr>)"

definition dec_staging :: "json \<Rightarrow> staging_col" where
  "dec_staging j = (case j of JArr xs \<Rightarrow> Staged (map dec_file xs) | _ \<Rightarrow> JsonNull)"

definition ArtifactModel :: "string \<Rightarrow> dict \<Rightarrow> artifact" where
  "ArtifactModel fresh_id d =
     \<lparr>id_col = (case map_of d ''id'' of Some (JStr t) \<Rightarrow> t | _ \<Rightarrow> fresh_id),
      type_col = dec_opt_str (dict_get d ''type'' JNull),
      workspace = dec_str (dict_get d ''workspace'' JNull),
      parent_id = dec_opt_str (dict_get d ''parent_id'' JNull),
      alias_col = dec_opt_str (dict_get d ''alias'' JNull),
      manifest = dec_opt_dict (dict_get d ''manifest'' JNull),
      staging = dec_staging (dict_get d ''staging'' JNull),
      download_count = dec_float (dict_get d ''download_count'' JNull),
      view_count = dec_float (dict_get d ''view_count'' JNull),
      file_count = dec_int (dict_get d ''file_count'' JNull),
      created_at = dec_int (dict_get d ''created_at'' JNull),
      created_by = dec_opt_str (dict_get d ''created_by'' JNull),
      last_modified = dec_int (dict_get d ''last_modified'' JNull),
      versions = dec_versions (dict_get d ''versions'' JNull),
      config = dec_opt_dict (dict_get d ''config'' JNull),
      secrets = dec_opt_dict (dict_get d ''secrets'' JNull)\<rparr>"

section \<open>The object store\<close>

text \<open>
  \<open>safe_join\<close> and the key layout are in \<open>hypha.utils\<close>; a key is kept as its components:
  the prefix, the workspace, the artifact's id, the version index, and for a blob its path.
  \<open>VersionJson p w i n\<close> stands for \<open>p/w/artifacts/i/v<n>.json\<close> and \<open>VersionFile p w i n f\<close>
  for \<open>p/w/artifacts/i/v<n>/f\<close>. A snapshot object holds the JSON text of a row, kept as the
  JSON value (\<open>json.loads\<close> undoes \<open>json.dumps\<close>).
\<close>

datatype s3_key =
    VersionJson string string string nat
  | VersionFile string string string nat string

datatype s3_object = JsonBody json | Blob

type_synonym s3_store = "((string \<times> s3_key) \<times> s3_object) list"

record s3_config =
  endpoint_url :: json
  access_key_id :: json
  secret_access_key :: json
  region_name :: json
  bucket :: json
  prefix :: json

text \<open>
  What the controller is built with and what the services around it answer;
  \<open>repr_float\<close> is Python's \<open>repr\<close> of a float.
\<close>

datatype condition =
    KeywordLike string
  | ManifestLike string string
  | ManifestEq string json
  | PermissionEq string json
  | FieldEq string json
  | FieldGe string json
  | FieldBetween string json json

record env =
  new_id :: string
  now :: int
  generate_unique_alias :: "error + string"
  get_workspace_info :: "string \<Rightarrow> error + bool"
  validate_collection :: "dict option \<Rightarrow> bool"
  validate_generic :: "dict option \<Rightarrow> bool"
  validate_schema :: "json \<Rightarrow> dict option \<Rightarrow> bool"
  create_deposition :: "error + json"
  vectordb_client :: bool
  create_collection :: "string \<Rightarrow> json \<Rightarrow> json \<Rightarrow> error + unit"
  delete_collection :: "string \<Rightarrow> error + unit"
  vector_count :: "string \<Rightarrow> error + int"
  s3_controller :: s3_config
  workspace_bucket :: string
  eval_condition :: "condition \<Rightarrow> artifact \<Rightarrow> bool"
  repr_float :: "rat \<Rightarrow> string"

record state =
  artifacts :: "artifact list"
  s3 :: s3_store

text \<open>The secrets of the parent, overridden by the artifact's own.\<close>

definition dict_or_empty :: "dict option \<Rightarrow> dict" where
  "dict_or_empty d = (case d of None \<Rightarrow> [] | Some kvs \<Rightarrow> kvs)"

definition merged_secrets :: "artifact \<Rightarrow> artifact option \<Rightarrow> dict" where
  "merged_secrets a parent_artifact =
     (let secrets0 =
            (case parent_artifact of
               None \<Rightarrow> []
             | Some p \<Rightarrow> dict_or_empty (secrets p))
      in dict_update secrets0 (dict_or_empty (secrets a)))"

definition json_or :: "json \<Rightarrow> json \<Rightarrow> json" where
  "json_or x y = (if truthy x then x else y)"

definition get_s3_config :: "env \<Rightarrow> artifact \<Rightarrow> artifact option \<Rightarrow> s3_config" where
  "get_s3_config ev a parent_artifact =
     (let secrets0 = merged_secrets a parent_artifact;
          access_key_id0 = dict_get secrets0 ''S3_ACCESS_KEY_ID'' JNull;
          secret_access_key0 = dict_get secrets0 ''S3_SECRET_ACCESS_KEY'' JNull
      in if \<not> truthy access_key_id0 \<or> \<not> truthy secret_access_key0 then
           \<lparr>endpoint_url = endpoint_url (s3_controller ev),
            access_key_id = access_key_id (s3_controller ev),
            secret_access_key = secret_access_key (s3_controller ev),
            region_name = region_name (s3_controller ev),
            bucket = JStr (workspace_bucket ev),
            prefix = JStr ''''\<rparr>
         else
           \<lparr>endpoint_url = dict_get secrets0 ''S3_ENDPOINT_URL'' JNull,
            access_key_id = access_key_id0,
            secret_access_key = secret_access_key0,
            region_name = dict_get secrets0 ''S3_REGION_NAME'' JNull,
            bucket = json_or (dict_get secrets0 ''S3_BUCKET'' JNull) (JStr (workspace_bucket ev)),
            prefix = json_or (dict_get secrets0 ''S3_PREFIX'' JNull) (JStr '''')\<rparr>)"

text \<open>
  \<open>_create_client_async\<close> asserts that the credentials are there; the bucket and the
  prefix must then be strings to address an object.
\<close>

definition create_client :: "s3_config \<Rightarrow> error + (string \<times> string)" where
  "create_client c =
     (if \<not> (truthy (endpoint_url c) \<and> truthy (access_key_id c)
             \<and> truthy (secret_access_key c) \<and> truthy (region_name c))
      then Inl AssertionError
      else (case (bucket c, prefix c) of
              (JStr b, JStr p) \<Rightarrow> Inr (b, p)
            | _ \<Rightarrow> Inl TypeError))"

definition save_version_to_s3 ::
  "int \<Rightarrow> artifact \<Rightarrow> s3_config \<Rightarrow> s3_store \<Rightarrow> error + s3_store" where
  "save_version_to_s3 version_index a c store =
     on_ok (check (version_index \<ge> 0) AssertionError) (\<lambda>_.
     on_ok (create_client c) (\<lambda>(b, p).
       Inr (AList.update (b, VersionJson p (workspace a) (id_col a) (nat version_index))
              (JsonBody (JObj (model_to_dict a))) store)))"

text \<open>
  \<open>_load_version_from_s3\<close> resolves the configuration again from the artifact alone; a
  missing object is a client error; \<open>secrets\<close> is popped unless asked for.
\<close>

definition load_version_from_s3 ::
  "env \<Rightarrow> artifact \<Rightarrow> int \<Rightarrow> bool \<Rightarrow> s3_store \<Rightarrow> error + dict" where
  "load_version_from_s3 ev a version_index include_secrets store =
     on_ok (check (version_index \<ge> 0) AssertionError) (\<lambda>_.
     on_ok (create_client (get_s3_config ev a None)) (\<lambda>(b, p).
       (case map_of store (b, VersionJson p (workspace a) (id_col a) (nat version_index)) of
          Some (JsonBody (JObj d)) \<Rightarrow>
            Inr (if include_secrets then d else AList.delete ''secrets'' d)
        | Some (JsonBody _) \<Rightarrow> Inl TypeError
        | _ \<Rightarrow> Inl ClientError)))"

text \<open>
  \<open>_delete_version_files_from_s3\<close>, when it runs: the snapshot object is deleted and,
  with \<open>delete_files\<close>, every blob under the version's prefix.
\<close>

definition under_version :: "string \<Rightarrow> string \<Rightarrow> string \<Rightarrow> string \<Rightarrow> nat \<Rightarrow> (string \<times> s3_key) \<Rightarrow> bool" where
  "under_version b p w i n addr =
     (case addr of
        (b', VersionFile p' w' i' n' f) \<Rightarrow> b' = b \<and> p' = p \<and> w' = w \<and> i' = i \<and> n' = n
      | _ \<Rightarrow> False)"

definition delete_version_files_from_s3 ::
  "int \<Rightarrow> artifact \<Rightarrow> s3_config \<Rightarrow> bool \<Rightarrow> s3_store \<Rightarrow> error + s3_store" where
  "delete_version_files_from_s3 version_index a c delete_files store =
     on_ok (check (version_index \<ge> 0) AssertionError) (\<lambda>_.
     on_ok (create_client c) (\<lambda>(b, p).
       (let store1 =
              AList.delete (b, VersionJson p (workspace a) (id_col a) (nat version_index)) store
        in Inr (if delete_files
                then filter (\<lambda>(addr, obj). \<not> under_version b p (workspace a) (id_col a)
                                                 (nat version_index) addr) store1
                else store1))))"

section \<open>The lifecycle controller\<close>

text \<open>
  Every public operation takes \<open>context = {user, ws}\<close>; a missing context or a context
  without \<open>ws\<close> is a \<open>ValueError\<close>.
\<close>

record call_context =
  ctx_ws :: "string option"
  ctx_user :: user_info

definition with_context :: "call_context option \<Rightarrow> error + (string \<times> user_info)" where
  "with_context ctx =
     (case ctx of
        None \<Rightarrow> Inl ValueError
      | Some c \<Rightarrow> (case ctx_ws c of None \<Rightarrow> Inl ValueError | Some w \<Rightarrow> Inr (w, ctx_user c)))"

definition validate_artifact_id :: "string \<Rightarrow> string \<Rightarrow> error + string" where
  "validate_artifact_id artifact_id w =
     (if matches_uuid artifact_id then Inr artifact_id
      else if CHR ''/'' \<in> set artifact_id then
        (if length (split_on CHR ''/'' artifact_id) = 2 then Inr artifact_id
         else Inl AssertionError)
      else Inr (w @ ''/'' @ artifact_id))"

text \<open>
  The table under its constraints: the primary key \<open>id\<close> and the unique pair
  \<open>(workspace, alias)\<close> (a NULL alias never collides). \<open>session.add\<close> inserts a row,
  \<open>session.merge\<close> replaces the row with the same id or inserts.
\<close>

definition alias_taken :: "artifact \<Rightarrow> artifact list \<Rightarrow> bool" where
  "alias_taken a table =
     (alias_col a \<noteq> None \<and>
      list_ex (\<lambda>r. id_col r \<noteq> id_col a \<and> workspace r = workspace a \<and> alias_col r = alias_col a)
        table)"

definition session_add :: "artifact \<Rightarrow> artifact list \<Rightarrow> error + artifact list" where
  "session_add a table =
     (if list_ex (\<lambda>r. id_col r = id_col a) table \<or> alias_taken a table then Inl IntegrityError
      else Inr (table @ [a]))"

definition session_merge :: "artifact \<Rightarrow> artifact list \<Rightarrow> error + artifact list" where
  "session_merge a table =
     (if alias_taken a table then Inl IntegrityError
      else if list_ex (\<lambda>r. id_col r = id_col a) table
      then Inr (map (\<lambda>r. if id_col r = id_col a then a else r) table)
      else Inr (table @ [a]))"

subsection \<open>create\<close>

text \<open>The alias is stripped; \<open>workspace/alias\<close> is split and fixes the workspace.\<close>

definition create_split_alias ::
  "string option \<Rightarrow> string option \<Rightarrow> error + (string option \<times> string option)" where
  "create_split_alias alias0 workspace0 =
     (case alias0 of
        None \<Rightarrow> Inr (alias0, workspace0)
      | Some [] \<Rightarrow> Inr (alias0, workspace0)
      | Some al0 \<Rightarrow>
          (let al = strip al0 in
           if CHR ''^'' \<in> set al then Inl AssertionError
           else if CHR ''/'' \<in> set al then
             (case split_on CHR ''/'' al of
                [w, al2] \<Rightarrow>
                  (if truthy_str workspace0 \<and> Some w \<noteq> workspace0 then Inl ValueError
                   else Inr (Some al2, Some w))
              | _ \<Rightarrow> Inl ValueError)
           else Inr (Some al, workspace0)))"

text \<open>
  With a parent: the caller needs \<open>create\<close> on it, the workspace is the parent's and the
  parent must have a manifest. Without: the caller needs \<open>read_write\<close> on the workspace.
\<close>

definition create_resolve_parent ::
  "artifact list \<Rightarrow> user_info \<Rightarrow> string \<Rightarrow> string option \<Rightarrow> string option \<Rightarrow>
   error + (artifact option \<times> string option \<times> string)" where
  "create_resolve_parent table u w parent_id0 workspace0 =
     (case parent_id0 of
        Some (c # cs) \<Rightarrow>
          on_ok (validate_artifact_id (c # cs) w) (\<lambda>pid.
          on_ok (get_artifact_with_permission table u pid ''create'') (\<lambda>(parent_artifact, _).
          on_ok (check (\<not> truthy_str workspace0 \<or> workspace0 = Some (workspace parent_artifact))
                   AssertionError) (\<lambda>_.
          on_ok (check (truthy_dict (manifest parent_artifact)) ValueError) (\<lambda>_.
            Inr (Some parent_artifact, Some (id_col parent_artifact),
                 workspace parent_artifact)))))
      | _ \<Rightarrow>
          (let workspace1 = (case workspace0 of Some (c # cs) \<Rightarrow> c # cs | _ \<Rightarrow> w) in
           on_ok (check (check_permission u workspace1 perm_read_write) PermissionError) (\<lambda>_.
             Inr (None, parent_id0, workspace1))))"

text \<open>\<open>_get_zenodo_client\<close>: the token of the chosen archive must be among the secrets.\<close>

definition get_zenodo_client ::
  "artifact option \<Rightarrow> artifact option \<Rightarrow> string option \<Rightarrow> error + unit" where
  "get_zenodo_client a0 parent_artifact publish_to =
     (case a0 of
        None \<Rightarrow> Inl AttributeError
      | Some a \<Rightarrow>
          (let secrets0 = merged_secrets a parent_artifact in
           if publish_to = Some ''zenodo'' then
             check (truthy (dict_get secrets0 ''ZENODO_ACCESS_TOKEN'' JNull)) ValueError
           else if publish_to = Some ''sandbox_zenodo'' then
             check (truthy (dict_get secrets0 ''SANDBOX_ZENODO_ACCESS_TOKEN'' JNull)) ValueError
           else Inl ValueError))"

text \<open>
  The alias: generated from a pattern, generated freely, or the caller's own, which must
  not look like a UUID and may name an existing row only with \<open>overwrite\<close>. The result
  is the alias, the id of the row, the \<open>overwrite\<close> flag and the config.
\<close>

definition create_choose_alias ::
  "env \<Rightarrow> artifact list \<Rightarrow> artifact option \<Rightarrow> string option \<Rightarrow> string \<Rightarrow> string option \<Rightarrow>
   string option \<Rightarrow> bool \<Rightarrow> dict \<Rightarrow> error + (string \<times> string \<times> bool \<times> dict)" where
  "create_choose_alias ev table parent_artifact alias1 workspace1 parent_id1 publish_to
     overwrite config1 =
     (if truthy_str alias1 \<and> CHR ''{'' \<in> set (str_of_opt alias1)
          \<and> CHR ''}'' \<in> set (str_of_opt alias1) then
        on_ok (if truthy_str publish_to then
                 on_ok (get_zenodo_client parent_artifact None publish_to) (\<lambda>_.
                 on_ok (create_deposition ev) (\<lambda>deposition_info.
                 on_ok (str_getitem deposition_info ''id'') (\<lambda>_.
                 on_ok (str_getitem deposition_info ''conceptrecid'') (\<lambda>_.
                   Inr (AList.update ''zenodo'' deposition_info config1)))))
               else Inr config1) (\<lambda>config2.
        on_ok (case parent_artifact of
                 None \<Rightarrow> Inr []
               | Some p \<Rightarrow>
                   (if truthy_dict (config p)
                    then py_update (JObj [])
                           (dict_get (dict_or_empty (config p)) ''id_parts'' (JObj []))
                    else Inr [])) (\<lambda>id_parts.
        on_ok (generate_unique_alias ev) (\<lambda>al.
          Inr (al, new_id ev, overwrite, config2))))
      else
        (case alias1 of
           None \<Rightarrow> on_ok (generate_unique_alias ev) (\<lambda>al. Inr (al, new_id ev, overwrite, config1))
         | Some al \<Rightarrow>
             (if matches_uuid al then Inl ValueError
              else
                (case get_artifact table (workspace1 @ ''/'' @ al) of
                   Inl KeyError \<Rightarrow> Inr (al, new_id ev, False, config1)
                 | Inl e \<Rightarrow> Inl e
                 | Inr existing_artifact \<Rightarrow>
                     (if parent_id1 \<noteq> parent_id existing_artifact \<and> \<not> overwrite
                      then Inl FileExistsError
                      else if \<not> overwrite then Inl FileExistsError
                      else Inr (al, id_col existing_artifact, overwrite, config1))))))"

text \<open>
  The permissions of the new config: the caller's, then the acting user set to \<open>*\<close>, then
  the parent's entries written over them. The merged dict is kept as the JSON column, the
  snapshot and every later read have it; in the data the call itself returns, a key that
  is no string is still the value it was.
\<close>

definition parent_permissions_of :: "artifact option \<Rightarrow> error + json" where
  "parent_permissions_of parent_artifact =
     (case parent_artifact of
        None \<Rightarrow> Inr (JObj [])
      | Some p \<Rightarrow>
          (case config p of
             None \<Rightarrow> Inl TypeError
           | Some c \<Rightarrow> (case map_of c ''permissions'' of None \<Rightarrow> Inl KeyError | Some pp \<Rightarrow> Inr pp)))"

definition merge_permissions ::
  "env \<Rightarrow> user_info \<Rightarrow> artifact option \<Rightarrow> dict \<Rightarrow> error + dict" where
  "merge_permissions ev u parent_artifact config1 =
     on_ok (parent_permissions_of parent_artifact) (\<lambda>parent_permissions.
     on_ok (str_setitem (if config1 = [] then JObj [] else dict_get config1 ''permissions'' (JObj []))
              (user_id u) (JStr ''*'')) (\<lambda>permissions.
     on_ok (py_update permissions parent_permissions) (\<lambda>permissions1.
       Inr (AList.update ''permissions'' (JObj (json_dict (repr_float ev) permissions1))
              config1))))"

text \<open>
  The versions of a new artifact and the version the rest of \<open>create\<close> goes on with
  (\<open>new\<close> has become the label \<open>v0\<close>).
\<close>

definition initial_versions ::
  "int \<Rightarrow> string option \<Rightarrow> string option \<Rightarrow> version_entry list \<times> string option" where
  "initial_versions t version0 comment0 =
     (let versions0 = [] in
      case version0 of
        None \<Rightarrow> (versions0, version0)
      | Some v \<Rightarrow>
          (if v = ''stage'' then (versions0, version0)
           else
             (let label = (if v = ''new'' then ''v'' @ str_of_nat (length versions0) else v);
                  comment1 = (case comment0 of Some (c # cs) \<Rightarrow> c # cs | _ \<Rightarrow> ''Initial version'')
              in (versions0 @ [\<lparr>version = label, comment = Some comment1, created_at_v = t\<rparr>],
                  Some label))))"

definition version_sel_of :: "string option \<Rightarrow> version_sel" where
  "version_sel_of v = (case v of None \<Rightarrow> VNone | Some s \<Rightarrow> VStr s)"

definition create_vector_collection :: "env \<Rightarrow> artifact \<Rightarrow> dict \<Rightarrow> error + unit" where
  "create_vector_collection ev a config1 =
     (if type_col a = Some ''vector-collection'' then
        on_ok (check (vectordb_client ev) AssertionError) (\<lambda>_.
          (case dict_get config1 ''vectors_config'' (JObj []) of
             JObj vc \<Rightarrow>
               create_collection ev (workspace a @ ''^'' @ str_of_opt (alias_col a))
                 (dict_get vc ''size'' (JInt 128)) (dict_get vc ''distance'' (JStr ''Cosine''))
           | _ \<Rightarrow> Inl AttributeError))
      else Inr ())"

text \<open>The row \<open>create\<close> builds, and the version it goes on with.\<close>

definition create_row ::
  "env \<Rightarrow> user_info \<Rightarrow> string \<Rightarrow> string option \<Rightarrow> string \<Rightarrow> string option \<Rightarrow> string \<Rightarrow>
   dict option \<Rightarrow> string option \<Rightarrow> string option \<Rightarrow> dict \<Rightarrow> dict option \<Rightarrow> artifact" where
  "create_row ev u id1 type0 workspace2 parent_id1 alias2 manifest0 version0 comment0 config2
     secrets0 =
     (case initial_versions (now ev) version0 comment0 of
        (versions1, version1) \<Rightarrow>
          \<lparr>id_col = id1, type_col = type0, workspace = workspace2, parent_id = parent_id1,
           alias_col = Some alias2, manifest = manifest0,
           staging = (if version1 = Some ''stage'' then Staged [] else JsonNull),
           download_count = 0, view_count = 0, file_count = 0, created_at = now ev,
           created_by = Some (user_id u), last_modified = now ev,
           versions = Some versions1, config = Some config2, secrets = secrets0\<rparr>)"

text \<open>
  The row is merged or added, the vector collection is created for a vector collection,
  and the snapshot is written at the resolved index; the caller gets the row's data.
\<close>

definition create_persist ::
  "env \<Rightarrow> state \<Rightarrow> artifact \<Rightarrow> artifact option \<Rightarrow> bool \<Rightarrow> string option \<Rightarrow> dict \<Rightarrow>
   error + (dict \<times> state)" where
  "create_persist ev st new_artifact parent_artifact overwrite1 version1 config2 =
     on_ok (get_version_index new_artifact (version_sel_of version1)) (\<lambda>version_index.
     on_ok (if overwrite1 then session_merge new_artifact (artifacts st)
            else session_add new_artifact (artifacts st)) (\<lambda>table1.
     on_ok (create_vector_collection ev new_artifact config2) (\<lambda>_.
     on_ok (save_version_to_s3 version_index new_artifact
              (get_s3_config ev new_artifact parent_artifact) (s3 st)) (\<lambda>store1.
       Inr (generate_artifact_data new_artifact parent_artifact,
            \<lparr>artifacts = table1, s3 = store1\<rparr>)))))"

definition create ::
  "env \<Rightarrow> state \<Rightarrow> string option \<Rightarrow> string option \<Rightarrow> string option \<Rightarrow> dict option \<Rightarrow>
   string option \<Rightarrow> dict option \<Rightarrow> dict option \<Rightarrow> string option \<Rightarrow> string option \<Rightarrow>
   string option \<Rightarrow> bool \<Rightarrow> call_context option \<Rightarrow> error + (dict \<times> state)" where
  "create ev st alias0 workspace0 parent_id0 manifest0 type0 config0 secrets0 publish_to
     version0 comment0 overwrite ctx =
     on_ok (with_context ctx) (\<lambda>(w, u).
     on_ok (check (if type0 = Some ''collection'' then validate_collection ev manifest0
                   else if type0 = Some ''generic'' then validate_generic ev manifest0
                   else True) ValidationError) (\<lambda>_.
     on_ok (create_split_alias alias0 workspace0) (\<lambda>(alias1, workspace1).
     on_ok (create_resolve_parent (artifacts st) u w parent_id0 workspace1)
       (\<lambda>(parent_artifact, parent_id1, workspace2).
     on_ok (get_workspace_info ev workspace2) (\<lambda>persistent.
     on_ok (check persistent PermissionError) (\<lambda>_.
     on_ok (create_choose_alias ev (artifacts st) parent_artifact alias1 workspace2 parent_id1
              publish_to overwrite (dict_or_empty config0))
       (\<lambda>(alias2, id1, overwrite1, config1).
     on_ok (merge_permissions ev u parent_artifact config1) (\<lambda>config2.
     on_ok (check (truthy_dict manifest0) AssertionError) (\<lambda>_.
       create_persist ev st
         (create_row ev u id1 type0 workspace2 parent_id1 alias2 manifest0 version0 comment0
            config2 secrets0)
         parent_artifact overwrite1 (snd (initial_versions (now ev) version0 comment0))
         config2)))))))))"

subsection \<open>edit\<close>

text \<open>The row with the same id is replaced by the edited one when the session commits.\<close>

definition update_row :: "artifact \<Rightarrow> artifact list \<Rightarrow> artifact list" where
  "update_row a table = map (\<lambda>r. if id_col r = id_col a then a else r) table"

text \<open>
  The version part of \<open>edit\<close>: a version other than \<open>stage\<close> appends an entry (\<open>new\<close>
  becomes \<open>v<N>\<close>) and the index is that of \<open>latest\<close>; \<open>stage\<close> gives the stage index; no
  version gives the index of \<open>None\<close>. The result is the row, the index and the version the
  rest of \<open>edit\<close> goes on with.
\<close>

definition edit_version ::
  "int \<Rightarrow> artifact \<Rightarrow> string option \<Rightarrow> string option \<Rightarrow>
   error + (artifact \<times> int \<times> string option)" where
  "edit_version t a version0 comment0 =
     (case version0 of
        None \<Rightarrow> on_ok (get_version_index a VNone) (\<lambda>version_index. Inr (a, version_index, None))
      | Some v \<Rightarrow>
          (if v \<noteq> ''stage'' then
             (let versions0 = (case versions a of None \<Rightarrow> [] | Some vs \<Rightarrow> vs);
                  label = (if v = ''new'' then ''v'' @ str_of_nat (length versions0) else v);
                  a1 = a\<lparr>versions :=
                          Some (versions0 @ [\<lparr>version = label, comment = comment0,
                                              created_at_v = t\<rparr>])\<rparr>
              in on_ok (get_version_index a1 (VStr ''latest'')) (\<lambda>version_index.
                   Inr (a1, version_index, Some label)))
           else on_ok (get_version_index a (VStr ''stage'')) (\<lambda>version_index.
                  Inr (a, version_index, Some v))))"

text \<open>
  A supplied config replaces the stored one; its permissions are merged with the parent's
  and the acting user's only when the artifact has a parent.
\<close>

definition edit_config ::
  "env \<Rightarrow> user_info \<Rightarrow> artifact option \<Rightarrow> artifact \<Rightarrow> dict option \<Rightarrow> error + artifact" where
  "edit_config ev u parent_artifact a config0 =
     (case config0 of
        None \<Rightarrow> Inr a
      | Some c \<Rightarrow>
          (case parent_artifact of
             None \<Rightarrow> Inr (a\<lparr>config := Some c\<rparr>)
           | Some p \<Rightarrow>
               on_ok (merge_permissions ev u parent_artifact c) (\<lambda>c1. Inr (a\<lparr>config := Some c1\<rparr>))))"

text \<open>
  What \<open>edit\<close> does to the fetched row, and the index its snapshot is written at.
\<close>

definition edit_row ::
  "env \<Rightarrow> user_info \<Rightarrow> artifact \<Rightarrow> artifact option \<Rightarrow> dict option \<Rightarrow> string option \<Rightarrow>
   dict option \<Rightarrow> dict option \<Rightarrow> string option \<Rightarrow> string option \<Rightarrow> error + (artifact \<times> int)" where
  "edit_row ev u a parent_artifact manifest0 type0 config0 secrets0 version0 comment0 =
     (let a1 = a\<lparr>type_col := (if truthy_str type0 then type0 else type_col a)\<rparr> in
     on_ok (check (\<not> truthy_dict manifest0
                   \<or> (if type_col a1 = Some ''collection'' then validate_collection ev manifest0
                       else if type_col a1 = Some ''generic'' then validate_generic ev manifest0
                       else True)) ValidationError) (\<lambda>_.
     (let a2 = (if truthy_dict manifest0 then a1\<lparr>manifest := manifest0\<rparr> else a1) in
     on_ok (edit_version (now ev) a2 version0 comment0) (\<lambda>(a3, version_index, version1).
     on_ok (edit_config ev u parent_artifact a3 config0) (\<lambda>a4.
     (let a5 = (case secrets0 of None \<Rightarrow> a4 | Some s \<Rightarrow> a4\<lparr>secrets := Some s\<rparr>);
          a6 = a5\<lparr>last_modified := now ev\<rparr>;
          a7 = (if version1 \<noteq> Some ''stage'' then a6\<lparr>staging := JsonNull\<rparr>
                else (case staging a6 of
                        Staged (f # fs) \<Rightarrow> a6
                      | _ \<Rightarrow> a6\<lparr>staging := Staged []\<rparr>))
      in Inr (a7, version_index)))))))"

definition edit ::
  "env \<Rightarrow> state \<Rightarrow> string \<Rightarrow> dict option \<Rightarrow> string option \<Rightarrow> dict option \<Rightarrow> dict option \<Rightarrow>
   string option \<Rightarrow> string option \<Rightarrow> call_context option \<Rightarrow> error + (dict \<times> state)" where
  "edit ev st artifact_id manifest0 type0 config0 secrets0 version0 comment0 ctx =
     on_ok (with_context ctx) (\<lambda>(w, u).
     on_ok (validate_artifact_id artifact_id w) (\<lambda>artifact_id1.
     on_ok (get_artifact_with_permission (artifacts st) u artifact_id1 ''edit'')
       (\<lambda>(a, parent_artifact).
     on_ok (edit_row ev u a parent_artifact manifest0 type0 config0 secrets0 version0 comment0)
       (\<lambda>(a7, version_index).
     on_ok (save_version_to_s3 version_index a7 (get_s3_config ev a7 parent_artifact) (s3 st))
       (\<lambda>store1.
       Inr (generate_artifact_data a7 parent_artifact,
            \<lparr>artifacts = update_row a7 (artifacts st), s3 = store1\<rparr>))))))"

subsection \<open>read\<close>

text \<open>
  \<open>_increment_stat\<close> on \<open>view_count\<close>: an update statement on the rows the id selects.
\<close>

definition increment_view_count :: "artifact list \<Rightarrow> string \<Rightarrow> error + artifact list" where
  "increment_view_count table artifact_id =
     on_ok (get_artifact_id_cond artifact_id) (\<lambda>cond.
       Inr (map (\<lambda>r. if cond r then r\<lparr>view_count := view_count r + 1\<rparr> else r) table))"

text \<open>\<open>data["config"] = data.get("config", {}); data["config"][key] = value\<close>\<close>

definition set_config_entry :: "dict \<Rightarrow> string \<Rightarrow> json \<Rightarrow> error + dict" where
  "set_config_entry artifact_data k v =
     on_ok (str_setitem (dict_get artifact_data ''config'' (JObj [])) k v) (\<lambda>c.
       Inr (AList.update ''config'' c artifact_data))"

text \<open>
  Unless the read is silent the view count is incremented by an update statement, which
  the session synchronizes into the row it has fetched. The selector that names the
  current state gives that row, any other one the snapshot of that version. A collection
  gets its number of children, a vector collection its number of vectors.
\<close>

definition read ::
  "env \<Rightarrow> state \<Rightarrow> string \<Rightarrow> bool \<Rightarrow> string option \<Rightarrow> call_context option \<Rightarrow>
   error + (dict \<times> state)" where
  "read ev st artifact_id silent version0 ctx =
     on_ok (with_context ctx) (\<lambda>(w, u).
     on_ok (validate_artifact_id artifact_id w) (\<lambda>artifact_id1.
     on_ok (get_artifact_with_permission (artifacts st) u artifact_id1 ''read'')
       (\<lambda>(a, parent_artifact).
     on_ok (if \<not> silent then increment_view_count (artifacts st) artifact_id1
            else Inr (artifacts st)) (\<lambda>table1.
     on_ok (Inr (if \<not> silent then a\<lparr>view_count := view_count a + 1\<rparr> else a)) (\<lambda>a.
     on_ok (get_version_index a (version_sel_of version0)) (\<lambda>version_index.
     on_ok (get_version_index a VNone) (\<lambda>current_index.
     on_ok (if version_index = current_index then Inr (generate_artifact_data a parent_artifact)
            else load_version_from_s3 ev a version_index False (s3 st)) (\<lambda>artifact_data.
     on_ok (if type_col a = Some ''collection'' then
              set_config_entry artifact_data ''child_count''
                (JInt (int (length (filter (\<lambda>r. parent_id r = Some (id_col a)) (artifacts st)))))
            else if type_col a = Some ''vector-collection'' \<and> vectordb_client ev then
              on_ok (vector_count ev (workspace a @ ''^'' @ str_of_opt (alias_col a))) (\<lambda>n.
                set_config_entry artifact_data ''vector_count'' (JInt n))
            else Inr artifact_data) (\<lambda>artifact_data1.
       Inr (artifact_data1, st\<lparr>artifacts := table1\<rparr>))))))))))"

subsection \<open>commit\<close>

text \<open>
  The staged files must all be in the object store; the positive download weights are
  collected in the order of the staged list.
\<close>

fun staged_download_weights ::
  "s3_store \<Rightarrow> string \<Rightarrow> string \<Rightarrow> artifact \<Rightarrow> nat \<Rightarrow> file_entry list \<Rightarrow> dict \<Rightarrow> error + dict" where
  "staged_download_weights store b p a n [] download_weights = Inr download_weights"
| "staged_download_weights store b p a n (file_info # fs) download_weights =
     (case map_of store (b, VersionFile p (workspace a) (id_col a) n (path file_info)) of
        None \<Rightarrow> Inl FileNotFoundError
      | Some obj \<Rightarrow>
          staged_download_weights store b p a n fs
            (case download_weight file_info of
               None \<Rightarrow> download_weights
             | Some wt \<Rightarrow>
                 (if wt > 0 then AList.update (path file_info) (JFloat wt) download_weights
                  else download_weights)))"

definition count_files_in_prefix ::
  "s3_store \<Rightarrow> string \<Rightarrow> string \<Rightarrow> artifact \<Rightarrow> nat \<Rightarrow> int" where
  "count_files_in_prefix store b p a n =
     int (length (filter (\<lambda>(addr, obj). under_version b p (workspace a) (id_col a) n addr) store))"

definition commit_staged_files ::
  "env \<Rightarrow> s3_store \<Rightarrow> artifact \<Rightarrow> artifact option \<Rightarrow> int \<Rightarrow> error + artifact" where
  "commit_staged_files ev store a parent_artifact version_index =
     (case staging a of
        Staged (f # fs) \<Rightarrow>
          on_ok (create_client (get_s3_config ev a parent_artifact)) (\<lambda>(b, p).
          on_ok (staged_download_weights store b p a (nat version_index) (f # fs) [])
            (\<lambda>download_weights.
            (let a1 = (if download_weights \<noteq> []
                       then a\<lparr>config := Some (AList.update ''download_weights''
                                                   (JObj download_weights)
                                                   (dict_or_empty (config a)))\<rparr>
                       else a)
             in Inr (a1\<lparr>file_count := count_files_in_prefix store b p a (nat version_index)\<rparr>))))
      | _ \<Rightarrow> Inr a)"

text \<open>
  \<open>commit\<close> works on the staged snapshot, not on the live row: it is loaded from the
  object store at the stage index, gets the new version entry when a version is given,
  loses its staging and replaces the row. \<open>commit_row\<close> is what becomes of the loaded
  snapshot.
\<close>

definition commit_row ::
  "env \<Rightarrow> s3_store \<Rightarrow> dict \<Rightarrow> artifact option \<Rightarrow> int \<Rightarrow> string option \<Rightarrow> string option \<Rightarrow>
   error + artifact" where
  "commit_row ev store artifact_data parent_artifact version_index version0 comment0 =
     (let a = ArtifactModel (new_id ev) artifact_data;
          versions0 = (case versions a of None \<Rightarrow> [] | Some vs \<Rightarrow> vs);
          a1 = a\<lparr>config := Some (dict_or_empty (config a))\<rparr>
      in
     on_ok (commit_staged_files ev store a1 parent_artifact version_index) (\<lambda>a2.
     on_ok (case parent_artifact of
              None \<Rightarrow> Inr ()
            | Some p \<Rightarrow>
                (if ''collection_schema'' \<in> fst ` set (dict_or_empty (config p))
                 then check (validate_schema ev
                               (dict_get (dict_or_empty (config p)) ''collection_schema'' JNull)
                               (manifest a2)) ValueError
                 else Inr ())) (\<lambda>_.
     on_ok (check (truthy_dict (manifest a2)) AssertionError) (\<lambda>_.
     (let versions1 =
            (case version0 of
               None \<Rightarrow> versions0
             | Some v \<Rightarrow>
                 versions0 @
                   [\<lparr>version = (if v = ''new'' then ''v'' @ str_of_nat (length versions0) else v),
                     comment = comment0, created_at_v = now ev\<rparr>])
      in Inr (a2\<lparr>versions := Some versions1, staging := JsonNull,
                  last_modified := now ev\<rparr>))))))"

definition commit ::
  "env \<Rightarrow> state \<Rightarrow> string \<Rightarrow> string option \<Rightarrow> string option \<Rightarrow> call_context option \<Rightarrow>
   error + (dict \<times> state)" where
  "commit ev st artifact_id version0 comment0 ctx =
     on_ok (with_context ctx) (\<lambda>(w, u).
     on_ok (validate_artifact_id artifact_id w) (\<lambda>artifact_id1.
     on_ok (check (version0 \<noteq> Some ''stage'') AssertionError) (\<lambda>_.
     on_ok (get_artifact_with_permission (artifacts st) u artifact_id1 ''commit'')
       (\<lambda>(a0, parent_artifact).
     on_ok (get_version_index a0 (VStr ''stage'')) (\<lambda>version_index.
     on_ok (load_version_from_s3 ev a0 version_index False (s3 st)) (\<lambda>artifact_data.
     on_ok (commit_row ev (s3 st) artifact_data parent_artifact version_index version0 comment0)
       (\<lambda>a3.
     on_ok (session_merge a3 (artifacts st)) (\<lambda>table1.
     on_ok (get_version_index a3 VNone) (\<lambda>saved_index.
     on_ok (save_version_to_s3 saved_index a3 (get_s3_config ev a3 parent_artifact) (s3 st))
       (\<lambda>store1.
       Inr (generate_artifact_data a3 parent_artifact,
            \<lparr>artifacts = table1, s3 = store1\<rparr>)))))))))))"

subsection \<open>list_children\<close>

text \<open>
  The query is a list of conditions on a row. The keyword and filter conditions are built
  as the code builds them and evaluated by the database (\<open>eval_condition\<close>); the stage
  condition is evaluated here on the \<open>staging\<close> column.
\<close>

definition replace_star :: "string \<Rightarrow> string" where
  "replace_star s = map (\<lambda>c. if c = CHR ''*'' then CHR ''%'' else c) s"

fun manifest_conditions :: "dict \<Rightarrow> error + condition list" where
  "manifest_conditions [] = Inr []"
| "manifest_conditions ((manifest_key, manifest_value) # rest) =
     on_ok (str_in ''*'' manifest_value) (\<lambda>fuzzy.
     on_ok (if fuzzy then
              (case manifest_value of
                 JStr s \<Rightarrow> Inr (ManifestLike manifest_key (replace_star s))
               | _ \<Rightarrow> Inl AttributeError)
            else Inr (ManifestEq manifest_key manifest_value)) (\<lambda>c.
     on_ok (manifest_conditions rest) (\<lambda>cs. Inr (c # cs))))"

fun config_conditions :: "dict \<Rightarrow> condition list" where
  "config_conditions [] = []"
| "config_conditions ((config_key, config_value) # rest) =
     (case config_value of
        JObj ps \<Rightarrow>
          (if config_key = ''permissions''
           then map (\<lambda>(uid, permission). PermissionEq uid permission) ps
           else [])
      | _ \<Rightarrow> []) @ config_conditions rest"

definition fixed_fields :: "string list" where
  "fixed_fields = [''type'', ''alias'', ''workspace'', ''parent_id'', ''created_by'']"

definition range_fields :: "string list" where
  "range_fields = [''created_at'', ''last_modified'', ''download_count'', ''view_count'']"

definition is_dict :: "json \<Rightarrow> bool" where
  "is_dict j = (case j of JObj kvs \<Rightarrow> True | _ \<Rightarrow> False)"

definition dict_of :: "json \<Rightarrow> dict" where
  "dict_of j = (case j of JObj kvs \<Rightarrow> kvs | _ \<Rightarrow> [])"

text \<open>
  The loop over \<open>filters.items()\<close>, carrying the stage flag and the conditions collected
  so far.
\<close>

fun filter_conditions ::
  "dict \<Rightarrow> bool \<Rightarrow> condition list \<Rightarrow> error + (bool \<times> condition list)" where
  "filter_conditions [] stage conditions = Inr (stage, conditions)"
| "filter_conditions ((key, val) # rest) stage conditions =
     (if key = ''stage'' then filter_conditions rest (truthy val) conditions
      else if key = ''manifest'' \<and> is_dict val then
        on_ok (manifest_conditions (dict_of val)) (\<lambda>cs.
          filter_conditions rest stage (conditions @ cs))
      else if key = ''config'' \<and> is_dict val then
        filter_conditions rest stage (conditions @ config_conditions (dict_of val))
      else if key \<in> set fixed_fields then
        filter_conditions rest stage (conditions @ [FieldEq key val])
      else if key \<in> set range_fields then
        (case val of
           JArr (lo # hi # extra) \<Rightarrow>
             filter_conditions rest stage (conditions @ [FieldBetween key lo hi])
         | JArr _ \<Rightarrow> Inl IndexError
         | _ \<Rightarrow> filter_conditions rest stage (conditions @ [FieldGe key val]))
      else Inl ValueError)"

text \<open>
  \<open>stage\<close>: \<open>staging IS NOT NULL AND staging != 'null'\<close>; otherwise
  \<open>staging IS NULL OR staging = 'null'\<close>.
\<close>

definition stage_condition :: "bool \<Rightarrow> artifact \<Rightarrow> bool" where
  "stage_condition stage r =
     (if stage then staging r \<noteq> SqlNull \<and> staging r \<noteq> JsonNull
      else staging r = SqlNull \<or> staging r = JsonNull)"

definition combined_condition :: "env \<Rightarrow> string \<Rightarrow> condition list \<Rightarrow> artifact \<Rightarrow> bool" where
  "combined_condition ev mode conditions r =
     (if conditions = [] then True
      else if mode = ''OR'' then list_ex (\<lambda>c. eval_condition ev c r) conditions
      else list_all (\<lambda>c. eval_condition ev c r) conditions)"

text \<open>
  The columns a projection may name, and the check of \<open>list_fields\<close>: it must be a list,
  must not name \<open>secrets\<close>, and each field must be an attribute of the model.
\<close>

definition column_names :: "string list" where
  "column_names =
     [''id'', ''type'', ''workspace'', ''parent_id'', ''alias'', ''manifest'', ''staging'',
      ''download_count'', ''view_count'', ''file_count'', ''created_at'', ''created_by'',
      ''last_modified'', ''versions'', ''config'', ''secrets'']"

fun projected_columns :: "json list \<Rightarrow> error + string list" where
  "projected_columns [] = Inr []"
| "projected_columns (JStr f # fs) =
     (if f \<in> set column_names then on_ok (projected_columns fs) (\<lambda>cs. Inr (f # cs))
      else Inl AttributeError)"
| "projected_columns (j # fs) = Inl TypeError"

definition check_list_fields :: "json \<Rightarrow> error + string list option" where
  "check_list_fields list_fields =
     (if truthy list_fields then
        (case list_fields of
           JArr fs \<Rightarrow>
             on_ok (check (JStr ''secrets'' \<notin> set fs) AssertionError) (\<lambda>_.
             on_ok (projected_columns fs) (\<lambda>cs. Inr (Some cs)))
         | _ \<Rightarrow> Inl AssertionError)
      else Inr None)"

text \<open>
  \<open>ORDER BY\<close>: the field before the first \<open><\<close>, ascending when \<open>order_by\<close> contains a
  \<open><\<close>; rows with equal keys keep their order.
\<close>

definition order_rows :: "string \<Rightarrow> artifact list \<Rightarrow> error + artifact list" where
  "order_rows order_by table =
     (let field = hd (split_on CHR ''<'' order_by);
          direction = (if CHR ''<'' \<in> set order_by then (\<lambda>l. l) else rev)
      in if field = ''id'' then Inr (direction (sort_key id_col table))
         else if field = ''view_count'' then Inr (direction (sort_key view_count table))
         else if field = ''download_count'' then Inr (direction (sort_key download_count table))
         else if field = ''last_modified'' then Inr (direction (sort_key last_modified table))
         else if field = ''created_at'' then Inr (direction (sort_key created_at table))
         else Inl AttributeError)"

datatype list_result = Items "dict list" | Page "dict list" nat nat nat

definition items_of :: "list_result \<Rightarrow> dict list" where
  "items_of r = (case r of Items xs \<Rightarrow> xs | Page xs n_total n_offset n_limit \<Rightarrow> xs)"

text \<open>
  The rows of the scope that satisfy the stage condition and the combined conditions, as
  the query selects them before ordering and paging.
\<close>

definition scope_condition :: "artifact option \<Rightarrow> string \<Rightarrow> artifact \<Rightarrow> bool" where
  "scope_condition parent_artifact w r =
     (case parent_artifact of
        Some p \<Rightarrow> parent_id r = Some (id_col p)
      | None \<Rightarrow> parent_id r = None \<and> workspace r = w)"

definition selected_rows ::
  "env \<Rightarrow> artifact list \<Rightarrow> artifact option \<Rightarrow> string \<Rightarrow> bool \<Rightarrow> string \<Rightarrow> condition list \<Rightarrow>
   artifact list" where
  "selected_rows ev table parent_artifact w stage mode conditions =
     filter (\<lambda>r. scope_condition parent_artifact w r
                \<and> stage_condition stage r
                \<and> combined_condition ev mode conditions r) table"

text \<open>The parent of the listing: fetched with the \<open>list\<close> permission when an id is given.\<close>

definition list_parent ::
  "artifact list \<Rightarrow> user_info \<Rightarrow> string \<Rightarrow> string option \<Rightarrow> error + artifact option" where
  "list_parent table u w parent_id0 =
     (case parent_id0 of
        Some (c # cs) \<Rightarrow>
          on_ok (validate_artifact_id (c # cs) w) (\<lambda>pid.
          on_ok (get_artifact_with_permission table u pid ''list'')
            (\<lambda>(parent_artifact, _). Inr (Some parent_artifact)))
      | _ \<Rightarrow> Inr None)"

text \<open>\<open>.limit(limit).offset(offset)\<close> on the ordered rows.\<close>

definition page_of :: "nat \<Rightarrow> nat \<Rightarrow> artifact list \<Rightarrow> artifact list" where
  "page_of limit offset ordered = take limit (drop offset ordered)"

text \<open>
  With a projection the query returns column values, of which \<open>scalars()\<close> keeps the
  first of each row; \<open>_generate_artifact_data\<close> then fails on the first of them, which is
  not a model object. Without a projection each row gives its data.
\<close>

definition list_results ::
  "string list option \<Rightarrow> artifact option \<Rightarrow> artifact list \<Rightarrow> error + dict list" where
  "list_results projection parent_artifact page =
     (case projection of
        None \<Rightarrow> Inr (map (\<lambda>r. generate_artifact_data r parent_artifact) page)
      | Some cs \<Rightarrow> (if page = [] then Inr [] else Inl AttributeError))"

definition list_projection :: "artifact option \<Rightarrow> error + string list option" where
  "list_projection parent_artifact =
     (case parent_artifact of
        Some p \<Rightarrow> check_list_fields (dict_get (dict_or_empty (config p)) ''list_fields'' JNull)
      | None \<Rightarrow> Inr None)"

definition list_children ::
  "env \<Rightarrow> state \<Rightarrow> string option \<Rightarrow> string list option \<Rightarrow> dict option \<Rightarrow> string \<Rightarrow> nat \<Rightarrow> nat \<Rightarrow>
   string option \<Rightarrow> bool \<Rightarrow> bool \<Rightarrow> call_context option \<Rightarrow> error + (list_result \<times> state)" where
  "list_children ev st parent_id0 keywords0 filters mode offset limit order_by silent
     pagination ctx =
     on_ok (with_context ctx) (\<lambda>(w, u).
     on_ok (list_parent (artifacts st) u w parent_id0) (\<lambda>parent_artifact.
     on_ok (list_projection parent_artifact) (\<lambda>projection.
     on_ok (filter_conditions (dict_or_empty filters) False
              (map KeywordLike (case keywords0 of None \<Rightarrow> [] | Some ks \<Rightarrow> ks)))
       (\<lambda>(stage, conditions).
     (let matching = selected_rows ev (artifacts st) parent_artifact w stage mode conditions;
          total_count = length matching
      in
     on_ok (order_rows (case order_by of Some (c # cs) \<Rightarrow> c # cs | _ \<Rightarrow> ''id'') matching)
       (\<lambda>ordered.
     on_ok (list_results projection parent_artifact (page_of limit offset ordered)) (\<lambda>results.
     on_ok (case parent_artifact of
              Some p \<Rightarrow>
                (if \<not> silent then increment_view_count (artifacts st) (id_col p)
                 else Inr (artifacts st))
            | None \<Rightarrow> Inr (artifacts st)) (\<lambda>table1.
       Inr (if pagination then Page results total_count offset limit else Items results,
            st\<lparr>artifacts := table1\<rparr>)))))))))"

subsection \<open>delete\<close>

text \<open>\<open>list.pop(i)\<close>: a negative index counts from the end.\<close>

definition list_pop :: "'a list \<Rightarrow> int \<Rightarrow> error + 'a list" where
  "list_pop xs i =
     (let n = int (length xs); j = (if i < 0 then n + i else i)
      in if 0 \<le> j \<and> j < n then Inr (take (nat j) xs @ drop (Suc (nat j)) xs)
         else Inl IndexError)"

text \<open>The part every call of \<open>delete\<close> starts with.\<close>

definition delete_begin ::
  "env \<Rightarrow> state \<Rightarrow> string \<Rightarrow> call_context option \<Rightarrow>
   error + (string \<times> artifact \<times> artifact option)" where
  "delete_begin ev st artifact_id ctx =
     on_ok (with_context ctx) (\<lambda>(w, u).
     on_ok (validate_artifact_id artifact_id w) (\<lambda>artifact_id1.
     on_ok (get_artifact_with_permission (artifacts st) u artifact_id1 ''delete'')
       (\<lambda>(a, parent_artifact).
     on_ok (if type_col a = Some ''vector-collection'' then
              on_ok (check (vectordb_client ev) AssertionError) (\<lambda>_.
                delete_collection ev (workspace a @ ''^'' @ str_of_opt (alias_col a)))
            else Inr ()) (\<lambda>_.
       Inr (artifact_id1, a, parent_artifact)))))"

definition under_artifact :: "string \<Rightarrow> string \<Rightarrow> string \<Rightarrow> string \<Rightarrow> (string \<times> s3_key) \<Rightarrow> bool" where
  "under_artifact b p w i addr =
     (case addr of
        (b', VersionFile p' w' i' n f) \<Rightarrow> b' = b \<and> p' = p \<and> w' = w \<and> i' = i
      | (b', VersionJson p' w' i' n) \<Rightarrow> b' = b \<and> p' = p \<and> w' = w \<and> i' = i)"

text \<open>
  Without a version: the files under the artifact's prefix are removed when asked for, and
  the row is deleted. The rows that still have it as parent are its \<open>children\<close> in the
  ORM, a relationship without a delete cascade: their \<open>parent_id\<close> is set to NULL.
\<close>

definition delete_whole ::
  "state \<Rightarrow> artifact \<Rightarrow> s3_config \<Rightarrow> bool \<Rightarrow> error + state" where
  "delete_whole st a c delete_files =
     on_ok (if delete_files then
              on_ok (create_client c) (\<lambda>(b, p).
                Inr (filter (\<lambda>(addr, obj). \<not> under_artifact b p (workspace a) (id_col a) addr)
                       (s3 st)))
            else Inr (s3 st)) (\<lambda>store1.
       Inr \<lparr>artifacts =
              map (\<lambda>r. if parent_id r = Some (id_col a) then r\<lparr>parent_id := None\<rparr> else r)
                (filter (\<lambda>r. id_col r \<noteq> id_col a) (artifacts st)),
            s3 = store1\<rparr>)"

text \<open>
  The call \<open>delete(child["id"], delete_files=delete_files, context=context)\<close> made for each
  child: no version and not recursive.
\<close>

definition delete_child ::
  "env \<Rightarrow> state \<Rightarrow> string \<Rightarrow> bool \<Rightarrow> call_context option \<Rightarrow> error + state" where
  "delete_child ev st artifact_id delete_files ctx =
     on_ok (delete_begin ev st artifact_id ctx) (\<lambda>(artifact_id1, a, parent_artifact).
       delete_whole st a (get_s3_config ev a parent_artifact) delete_files)"

fun delete_children ::
  "env \<Rightarrow> state \<Rightarrow> bool \<Rightarrow> call_context option \<Rightarrow> dict list \<Rightarrow> error + state" where
  "delete_children ev st delete_files ctx [] = Inr st"
| "delete_children ev st delete_files ctx (child # children) =
     (case dict_get child ''id'' JNull of
        JStr child_id \<Rightarrow>
          on_ok (delete_child ev st child_id delete_files ctx) (\<lambda>st1.
            delete_children ev st1 delete_files ctx children)
      | _ \<Rightarrow> Inl AssertionError)"

text \<open>
  With a version: the entry at the resolved index is popped from \<open>versions\<close> and the row
  is saved. The call of \<open>_delete_version_files_from_s3\<close> that follows only creates a
  coroutine, which is never awaited, so nothing of it runs and the object store stays as
  it is.
\<close>

definition delete_version :: "state \<Rightarrow> artifact \<Rightarrow> version_sel \<Rightarrow> error + state" where
  "delete_version st a version0 =
     on_ok (get_version_index a version0) (\<lambda>version_index.
     on_ok (case versions a of
              None \<Rightarrow> Inl AttributeError
            | Some vs \<Rightarrow> list_pop vs version_index) (\<lambda>versions1.
       Inr (st\<lparr>artifacts := update_row (a\<lparr>versions := Some versions1\<rparr>) (artifacts st)\<rparr>)))"

definition delete ::
  "env \<Rightarrow> state \<Rightarrow> string \<Rightarrow> bool \<Rightarrow> bool \<Rightarrow> version_sel \<Rightarrow> call_context option \<Rightarrow>
   error + state" where
  "delete ev st artifact_id delete_files recursive version0 ctx =
     on_ok (delete_begin ev st artifact_id ctx) (\<lambda>(artifact_id1, a, parent_artifact).
       (if version0 = VNone then
          on_ok (if recursive then
                   on_ok (list_children ev st (Some artifact_id1) None None ''AND'' 0 100 None
                            False False ctx) (\<lambda>(children, st1).
                     (case children of
                        Items cs \<Rightarrow> delete_children ev st1 delete_files ctx cs
                      | Page cs n_total n_offset n_limit \<Rightarrow> delete_children ev st1 delete_files ctx cs))
                 else Inr st) (\<lambda>st2.
            delete_whole st2 a (get_s3_config ev a parent_artifact) delete_files)
        else delete_version st a version0))"

section \<open>The specification's reading of the permission rules\<close>

text \<open>
  An entry of the permissions map as the data model describes it: a permission code or a
  list of operations (a dict is accepted where a list is, its keys then count).
\<close>

fun perm_value_ok :: "json \<Rightarrow> bool" where
  "perm_value_ok (JStr c) = True"
| "perm_value_ok (JArr xs) = True"
| "perm_value_ok (JObj kvs) = True"
| "perm_value_ok v = False"

text \<open>
  The keys the check can read for a user: the user's id, \<open>@\<close> for a user who is not
  anonymous, and \<open>*\<close>. The permissions are readable for the user when they are a dict
  whose entries under these keys are, where present, as the data model describes them.
\<close>

definition consulted_keys :: "user_info \<Rightarrow> string list" where
  "consulted_keys u = user_id u # (if is_anonymous u then [] else [''@'']) @ [''*'']"

definition entries_ok :: "json \<Rightarrow> user_info \<Rightarrow> bool" where
  "entries_ok permissions u =
     (case permissions of
        JObj ps \<Rightarrow>
          list_all (\<lambda>k. case map_of ps k of None \<Rightarrow> True | Some p \<Rightarrow> perm_value_ok p)
            (consulted_keys u)
      | _ \<Rightarrow> False)"

definition spec_allows :: "json \<Rightarrow> string \<Rightarrow> string \<Rightarrow> bool" where
  "spec_allows permissions key operation =
     (case permissions of
        JObj ps \<Rightarrow>
          (case map_of ps key of
             None \<Rightarrow> False
           | Some p \<Rightarrow> str_in operation (expand_permission p) = Inr True)
      | _ \<Rightarrow> False)"

definition spec_required_tier :: "string \<Rightarrow> user_permission option" where
  "spec_required_tier operation =
     (if operation \<in> {''read'', ''get_file'', ''list_files'', ''list_vectors'', ''list'',
                       ''get_vector'', ''search_by_vector'', ''search_by_text''} then Some perm_read
      else if operation \<in> {''create'', ''edit'', ''commit'', ''put_file'', ''remove_file'',
                       ''add_vectors'', ''add_documents'', ''remove_vectors''} then Some perm_read_write
      else if operation \<in> {''delete'', ''reset_stats'', ''publish''} then Some perm_admin
      else None)"

text \<open>
  The permissions expected after \<open>create\<close> and \<open>edit\<close>: the caller's, with the acting
  user set to \<open>*\<close> and the parent's entries written over them, as a JSON column holds
  them.
\<close>

definition merged_permissions :: "(rat \<Rightarrow> string) \<Rightarrow> string \<Rightarrow> dict \<Rightarrow> pydict \<Rightarrow> json" where
  "merged_permissions float_repr uid caller_permissions parent_entries =
     JObj (json_dict float_repr
             (set_entries (to_pydict (AList.update uid (JStr ''*'') caller_permissions))
                parent_entries))"

text \<open>
  Every snapshot in the store is filed under the id it carries: what holds of the
  snapshots the controller writes.
\<close>

definition snapshot_ids_ok :: "s3_store \<Rightarrow> bool" where
  "snapshot_ids_ok store =
     list_all (\<lambda>(addr, obj).
                 case (snd addr, obj) of
                   (VersionJson p w i n, JsonBody (JObj d)) \<Rightarrow> map_of d ''id'' = Some (JStr i)
                 | _ \<Rightarrow> True) store"

section \<open>Example rows\<close>

definition example_artifact :: artifact where
  "example_artifact =
     \<lparr>id_col = ''0192f4be-11f7-7610-9da2-ffc39feeb009'', type_col = Some ''generic'',
      workspace = ''ws'', parent_id = None, alias_col = Some ''ds'',
      manifest = Some [(''name'', JStr ''n'')], staging = JsonNull,
      download_count = 0, view_count = 0, file_count = 0, created_at = 0,
      created_by = Some ''carol'', last_modified = 0, versions = Some [],
      config = Some [(''permissions'', JObj [(''carol'', JStr ''*''), (''bob'', JStr ''r''),
                                           (''dave'', JStr ''admin'')])],
      secrets = None\<rparr>"

definition example_versions :: "version_entry list" where
  "example_versions =
     [\<lparr>version = ''v0'', comment = None, created_at_v = 0\<rparr>,
      \<lparr>version = ''1'', comment = Some ''second'', created_at_v = 1\<rparr>]"

definition example_user :: "string \<Rightarrow> user_info" where
  "example_user name =
     \<lparr>user_id = name, is_anonymous = False, check_permission = (\<lambda>ws p. False)\<rparr>"

text \<open>
  A controller over a server-wide object store, a workspace \<open>ws\<close> whose members hold every
  tier, a committed collection \<open>zoo\<close>, and a child \<open>ds\<close> of it as \<open>create\<close> leaves it
  when carol creates it staged with the permissions \<open>{bob: rw}\<close>.
\<close>

definition example_env :: env where
  "example_env =
     \<lparr>new_id = ''0192f4be-11f7-7610-9da2-ffc39feeb010'', now = 1700000000,
      generate_unique_alias = Inr ''quick-fox-runs-fast'',
      get_workspace_info = (\<lambda>w. Inr True),
      validate_collection = (\<lambda>m. m \<noteq> None), validate_generic = (\<lambda>m. m \<noteq> None),
      validate_schema = (\<lambda>s m. True), create_deposition = Inl RuntimeError,
      vectordb_client = False, create_collection = (\<lambda>n s d. Inr ()),
      delete_collection = (\<lambda>n. Inr ()), vector_count = (\<lambda>n. Inr 0),
      s3_controller =
        \<lparr>endpoint_url = JStr ''http://s3'', access_key_id = JStr ''key'',
         secret_access_key = JStr ''secret'', region_name = JStr ''us-east-1'',
         bucket = JStr ''hypha-workspaces'', prefix = JStr ''''\<rparr>,
      workspace_bucket = ''hypha-workspaces'', eval_condition = (\<lambda>c r. True),
      repr_float = (\<lambda>r. ''0.5'')\<rparr>"

definition example_context :: "string \<Rightarrow> call_context option" where
  "example_context name =
     Some \<lparr>ctx_ws = Some ''ws'',
           ctx_user = \<lparr>user_id = name, is_anonymous = False,
                       check_permission = (\<lambda>w p. w = ''ws'')\<rparr>\<rparr>"

definition example_parent :: artifact where
  "example_parent =
     \<lparr>id_col = ''0192f4be-11f7-7610-9da2-ffc39feeb001'', type_col = Some ''collection'',
      workspace = ''ws'', parent_id = None, alias_col = Some ''zoo'',
      manifest = Some [(''name'', JStr ''zoo'')], staging = JsonNull,
      download_count = 0, view_count = 0, file_count = 0, created_at = 0,
      created_by = Some ''alice'', last_modified = 0,
      versions = Some [\<lparr>version = ''v0'', comment = Some ''Initial version'', created_at_v = 0\<rparr>],
      config = Some [(''permissions'', JObj [(''alice'', JStr ''r'')])],
      secrets = None\<rparr>"

definition example_child :: artifact where
  "example_child =
     \<lparr>id_col = ''0192f4be-11f7-7610-9da2-ffc39feeb010'', type_col = Some ''generic'',
      workspace = ''ws'', parent_id = Some ''0192f4be-11f7-7610-9da2-ffc39feeb001'',
      alias_col = Some ''ds'', manifest = Some [(''name'', JStr ''n'')], staging = Staged [],
      download_count = 0, view_count = 0, file_count = 0, created_at = 1700000000,
      created_by = Some ''carol'', last_modified = 1700000000, versions = Some [],
      config = Some [(''permissions'',
                      JObj [(''bob'', JStr ''rw''), (''carol'', JStr ''*''), (''alice'', JStr ''r'')])],
      secrets = Some [(''K'', JStr ''s'')]\<rparr>"

definition snapshot_key :: "artifact \<Rightarrow> nat \<Rightarrow> string \<times> s3_key" where
  "snapshot_key a n = (''hypha-workspaces'', VersionJson [] (workspace a) (id_col a) n)"

definition snapshot_of :: "artifact \<Rightarrow> s3_object" where
  "snapshot_of a = JsonBody (JObj (model_to_dict a))"

definition example_state :: state where
  "example_state = \<lparr>artifacts = [example_parent], s3 = []\<rparr>"

definition example_state_staged :: state where
  "example_state_staged =
     \<lparr>artifacts = [example_parent, example_child],
      s3 = [(snapshot_key example_child 0, snapshot_of example_child)]\<rparr>"

definition example_versioned :: artifact where
  "example_versioned = example_child\<lparr>staging := JsonNull, versions := Some example_versions\<rparr>"

definition example_state_versioned :: state where
  "example_state_versioned =
     \<lparr>artifacts = [example_parent, example_versioned],
      s3 = [(snapshot_key example_child 0, snapshot_of example_child),
            (snapshot_key example_child 1, snapshot_of example_versioned)]\<rparr>"

text \<open>
  The child as carol creates it with the permissions \<open>{bob: null, *: r}\<close>.
\<close>

definition example_null_entry :: artifact where
  "example_null_entry =
     example_child\<lparr>config := Some [(''permissions'',
        JObj [(''bob'', JNull), (''*'', JStr ''r''), (''carol'', JStr ''*''),
              (''alice'', JStr ''r'')])]\<rparr>"

text \<open>
  The child created with the version \<open>new\<close>, the same child staged again by an \<open>edit\<close>
  with the version \<open>stage\<close>, and the state a \<open>delete\<close> of the version \<open>v0\<close> then leaves:
  the row is \<open>example_child\<close> again (staged, no version), and the snapshot at its stage
  index 0 is the one of the committed version.
\<close>

definition example_committed :: artifact where
  "example_committed =
     example_child\<lparr>staging := JsonNull,
       versions := Some [\<lparr>version = ''v0'', comment = Some ''Initial version'',
                          created_at_v = 1700000000\<rparr>]\<rparr>"

definition example_restaged :: artifact where
  "example_restaged = example_committed\<lparr>staging := Staged []\<rparr>"

definition example_state_popped :: state where
  "example_state_popped =
     \<lparr>artifacts = [example_parent, example_child],
      s3 = [(snapshot_key example_child 0, snapshot_of example_committed),
            (snapshot_key example_child 1, snapshot_of example_restaged)]\<rparr>"

text \<open>
  A store in which the object at the child's stage key is a snapshot of another artifact.
\<close>

definition example_state_foreign :: state where
  "example_state_foreign =
     \<lparr>artifacts = [example_parent, example_child],
      s3 = [(snapshot_key example_child 0, snapshot_of example_parent)]\<rparr>"

text \<open>
  A parent whose permissions are a list of pairs, as an \<open>edit\<close> of an artifact without a
  parent stores them when given.
\<close>

definition example_list_parent :: artifact where
  "example_list_parent =
     example_parent\<lparr>config := Some [(''permissions'', JArr [JArr [JStr ''alice'', JStr ''r'']])]\<rparr>"

definition example_kids :: "artifact list" where
  "example_kids =
     [example_child\<lparr>id_col := ''0192f4be-11f7-7610-9da2-ffc39feeb00a'', alias_col := Some ''ka''\<rparr>,
      example_child\<lparr>id_col := ''0192f4be-11f7-7610-9da2-ffc39feeb00b'', alias_col := Some ''kb'',
                     staging := JsonNull\<rparr>,
      example_child\<lparr>id_col := ''0192f4be-11f7-7610-9da2-ffc39feeb00c'', alias_col := Some ''kc'',
                     staging := SqlNull\<rparr>]"

definition example_listing_state :: state where
  "example_listing_state = \<lparr>artifacts = example_parent # example_kids, s3 = []\<rparr>"

definition example_projecting_parent :: artifact where
  "example_projecting_parent =
     example_parent\<lparr>config := Some [(''permissions'', JObj [(''alice'', JStr ''r'')]),
                                     (''list_fields'', JArr [JStr ''id'', JStr ''secrets''])]\<rparr>"

section \<open>Properties of the permission engine\<close>

lemma unknown_code_None:
  "code \<notin> {''n'', ''l'', ''l+'', ''lv'', ''lv+'', ''lf'', ''lf+'', ''r'', ''r+'', ''rw'', ''rw+'', ''*''}
   \<Longrightarrow> map_of permission_map code = None"
  by (simp add: permission_map_def)

text \<open>
  C10: for a string code outside the table, \<open>expand_permission\<close> is the empty list, no
  operation is in it, and the user's own entry neither grants nor fails, so
  \<open>check_permissions\<close> is decided by the wildcard steps.
\<close>

theorem expand_permission_unknown_code:
  "code \<notin> {''n'', ''l'', ''l+'', ''lv'', ''lv+'', ''lf'', ''lf+'', ''r'', ''r+'', ''rw'', ''rw+'', ''*''}
  \<Longrightarrow> expand_permission (JStr code) = JArr [] \<and>
    (\<forall>operation. str_in operation (expand_permission (JStr code)) = Inr False) \<and>
    (\<forall>a u ps operation.
       artifact_permissions a = JObj ps \<and> map_of ps (user_id u) = Some (JStr code) \<longrightarrow>
       check_entry (JObj ps) (user_id u) operation = Inr False \<and>
       check_permissions a u operation = check_wildcards (JObj ps) u operation)"
  apply (frule unknown_code_None)
  apply (auto simp: check_permissions_def check_entry_def Let_def
              split: sum.splits bool.splits option.splits)
  done

theorem expand_permission_unknown_code_witness:
  "expand_permission (JStr ''admin'') = JArr [] \<and>
   check_entry (artifact_permissions example_artifact) ''dave'' ''read'' = Inr False \<and>
   check_permissions example_artifact (example_user ''dave'') ''read'' =
     check_wildcards (artifact_permissions example_artifact) (example_user ''dave'') ''read''"
proof -
  have h: "''admin'' \<notin> {''n'', ''l'', ''l+'', ''lv'', ''lv+'', ''lf'', ''lf+'', ''r'', ''r+'', ''rw'', ''rw+'', ''*''}"
    by simp
  have p: "artifact_permissions example_artifact =
      JObj [(''carol'', JStr ''*''), (''bob'', JStr ''r''), (''dave'', JStr ''admin'')]"
    by (simp add: artifact_permissions_def example_artifact_def)
  show ?thesis
    using expand_permission_unknown_code[OF h] p
    by (simp add: example_user_def check_entry_def check_permissions_def permission_map_def)
qed

lemma str_in_expand_ok: "perm_value_ok p \<Longrightarrow> \<exists>b. str_in operation (expand_permission p) = Inr b"
  by (cases p) (auto split: option.splits)

lemma check_entry_ok:
  assumes "entries_ok permissions u" and "key \<in> set (consulted_keys u)"
  shows "check_entry permissions key operation = Inr (spec_allows permissions key operation)"
proof (cases permissions)
  case (JObj ps)
  with assms have ok: "\<And>p. map_of ps key = Some p \<Longrightarrow> perm_value_ok p"
    by (auto simp: entries_ok_def list_all_iff split: option.splits)
  show ?thesis
  proof (cases "map_of ps key")
    case None
    then have "key \<notin> fst ` set ps" by (simp add: map_of_eq_None_iff)
    with JObj None show ?thesis by (simp add: check_entry_def spec_allows_def)
  next
    case (Some p)
    then have "key \<in> fst ` set ps" by (metis map_of_eq_None_iff option.distinct(1))
    moreover obtain b where "str_in operation (expand_permission p) = Inr b"
      using str_in_expand_ok[OF ok[OF Some]] by blast
    ultimately show ?thesis using JObj Some by (simp add: check_entry_def spec_allows_def)
  qed
qed (use assms in \<open>simp_all add: entries_ok_def\<close>)

lemma check_permissions_ok:
  assumes "entries_ok (artifact_permissions a) u"
  shows "check_permissions a u operation =
     Inr (spec_allows (artifact_permissions a) (user_id u) operation
          \<or> (\<not> is_anonymous u \<and> spec_allows (artifact_permissions a) ''@'' operation)
          \<or> spec_allows (artifact_permissions a) ''*'' operation)"
proof -
  have own: "check_entry (artifact_permissions a) (user_id u) operation
      = Inr (spec_allows (artifact_permissions a) (user_id u) operation)"
    by (rule check_entry_ok[OF assms]) (simp add: consulted_keys_def)
  have star: "check_entry (artifact_permissions a) ''*'' operation
      = Inr (spec_allows (artifact_permissions a) ''*'' operation)"
    by (rule check_entry_ok[OF assms]) (simp add: consulted_keys_def)
  have at: "\<not> is_anonymous u \<Longrightarrow> check_entry (artifact_permissions a) ''@'' operation
      = Inr (spec_allows (artifact_permissions a) ''@'' operation)"
    by (rule check_entry_ok[OF assms]) (simp add: consulted_keys_def)
  show ?thesis
    using at by (auto simp: check_permissions_def check_wildcards_def own star Let_def
                      split: bool.splits)
qed

lemma tier_table: "map_of operation_map operation = spec_required_tier operation"
  by (simp add: operation_map_def spec_required_tier_def)

text \<open>
  C2, as the code has it: for a supported operation (one of the nineteen of the tier
  table, with the tiers the specification lists) and an artifact that exists and whose
  permissions are a dict in which the entries the check reads for the user (under the
  user's id, under \<open>@\<close> for a user who is not anonymous, under \<open>*\<close>) are codes or lists of
  operations, access is granted exactly when the user's own entry allows the operation, or
  the user is not anonymous and the \<open>@\<close> entry allows it, or the \<open>*\<close> entry allows it, or
  the user's permission on the artifact's workspace reaches the operation's tier;
  otherwise the result is a \<open>PermissionError\<close>. When no row matches the id the result is a
  \<open>KeyError\<close>, a different error.
\<close>

theorem access_granted_iff:
  "map_of operation_map operation = spec_required_tier operation \<and>
   (\<forall>required_perm a parent.
      spec_required_tier operation = Some required_perm \<longrightarrow>
      get_artifact_with_parent rows artifact_id = Inr (a, parent) \<longrightarrow>
      entries_ok (artifact_permissions a) u \<longrightarrow>
      get_artifact_with_permission rows u artifact_id operation =
        (if spec_allows (artifact_permissions a) (user_id u) operation
            \<or> (\<not> is_anonymous u \<and> spec_allows (artifact_permissions a) ''@'' operation)
            \<or> spec_allows (artifact_permissions a) ''*'' operation
            \<or> check_permission u (workspace a) required_perm
         then Inr (a, parent) else Inl PermissionError)) \<and>
   (\<forall>required_perm cond.
      spec_required_tier operation = Some required_perm \<longrightarrow>
      get_artifact_id_cond artifact_id = Inr cond \<longrightarrow>
      filter cond rows = [] \<longrightarrow>
      get_artifact_with_permission rows u artifact_id operation = Inl KeyError) \<and>
   KeyError \<noteq> PermissionError"
proof (intro conjI allI impI)
  show "map_of operation_map operation = spec_required_tier operation" by (rule tier_table)
next
  fix required_perm a parent
  assume "spec_required_tier operation = Some required_perm"
    and "get_artifact_with_parent rows artifact_id = Inr (a, parent)"
    and "entries_ok (artifact_permissions a) u"
  then show "get_artifact_with_permission rows u artifact_id operation =
        (if spec_allows (artifact_permissions a) (user_id u) operation
            \<or> (\<not> is_anonymous u \<and> spec_allows (artifact_permissions a) ''@'' operation)
            \<or> spec_allows (artifact_permissions a) ''*'' operation
            \<or> check_permission u (workspace a) required_perm
         then Inr (a, parent) else Inl PermissionError)"
    by (auto simp: get_artifact_with_permission_def tier_table check_permissions_ok split: bool.splits)
next
  fix required_perm cond
  assume "spec_required_tier operation = Some required_perm"
    and "get_artifact_id_cond artifact_id = Inr cond"
    and "filter cond rows = []"
  then show "get_artifact_with_permission rows u artifact_id operation = Inl KeyError"
    by (simp add: get_artifact_with_permission_def tier_table get_artifact_with_parent_def
        get_artifact_def scalar_one_or_none_def)
qed simp

lemma example_artifact_found:
  "get_artifact_with_parent [example_artifact] ''ws/ds'' = Inr (example_artifact, None)"
  by (simp add: get_artifact_with_parent_def get_artifact_def get_artifact_id_cond_def
      scalar_one_or_none_def example_artifact_def)

lemma example_artifact_permissions:
  "artifact_permissions example_artifact =
     JObj [(''carol'', JStr ''*''), (''bob'', JStr ''r''), (''dave'', JStr ''admin'')]"
  by (simp add: artifact_permissions_def example_artifact_def)

theorem access_granted_iff_witness:
  "get_artifact_with_permission [example_artifact] (example_user ''bob'') ''ws/ds'' ''read''
     = Inr (example_artifact, None) \<and>
   get_artifact_with_permission [example_artifact] (example_user ''bob'') ''ws/ds'' ''edit''
     = Inl PermissionError \<and>
   get_artifact_with_permission [] (example_user ''bob'') ''ws/ds'' ''read'' = Inl KeyError"
proof -
  have t: "spec_required_tier ''read'' = Some perm_read"
    "spec_required_tier ''edit'' = Some perm_read_write"
    by (simp_all add: spec_required_tier_def)
  have c: "get_artifact_id_cond ''ws/ds'' =
      Inr (\<lambda>a. workspace a = ''ws'' \<and> alias_col a = Some ''ds'')"
    by (simp add: get_artifact_id_cond_def)
  have w: "entries_ok (artifact_permissions example_artifact) (example_user ''bob'')"
    by (simp add: entries_ok_def consulted_keys_def example_artifact_permissions example_user_def)
  have s1: "spec_allows (artifact_permissions example_artifact) ''bob'' ''read''"
    by (simp add: example_artifact_permissions spec_allows_def permission_map_def)
  have s2: "\<not> spec_allows (artifact_permissions example_artifact) k ''edit''"
    if "k \<in> {''bob'', ''@'', ''*''}" for k
    using that by (auto simp add: example_artifact_permissions spec_allows_def permission_map_def)
  show ?thesis
    using access_granted_iff[of "''read''" "[example_artifact]" "''ws/ds''" "example_user ''bob''"]
          access_granted_iff[of "''edit''" "[example_artifact]" "''ws/ds''" "example_user ''bob''"]
          access_granted_iff[of "''read''" "[]" "''ws/ds''" "example_user ''bob''"]
    by (simp add: t c w[unfolded example_user_def] s1 s2 example_artifact_found example_user_def)
qed

section \<open>Properties of the version index\<close>

lemma find_version_absent: "label \<notin> version ` set vs \<Longrightarrow> find_version vs label k = - 1"
  by (induction vs arbitrary: k) auto

lemma find_version_present:
  "label \<in> version ` set vs \<Longrightarrow>
   \<exists>i < length vs. find_version vs label k = int (k + i) \<and> version (vs ! i) = label
      \<and> (\<forall>j < i. version (vs ! j) \<noteq> label)"
proof (induction vs arbitrary: k)
  case Nil
  then show ?case by simp
next
  case (Cons v vs)
  show ?case
  proof (cases "version v = label")
    case True
    then show ?thesis by (intro exI[of _ 0]) simp
  next
    case False
    with Cons.prems have "label \<in> version ` set vs" by auto
    from Cons.IH[OF this, of "Suc k"] obtain i where i: "i < length vs"
      "find_version vs label (Suc k) = int (Suc k + i)" "version (vs ! i) = label"
      "\<forall>j < i. version (vs ! j) \<noteq> label" by blast
    show ?thesis
    proof (intro exI[of _ "Suc i"] conjI allI impI)
      fix j assume "j < Suc i"
      then show "version ((v # vs) ! j) \<noteq> label" using False i(4) by (cases j) auto
    qed (use i False in auto)
  qed
qed

text \<open>
  C3, as the code has it: with \<open>N\<close> the length of \<open>versions\<close>, \<open>None\<close> resolves to
  \<open>max 0 (N - 1)\<close>; \<open>latest\<close> resolves to \<open>N - 1\<close>, which is \<open>-1\<close> for \<open>N = 0\<close>, without
  failing; \<open>stage\<close> resolves to \<open>N\<close> whatever \<open>staging\<close> holds; any other string
  resolves to the first index whose entry carries it as label and is a \<open>ValueError\<close> when
  there is none (a digit string is not read as an index); an integer \<open>i \<ge> 0\<close> resolves to
  \<open>i\<close> with no upper bound, a negative one fails the assertion.
\<close>

theorem version_index_resolution:
  "versions a = Some vs \<Longrightarrow>
   get_version_index a VNone = Inr (max 0 (int (length vs) - 1)) \<and>
   get_version_index a (VStr ''latest'') = Inr (int (length vs) - 1) \<and>
   get_version_index a (VStr ''stage'') = Inr (int (length vs)) \<and>
   (\<forall>label. label \<noteq> ''latest'' \<and> label \<noteq> ''stage'' \<longrightarrow>
      (if label \<in> version ` set vs
       then \<exists>i < length vs. get_version_index a (VStr label) = Inr (int i)
              \<and> version (vs ! i) = label \<and> (\<forall>j < i. version (vs ! j) \<noteq> label)
       else get_version_index a (VStr label) = Inl ValueError)) \<and>
   (\<forall>i. get_version_index a (VInt i) = (if 0 \<le> i then Inr i else Inl AssertionError))"
proof (intro conjI allI impI)
  fix label
  assume vs: "versions a = Some vs" and l: "label \<noteq> ''latest'' \<and> label \<noteq> ''stage''"
  show "if label \<in> version ` set vs
       then \<exists>i < length vs. get_version_index a (VStr label) = Inr (int i)
              \<and> version (vs ! i) = label \<and> (\<forall>j < i. version (vs ! j) \<noteq> label)
       else get_version_index a (VStr label) = Inl ValueError"
  proof (cases "label \<in> version ` set vs")
    case True
    from find_version_present[OF True, of 0] obtain i where "i < length vs"
      "find_version vs label 0 = int i" "version (vs ! i) = label"
      "\<forall>j < i. version (vs ! j) \<noteq> label" by auto
    with True vs l show ?thesis by (auto simp: get_version_index_def)
  next
    case False
    with vs l show ?thesis by (simp add: get_version_index_def find_version_absent)
  qed
qed (simp_all add: get_version_index_def)

theorem version_index_resolution_witness:
  "get_version_index (example_artifact\<lparr>versions := Some example_versions\<rparr>) VNone = Inr 1 \<and>
   get_version_index (example_artifact\<lparr>versions := Some example_versions\<rparr>) (VStr ''latest'') = Inr 1 \<and>
   get_version_index (example_artifact\<lparr>versions := Some example_versions\<rparr>) (VStr ''stage'') = Inr 2 \<and>
   get_version_index (example_artifact\<lparr>versions := Some example_versions\<rparr>) (VStr ''1'') = Inr 1 \<and>
   get_version_index (example_artifact\<lparr>versions := Some example_versions\<rparr>) (VStr ''7'') = Inl ValueError \<and>
   get_version_index (example_artifact\<lparr>versions := Some example_versions\<rparr>) (VInt 5) = Inr 5"
proof -
  have h: "versions (example_artifact\<lparr>versions := Some example_versions\<rparr>) = Some example_versions"
    by simp
  from version_index_resolution[OF h] show ?thesis
    by (simp add: get_version_index_def example_versions_def)
qed

text \<open>
  The selector as the specification states it fails on the code: with no committed version
  \<open>latest\<close> returns \<open>-1\<close> instead of failing, \<open>stage\<close> returns \<open>0\<close> although \<open>staging\<close> is
  null, and the integer \<open>5\<close> is returned although it is not below the length.
\<close>

theorem version_selector_counterexample:
  "versions example_artifact = Some [] \<and>
   get_version_index example_artifact (VStr ''latest'') = Inr (- 1) \<and>
   staging example_artifact = JsonNull \<and>
   get_version_index example_artifact (VStr ''stage'') = Inr 0 \<and>
   get_version_index example_artifact (VInt 5) = Inr 5"
  by (simp add: get_version_index_def example_artifact_def)

section \<open>Properties of the lifecycle controller\<close>

lemma on_ok_Inr: "on_ok m f = Inr y \<longleftrightarrow> (\<exists>x. m = Inr x \<and> f x = Inr y)"
  by (cases m) (simp_all add: on_ok_def)

lemma on_okE: "on_ok m f = Inr y \<Longrightarrow> (\<And>x. m = Inr x \<Longrightarrow> f x = Inr y \<Longrightarrow> P) \<Longrightarrow> P"
  by (auto simp: on_ok_Inr)

lemma check_Inr: "check b e = Inr x \<longleftrightarrow> b"
  by (simp add: check_def)

lemma generate_artifact_data_no_secrets:
  "''secrets'' \<notin> fst ` set (generate_artifact_data a parent_artifact)"
  by (simp add: generate_artifact_data_def Let_def AList.delete_notin_dom)

lemma generate_artifact_data_no_secrets_pair:
  "(''secrets'', v) \<notin> set (generate_artifact_data a parent_artifact)"
  using generate_artifact_data_no_secrets[of a parent_artifact] by force

lemma delete_notin_pair: "(k, v) \<notin> set (AList.delete k al)"
  using AList.delete_notin_dom[of k al] by force

lemma generate_artifact_data_id:
  "map_of (generate_artifact_data a parent_artifact) ''_id'' = Some (JStr (id_col a))"
  by (simp add: generate_artifact_data_def Let_def AList.update_conv')

lemma session_add_mem: "session_add a table = Inr table1 \<Longrightarrow> a \<in> set table1"
  by (auto simp: session_add_def split: if_splits)

lemma session_merge_mem: "session_merge a table = Inr table1 \<Longrightarrow> a \<in> set table1"
  by (auto simp: session_merge_def list_ex_iff split: if_splits)

lemma save_version_to_s3_result:
  "save_version_to_s3 version_index a c store = Inr store1 \<Longrightarrow>
   \<exists>b p. create_client c = Inr (b, p) \<and> 0 \<le> version_index \<and>
     store1 = AList.update (b, VersionJson p (workspace a) (id_col a) (nat version_index))
                (JsonBody (JObj (model_to_dict a))) store"
  by (auto simp: save_version_to_s3_def check_Inr elim!: on_okE)

lemma create_persist_result:
  assumes "create_persist ev st new_artifact parent_artifact overwrite1 version1 config2 = Inr (out, st')"
  shows "out = generate_artifact_data new_artifact parent_artifact"
    and "new_artifact \<in> set (artifacts st')"
    and "\<exists>version_index. get_version_index new_artifact (version_sel_of version1) = Inr version_index
          \<and> save_version_to_s3 version_index new_artifact
               (get_s3_config ev new_artifact parent_artifact) (s3 st) = Inr (s3 st')"
  using assms unfolding create_persist_def
  by (auto elim!: on_okE dest: session_add_mem session_merge_mem split: if_splits)

lemma create_success:
  assumes "create ev st alias0 workspace0 parent_id0 manifest0 type0 config0 secrets0 publish_to
     version0 comment0 overwrite ctx = Inr (out, st')"
  shows "\<exists>w u alias1 workspace1 parent_artifact parent_id1 workspace2 alias2 id1 overwrite1 config1 config2.
     with_context ctx = Inr (w, u)
     \<and> create_split_alias alias0 workspace0 = Inr (alias1, workspace1)
     \<and> create_resolve_parent (artifacts st) u w parent_id0 workspace1
         = Inr (parent_artifact, parent_id1, workspace2)
     \<and> create_choose_alias ev (artifacts st) parent_artifact alias1 workspace2 parent_id1
              publish_to overwrite (dict_or_empty config0) = Inr (alias2, id1, overwrite1, config1)
     \<and> merge_permissions ev u parent_artifact config1 = Inr config2
     \<and> truthy_dict manifest0
     \<and> create_persist ev st
         (create_row ev u id1 type0 workspace2 parent_id1 alias2 manifest0 version0 comment0
            config2 secrets0)
         parent_artifact overwrite1 (snd (initial_versions (now ev) version0 comment0))
         config2 = Inr (out, st')"
  using assms unfolding create_def
  by (auto simp: on_ok_Inr check_Inr split: prod.splits)

lemma edit_success:
  assumes "edit ev st artifact_id manifest0 type0 config0 secrets0 version0 comment0 ctx = Inr (out, st')"
  shows "\<exists>w u artifact_id1 a parent_artifact a7 version_index.
     with_context ctx = Inr (w, u)
     \<and> validate_artifact_id artifact_id w = Inr artifact_id1
     \<and> get_artifact_with_permission (artifacts st) u artifact_id1 ''edit'' = Inr (a, parent_artifact)
     \<and> edit_row ev u a parent_artifact manifest0 type0 config0 secrets0 version0 comment0
          = Inr (a7, version_index)
     \<and> save_version_to_s3 version_index a7 (get_s3_config ev a7 parent_artifact) (s3 st)
          = Inr (s3 st')
     \<and> artifacts st' = update_row a7 (artifacts st)
     \<and> out = generate_artifact_data a7 parent_artifact"
  using assms unfolding edit_def
  by (auto simp: on_ok_Inr split: prod.splits)

lemma commit_success:
  assumes "commit ev st artifact_id version0 comment0 ctx = Inr (out, st')"
  shows "\<exists>w u artifact_id1 a0 parent_artifact version_index artifact_data a3 saved_index.
     with_context ctx = Inr (w, u)
     \<and> validate_artifact_id artifact_id w = Inr artifact_id1
     \<and> version0 \<noteq> Some ''stage''
     \<and> get_artifact_with_permission (artifacts st) u artifact_id1 ''commit'' = Inr (a0, parent_artifact)
     \<and> get_version_index a0 (VStr ''stage'') = Inr version_index
     \<and> load_version_from_s3 ev a0 version_index False (s3 st) = Inr artifact_data
     \<and> commit_row ev (s3 st) artifact_data parent_artifact version_index version0 comment0 = Inr a3
     \<and> session_merge a3 (artifacts st) = Inr (artifacts st')
     \<and> get_version_index a3 VNone = Inr saved_index
     \<and> save_version_to_s3 saved_index a3 (get_s3_config ev a3 parent_artifact) (s3 st) = Inr (s3 st')
     \<and> out = generate_artifact_data a3 parent_artifact"
  using assms unfolding commit_def
  by (auto simp: on_ok_Inr check_Inr split: prod.splits)

lemma load_version_result:
  assumes "load_version_from_s3 ev a version_index include_secrets store = Inr d"
  shows "\<exists>b p body. create_client (get_s3_config ev a None) = Inr (b, p) \<and> 0 \<le> version_index
     \<and> map_of store (b, VersionJson p (workspace a) (id_col a) (nat version_index))
         = Some (JsonBody (JObj body))
     \<and> d = (if include_secrets then body else AList.delete ''secrets'' body)"
proof -
  from assms obtain b p where c: "create_client (get_s3_config ev a None) = Inr (b, p)"
    and i: "0 \<le> version_index"
    and r: "(case map_of store (b, VersionJson p (workspace a) (id_col a) (nat version_index)) of
          Some (JsonBody (JObj d)) \<Rightarrow>
            Inr (if include_secrets then d else AList.delete ''secrets'' d)
        | Some (JsonBody _) \<Rightarrow> Inl TypeError
        | _ \<Rightarrow> Inl ClientError) = Inr d"
    by (auto simp: load_version_from_s3_def on_ok_Inr check_Inr split: prod.splits)
  show ?thesis
  proof (cases "map_of store (b, VersionJson p (workspace a) (id_col a) (nat version_index))")
    case None
    with r show ?thesis by simp
  next
    case (Some obj)
    show ?thesis
    proof (cases obj)
      case Blob
      with r Some show ?thesis by simp
    next
      case (JsonBody j)
      with r Some c i show ?thesis by (cases j) auto
    qed
  qed
qed

lemma load_version_no_secrets:
  "load_version_from_s3 ev a version_index False store = Inr d \<Longrightarrow> ''secrets'' \<notin> fst ` set d"
  using load_version_result[of ev a version_index False store d]
  by (auto simp: delete_notin_pair)

lemma set_config_entry_keys:
  "set_config_entry d k v = Inr d' \<Longrightarrow> fst ` set d' = {''config''} \<union> fst ` set d"
proof -
  assume "set_config_entry d k v = Inr d'"
  then obtain x where "d' = AList.update ''config'' x d"
    by (auto simp: set_config_entry_def on_ok_Inr)
  then show ?thesis by (simp add: AList.dom_update)
qed

lemma read_no_secrets:
  assumes "read ev st artifact_id silent version0 ctx = Inr (out, st')"
  shows "''secrets'' \<notin> fst ` set out"
proof -
  from assms obtain a parent_artifact version_index current_index artifact_data where
    d: "(if version_index = current_index then Inr (generate_artifact_data a parent_artifact)
         else load_version_from_s3 ev a version_index False (s3 st)) = Inr artifact_data"
    and o: "(if type_col a = Some ''collection'' then
              set_config_entry artifact_data ''child_count''
                (JInt (int (length (filter (\<lambda>r. parent_id r = Some (id_col a)) (artifacts st)))))
            else if type_col a = Some ''vector-collection'' \<and> vectordb_client ev then
              on_ok (vector_count ev (workspace a @ ''^'' @ str_of_opt (alias_col a))) (\<lambda>n.
                set_config_entry artifact_data ''vector_count'' (JInt n))
            else Inr artifact_data) = Inr out"
    unfolding read_def by (auto simp: on_ok_Inr split: prod.splits)
  have n: "''secrets'' \<notin> fst ` set artifact_data"
  proof (cases "version_index = current_index")
    case True
    with d show ?thesis using generate_artifact_data_no_secrets[of a parent_artifact] by simp
  next
    case False
    with d show ?thesis using load_version_no_secrets by simp
  qed
  have k: "set_config_entry artifact_data key v = Inr out \<Longrightarrow> ''secrets'' \<notin> fst ` set out"
    for key v using set_config_entry_keys[of artifact_data key v out] n by simp
  from o show ?thesis
    using n k by (auto simp: on_ok_Inr split: if_splits)
qed

lemma list_children_success:
  assumes "list_children ev st parent_id0 keywords0 filters mode offset limit order_by silent
     pagination ctx = Inr (res, st')"
  shows "\<exists>w u parent_artifact projection stage conditions ordered.
     with_context ctx = Inr (w, u)
     \<and> list_parent (artifacts st) u w parent_id0 = Inr parent_artifact
     \<and> list_projection parent_artifact = Inr projection
     \<and> filter_conditions (dict_or_empty filters) False
              (map KeywordLike (case keywords0 of None \<Rightarrow> [] | Some ks \<Rightarrow> ks)) = Inr (stage, conditions)
     \<and> order_rows (case order_by of Some (c # cs) \<Rightarrow> c # cs | _ \<Rightarrow> ''id'')
          (selected_rows ev (artifacts st) parent_artifact w stage mode conditions) = Inr ordered
     \<and> list_results projection parent_artifact (page_of limit offset ordered) = Inr (items_of res)"
  using assms unfolding list_children_def Let_def
  by (cases pagination) (auto simp: on_ok_Inr items_of_def split: prod.splits)

lemma list_results_no_secrets:
  "list_results projection parent_artifact page = Inr items \<Longrightarrow>
   \<forall>item \<in> set items. ''secrets'' \<notin> fst ` set item"
  by (cases projection)
     (auto simp: list_results_def generate_artifact_data_no_secrets_pair split: if_splits)

lemma list_children_no_secrets:
  assumes "list_children ev st parent_id0 keywords0 filters mode offset limit order_by silent
     pagination ctx = Inr (res, st')"
  shows "\<forall>item \<in> set (items_of res). ''secrets'' \<notin> fst ` set item"
  using list_children_success[OF assms] list_results_no_secrets by blast

lemma list_fields_secrets_rejected:
  assumes "with_context ctx = Inr (w, u)"
    and "list_parent (artifacts st) u w parent_id0 = Inr (Some p)"
    and "dict_get (dict_or_empty (config p)) ''list_fields'' JNull = JArr fs"
    and "JStr ''secrets'' \<in> set fs"
  shows "list_children ev st parent_id0 keywords0 filters mode offset limit order_by silent
     pagination ctx = Inl AssertionError"
  using assms unfolding list_children_def
  by (cases fs) (auto simp: on_ok_def list_projection_def check_list_fields_def check_def)

text \<open>
  C1: no operation that returns artifact data returns the \<open>secrets\<close> field. The data
  \<open>create\<close>, \<open>edit\<close>, \<open>commit\<close> and \<open>read\<close> return, the snapshot \<open>read\<close> loads for a past
  version, and every item \<open>list_children\<close> returns are dicts without the key \<open>secrets\<close>;
  and a listing under a parent whose \<open>list_fields\<close> names \<open>secrets\<close> fails an assertion.
\<close>

theorem secrets_never_returned:
  "(create ev st alias0 workspace0 parent_id0 manifest0 type0 config0 secrets0 publish_to
      version0 comment0 overwrite ctx = Inr (out, st') \<longrightarrow> ''secrets'' \<notin> fst ` set out)
   \<and> (edit ev st artifact_id manifest0 type0 config0 secrets0 version0 comment0 ctx
        = Inr (out, st') \<longrightarrow> ''secrets'' \<notin> fst ` set out)
   \<and> (read ev st artifact_id silent version0 ctx = Inr (out, st')
        \<longrightarrow> ''secrets'' \<notin> fst ` set out)
   \<and> (load_version_from_s3 ev a version_index False (s3 st) = Inr out
        \<longrightarrow> ''secrets'' \<notin> fst ` set out)
   \<and> (commit ev st artifact_id version0 comment0 ctx = Inr (out, st')
        \<longrightarrow> ''secrets'' \<notin> fst ` set out)
   \<and> (list_children ev st parent_id0 keywords0 filters mode offset limit order_by silent
         pagination ctx = Inr (res, st')
        \<longrightarrow> (\<forall>item \<in> set (items_of res). ''secrets'' \<notin> fst ` set item))
   \<and> (\<forall>w u p fs.
         with_context ctx = Inr (w, u) \<longrightarrow>
         list_parent (artifacts st) u w parent_id0 = Inr (Some p) \<longrightarrow>
         dict_get (dict_or_empty (config p)) ''list_fields'' JNull = JArr fs \<longrightarrow>
         JStr ''secrets'' \<in> set fs \<longrightarrow>
         list_children ev st parent_id0 keywords0 filters mode offset limit order_by silent
           pagination ctx = Inl AssertionError)"
proof (intro conjI impI allI)
  assume "create ev st alias0 workspace0 parent_id0 manifest0 type0 config0 secrets0 publish_to
      version0 comment0 overwrite ctx = Inr (out, st')"
  from create_success[OF this] obtain a p where "out = generate_artifact_data a p"
    using create_persist_result(1) by blast
  then show "''secrets'' \<notin> fst ` set out" by (simp add: generate_artifact_data_no_secrets)
next
  assume "edit ev st artifact_id manifest0 type0 config0 secrets0 version0 comment0 ctx
        = Inr (out, st')"
  from edit_success[OF this] obtain a p where "out = generate_artifact_data a p" by blast
  then show "''secrets'' \<notin> fst ` set out" by (simp add: generate_artifact_data_no_secrets)
next
  assume "read ev st artifact_id silent version0 ctx = Inr (out, st')"
  then show "''secrets'' \<notin> fst ` set out" by (rule read_no_secrets)
next
  assume "load_version_from_s3 ev a version_index False (s3 st) = Inr out"
  then show "''secrets'' \<notin> fst ` set out" by (rule load_version_no_secrets)
next
  assume "commit ev st artifact_id version0 comment0 ctx = Inr (out, st')"
  from commit_success[OF this] obtain a p where "out = generate_artifact_data a p" by blast
  then show "''secrets'' \<notin> fst ` set out" by (simp add: generate_artifact_data_no_secrets)
next
  assume "list_children ev st parent_id0 keywords0 filters mode offset limit order_by silent
         pagination ctx = Inr (res, st')"
  then show "\<forall>item \<in> set (items_of res). ''secrets'' \<notin> fst ` set item"
    by (rule list_children_no_secrets)
next
  fix w u p fs
  assume "with_context ctx = Inr (w, u)"
    and "list_parent (artifacts st) u w parent_id0 = Inr (Some p)"
    and "dict_get (dict_or_empty (config p)) ''list_fields'' JNull = JArr fs"
    and "JStr ''secrets'' \<in> set fs"
  then show "list_children ev st parent_id0 keywords0 filters mode offset limit order_by silent
           pagination ctx = Inl AssertionError"
    by (rule list_fields_secrets_rejected)
qed

lemma str_of_nat_0: "str_of_nat 0 = ''0''"
  by (simp add: str_of_nat.simps digit_char_def)

lemma initial_versions_cases:
  "initial_versions t version0 comment0 =
     (case version0 of
        None \<Rightarrow> ([], None)
      | Some v \<Rightarrow>
          if v = ''stage'' then ([], Some ''stage'')
          else ([\<lparr>version = (if v = ''new'' then ''v0'' else v),
                  comment = Some (case comment0 of Some (c # cs) \<Rightarrow> c # cs | _ \<Rightarrow> ''Initial version''),
                  created_at_v = t\<rparr>],
                Some (if v = ''new'' then ''v0'' else v)))"
  by (auto simp: initial_versions_def str_of_nat_0 Let_def split: option.splits)

text \<open>
  C4, as the code has it: after a successful \<open>create\<close> the stored row has the caller's
  manifest, which is never null or empty, whatever the version. With \<open>version = "stage"\<close>
  its versions are empty and its staging is the empty list; with no version its versions
  are empty and its staging is null; with any other version its versions hold exactly one
  entry, labelled \<open>v0\<close> for \<open>new\<close> and with the caller's string otherwise, with the comment
  \<open>Initial version\<close> when none is given, and its staging is null.
\<close>

theorem create_versions_staging_manifest:
  assumes "create ev st alias0 workspace0 parent_id0 manifest0 type0 config0 secrets0 publish_to
     version0 comment0 overwrite ctx = Inr (out, st')"
  shows "\<exists>a \<in> set (artifacts st').
     map_of out ''_id'' = Some (JStr (id_col a)) \<and> manifest a = manifest0 \<and> truthy_dict (manifest a) \<and>
     (case version0 of
        None \<Rightarrow> versions a = Some [] \<and> staging a = JsonNull
      | Some v \<Rightarrow>
          if v = ''stage'' then versions a = Some [] \<and> staging a = Staged []
          else versions a =
                 Some [\<lparr>version = (if v = ''new'' then ''v0'' else v),
                        comment = Some (case comment0 of Some (c # cs) \<Rightarrow> c # cs
                                        | _ \<Rightarrow> ''Initial version''),
                        created_at_v = now ev\<rparr>]
               \<and> staging a = JsonNull)"
proof -
  from create_success[OF assms] obtain u parent_artifact parent_id1 workspace2 alias2 id1
      overwrite1 config2 where
    m: "truthy_dict manifest0"
    and p: "create_persist ev st
         (create_row ev u id1 type0 workspace2 parent_id1 alias2 manifest0 version0 comment0
            config2 secrets0)
         parent_artifact overwrite1 (snd (initial_versions (now ev) version0 comment0))
         config2 = Inr (out, st')"
    by blast
  let ?a = "create_row ev u id1 type0 workspace2 parent_id1 alias2 manifest0 version0 comment0
            config2 secrets0"
  from create_persist_result[OF p] have "?a \<in> set (artifacts st')"
    and "map_of out ''_id'' = Some (JStr (id_col ?a))"
    by (simp_all add: generate_artifact_data_id)
  moreover have "manifest ?a = manifest0"
    by (simp add: create_row_def split: prod.splits)
  moreover have "(case version0 of
        None \<Rightarrow> versions ?a = Some [] \<and> staging ?a = JsonNull
      | Some v \<Rightarrow>
          if v = ''stage'' then versions ?a = Some [] \<and> staging ?a = Staged []
          else versions ?a =
                 Some [\<lparr>version = (if v = ''new'' then ''v0'' else v),
                        comment = Some (case comment0 of Some (c # cs) \<Rightarrow> c # cs
                                        | _ \<Rightarrow> ''Initial version''),
                        created_at_v = now ev\<rparr>]
               \<and> staging ?a = JsonNull)"
    by (simp add: create_row_def initial_versions_cases split: option.splits)
  ultimately show ?thesis using m by (intro bexI[of _ ?a]) auto
qed

lemma map_of_dict_update_distinct:
  "distinct (map fst other) \<Longrightarrow> map_of (dict_update d other) = map_of d ++ map_of other"
proof (induction other arbitrary: d)
  case Nil
  then show ?case by (simp add: dict_update_def)
next
  case (Cons kv other)
  obtain k v where kv: "kv = (k, v)" by (cases kv)
  from Cons.prems kv have d: "distinct (map fst other)" and n: "k \<notin> fst ` set other" by auto
  have "map_of (dict_update d (kv # other)) = map_of (dict_update (AList.update k v d) other)"
    by (simp add: dict_update_def kv)
  also have "\<dots> = map_of (AList.update k v d) ++ map_of other" by (rule Cons.IH[OF d])
  also have "\<dots> = map_of d ++ map_of (kv # other)"
  proof -
    from n have "map_of other k = None" by (simp add: map_of_eq_None_iff)
    then show ?thesis
      by (auto simp: kv AList.update_conv' map_add_def fun_eq_iff split: option.splits)
  qed
  finally show ?case .
qed

lemma dict_update_notin:
  "k \<notin> fst ` set other \<Longrightarrow> map_of (dict_update d other) k = map_of d k"
proof (induction other arbitrary: d)
  case Nil
  then show ?case by (simp add: dict_update_def)
next
  case (Cons kv other)
  then show ?case
    by (cases kv) (auto simp: dict_update_def AList.update_conv')
qed

lemma key_eq_str: "key_eq (JStr a) k = (k = JStr a)"
  by (cases k) (auto simp: key_eq_def)

lemma dict_setitem_to_pydict:
  "dict_setitem (to_pydict d) (JStr k) v = to_pydict (AList.update k v d)"
  by (induction d) (auto simp: to_pydict_def key_eq_str)

lemma set_entries_to_pydict:
  "set_entries (to_pydict d) (to_pydict other) = to_pydict (dict_update d other)"
proof (induction other arbitrary: d)
  case Nil
  then show ?case by (simp add: set_entries_def dict_update_def to_pydict_def)
next
  case (Cons kv other)
  obtain k v where kv: "kv = (k, v)" by (cases kv)
  have "set_entries (to_pydict d) (to_pydict (kv # other))
      = set_entries (dict_setitem (to_pydict d) (JStr k) v) (to_pydict other)"
    by (simp add: set_entries_def to_pydict_def kv)
  also have "\<dots> = to_pydict (dict_update (AList.update k v d) other)"
    by (simp add: dict_setitem_to_pydict Cons.IH)
  also have "\<dots> = to_pydict (dict_update d (kv # other))"
    by (simp add: dict_update_def kv)
  finally show ?case .
qed

lemma update_fresh: "k \<notin> fst ` set acc \<Longrightarrow> AList.update k v acc = acc @ [(k, v)]"
  by (induction acc) auto

lemma json_dict_strings:
  "distinct (map fst xs) \<Longrightarrow> fst ` set xs \<inter> fst ` set acc = {} \<Longrightarrow>
   fold (\<lambda>(k, v). AList.update (json_key f k) v) (to_pydict xs) acc = acc @ xs"
proof (induction xs arbitrary: acc)
  case Nil
  then show ?case by (simp add: to_pydict_def)
next
  case (Cons kv xs)
  obtain k v where kv: "kv = (k, v)" by (cases kv)
  from Cons.prems kv have d: "distinct (map fst xs)" and n: "k \<notin> fst ` set xs"
    and f: "k \<notin> fst ` set acc" and i: "fst ` set xs \<inter> fst ` set acc = {}"
    by auto
  from n i have i2: "fst ` set xs \<inter> fst ` set (acc @ [(k, v)]) = {}" by auto
  have "fold (\<lambda>(k, v). AList.update (json_key f k) v) (to_pydict (kv # xs)) acc
      = fold (\<lambda>(k, v). AList.update (json_key f k) v) (to_pydict xs) (AList.update k v acc)"
    by (simp add: to_pydict_def kv json_key_def)
  also have "\<dots> = (acc @ [(k, v)]) @ xs"
    unfolding update_fresh[OF f] by (rule Cons.IH[OF d i2])
  finally show ?case by (simp add: kv)
qed

lemma json_dict_to_pydict: "distinct (map fst d) \<Longrightarrow> json_dict f (to_pydict d) = d"
  using json_dict_strings[of d "[]" f] by (simp add: json_dict_def)

lemma distinct_dict_update:
  "distinct (map fst d) \<Longrightarrow> distinct (map fst (dict_update d other))"
proof (induction other arbitrary: d)
  case Nil
  then show ?case by (simp add: dict_update_def)
next
  case (Cons kv other)
  obtain k v where kv: "kv = (k, v)" by (cases kv)
  from Cons.prems have "distinct (map fst (AList.update k v d))" by (rule AList.distinct_update)
  from Cons.IH[OF this] show ?case by (simp add: dict_update_def kv)
qed

lemma merged_permissions_dict:
  assumes "distinct (map fst cp)"
  shows "merged_permissions f uid cp (to_pydict pp)
      = JObj (dict_update (AList.update uid (JStr ''*'') cp) pp)"
proof -
  have "distinct (map fst (dict_update (AList.update uid (JStr ''*'') cp) pp))"
    by (rule distinct_dict_update[OF AList.distinct_update[OF assms]])
  then show ?thesis
    by (simp add: merged_permissions_def set_entries_to_pydict json_dict_to_pydict)
qed

lemma update_entries_dict: "update_entries (JObj pp) = Inr kvs \<longleftrightarrow> kvs = to_pydict pp"
  by (auto simp: update_entries_def)

lemma merge_permissions_result:
  assumes "merge_permissions ev u parent_artifact c = Inr c'"
  shows "\<exists>cp parent_permissions kvs. dict_get c ''permissions'' (JObj []) = JObj cp
     \<and> parent_permissions_of parent_artifact = Inr parent_permissions
     \<and> update_entries parent_permissions = Inr kvs
     \<and> c' = AList.update ''permissions''
               (merged_permissions (repr_float ev) (user_id u) cp kvs) c"
proof -
  from assms obtain parent_permissions permissions permissions1 where
    a: "parent_permissions_of parent_artifact = Inr parent_permissions"
    and b: "str_setitem (if c = [] then JObj [] else dict_get c ''permissions'' (JObj []))
              (user_id u) (JStr ''*'') = Inr permissions"
    and d: "py_update permissions parent_permissions = Inr permissions1"
    and e: "c' = AList.update ''permissions'' (JObj (json_dict (repr_float ev) permissions1)) c"
    by (auto simp: merge_permissions_def on_ok_Inr)
  have g: "(if c = [] then JObj [] else dict_get c ''permissions'' (JObj []))
      = dict_get c ''permissions'' (JObj [])"
    by (simp add: dict_get_def)
  from b g obtain cp where cp: "dict_get c ''permissions'' (JObj []) = JObj cp"
    and p: "permissions = JObj (AList.update (user_id u) (JStr ''*'') cp)"
    by (cases "dict_get c ''permissions'' (JObj [])") auto
  from d p obtain kvs where "update_entries parent_permissions = Inr kvs"
    and "permissions1 = set_entries (to_pydict (AList.update (user_id u) (JStr ''*'') cp)) kvs"
    by (auto simp: py_update_def split: sum.splits)
  with a cp e show ?thesis by (auto simp: merged_permissions_def)
qed

lemma create_choose_alias_permissions:
  assumes "create_choose_alias ev table parent_artifact alias1 workspace1 parent_id1 publish_to
     overwrite config1 = Inr (alias2, id1, overwrite1, config2)"
  shows "dict_get config2 ''permissions'' d = dict_get config1 ''permissions'' d"
proof (cases "truthy_str alias1 \<and> CHR ''{'' \<in> set (str_of_opt alias1)
          \<and> CHR ''}'' \<in> set (str_of_opt alias1)")
  case True
  with assms have "config2 = config1 \<or> (\<exists>dep. config2 = AList.update ''zenodo'' dep config1)"
    unfolding create_choose_alias_def
    by (auto simp: on_ok_Inr split: if_splits)
  then show ?thesis by (auto simp: dict_get_def AList.update_conv')
next
  case False
  with assms have "config2 = config1"
    unfolding create_choose_alias_def
    by (auto simp: on_ok_Inr split: if_splits option.splits sum.splits error.splits)
  then show ?thesis by simp
qed

lemma get_artifact_mem: "get_artifact table artifact_id = Inr a \<Longrightarrow> a \<in> set table"
proof -
  assume "get_artifact table artifact_id = Inr a"
  then obtain cond where "filter cond table = [a]"
    by (auto simp: get_artifact_def scalar_one_or_none_def
             split: sum.splits list.splits option.splits)
  then have "a \<in> set (filter cond table)" by simp
  then show ?thesis by simp
qed

lemma get_artifact_with_permission_mem:
  "get_artifact_with_permission table u artifact_id operation = Inr (a, p) \<Longrightarrow> a \<in> set table"
  by (auto simp: get_artifact_with_permission_def get_artifact_with_parent_def
           dest: get_artifact_mem
           split: option.splits sum.splits bool.splits if_splits list.splits)

lemma update_row_mem: "a \<in> set table \<Longrightarrow> id_col a7 = id_col a \<Longrightarrow> a7 \<in> set (update_row a7 table)"
  by (force simp: update_row_def)

lemma get_version_index_versions:
  "versions a = versions b \<Longrightarrow> get_version_index a v = get_version_index b v"
  by (cases v) (simp_all add: get_version_index_def)

lemma edit_version_result:
  assumes "edit_version t a version0 comment0 = Inr (a3, version_index, version1)"
  shows "id_col a3 = id_col a" "workspace a3 = workspace a" "config a3 = config a"
    "secrets a3 = secrets a" "staging a3 = staging a"
    "version0 = None \<Longrightarrow> versions a3 = versions a \<and> version1 = None
        \<and> get_version_index a VNone = Inr version_index"
  using assms
  by (auto simp: edit_version_def on_ok_Inr Let_def split: option.splits if_splits)

lemma edit_config_result:
  assumes "edit_config ev u parent_artifact a config0 = Inr a4"
  shows "id_col a4 = id_col a" "workspace a4 = workspace a" "versions a4 = versions a"
    "staging a4 = staging a"
    "config0 = None \<Longrightarrow> config a4 = config a"
    "\<And>c p. config0 = Some c \<Longrightarrow> parent_artifact = Some p \<Longrightarrow>
        \<exists>c1. merge_permissions ev u parent_artifact c = Inr c1 \<and> config a4 = Some c1"
    "\<And>c. config0 = Some c \<Longrightarrow> parent_artifact = None \<Longrightarrow> config a4 = Some c"
  using assms
  by (auto simp: edit_config_def on_ok_Inr split: option.splits)

lemma edit_row_result:
  assumes "edit_row ev u a parent_artifact manifest0 type0 config0 secrets0 version0 comment0
             = Inr (a7, version_index)"
  shows "id_col a7 = id_col a" "workspace a7 = workspace a"
    "version0 = None \<Longrightarrow> versions a7 = versions a \<and> staging a7 = JsonNull
        \<and> get_version_index a VNone = Inr version_index"
    "\<And>c p. config0 = Some c \<Longrightarrow> parent_artifact = Some p \<Longrightarrow>
        \<exists>c1. merge_permissions ev u parent_artifact c = Inr c1 \<and> config a7 = Some c1"
    "\<And>c. config0 = Some c \<Longrightarrow> parent_artifact = None \<Longrightarrow> config a7 = Some c"
proof -
  let ?a1 = "a\<lparr>type_col := (if truthy_str type0 then type0 else type_col a)\<rparr>"
  let ?a2 = "(if truthy_dict manifest0 then ?a1\<lparr>manifest := manifest0\<rparr> else ?a1)"
  from assms obtain a3 version1 a4 where
    v: "edit_version (now ev) ?a2 version0 comment0 = Inr (a3, version_index, version1)"
    and c: "edit_config ev u parent_artifact a3 config0 = Inr a4"
    and r: "a7 = (let a5 = (case secrets0 of None \<Rightarrow> a4 | Some s \<Rightarrow> a4\<lparr>secrets := Some s\<rparr>);
          a6 = a5\<lparr>last_modified := now ev\<rparr>
        in (if version1 \<noteq> Some ''stage'' then a6\<lparr>staging := JsonNull\<rparr>
                else (case staging a6 of
                        Staged (f # fs) \<Rightarrow> a6
                      | _ \<Rightarrow> a6\<lparr>staging := Staged []\<rparr>)))"
    unfolding edit_row_def Let_def
    by (auto simp: on_ok_Inr check_Inr split: prod.splits)
  have k: "id_col a7 = id_col a4" "workspace a7 = workspace a4" "versions a7 = versions a4"
    "config a7 = config a4" "version1 = None \<Longrightarrow> staging a7 = JsonNull"
    unfolding r Let_def
    by (auto split: option.splits staging_col.splits list.splits)
  have v2: "versions ?a2 = versions a" "id_col ?a2 = id_col a" "workspace ?a2 = workspace a"
    by simp_all
  show "id_col a7 = id_col a" "workspace a7 = workspace a"
    using k edit_config_result(1,2)[OF c] edit_version_result(1,2)[OF v] v2 by simp_all
  show "version0 = None \<Longrightarrow> versions a7 = versions a \<and> staging a7 = JsonNull
        \<and> get_version_index a VNone = Inr version_index"
    using k edit_config_result(3)[OF c] edit_version_result(6)[OF v] v2
      get_version_index_versions[of ?a2 a VNone] by simp
  show "\<And>c p. config0 = Some c \<Longrightarrow> parent_artifact = Some p \<Longrightarrow>
        \<exists>c1. merge_permissions ev u parent_artifact c = Inr c1 \<and> config a7 = Some c1"
    using k edit_config_result(6)[OF c] by simp
  show "\<And>c. config0 = Some c \<Longrightarrow> parent_artifact = None \<Longrightarrow> config a7 = Some c"
    using k edit_config_result(7)[OF c] by simp
qed

lemma star_survives:
  "uid \<notin> fst ` set pp \<Longrightarrow>
   map_of (dict_update (AList.update uid (JStr ''*'') cp) pp) uid = Some (JStr ''*'')"
  by (simp add: dict_update_notin AList.update_conv')

lemma json_dict_fold_lookup:
  "map_of (fold (\<lambda>(k, v). AList.update (g k) v) d acc) s
     = (case map_of (rev (map (\<lambda>(k, v). (g k, v)) d)) s of
          Some x \<Rightarrow> Some x
        | None \<Rightarrow> map_of acc s)"
proof (induction d arbitrary: acc)
  case Nil
  then show ?case by simp
next
  case (Cons kv d)
  obtain k v where kv: "kv = (k, v)" by (cases kv)
  show ?case
    by (auto simp: kv Cons.IH AList.update_conv' map_add_def split: option.splits)
qed

lemma map_of_rev_const:
  assumes "\<exists>kv \<in> set xs. fst kv = s" and "\<forall>kv \<in> set xs. fst kv = s \<longrightarrow> snd kv = c"
  shows "map_of (rev xs) s = Some c"
proof -
  from assms(1) have "s \<in> fst ` set (rev xs)" by force
  then obtain x where x: "map_of (rev xs) s = Some x"
    by (metis map_of_eq_None_iff not_Some_eq)
  from map_of_SomeD[OF x] have "(s, x) \<in> set xs" by simp
  with assms(2) have "x = c" by force
  with x show ?thesis by simp
qed

lemma dict_setitem_entries:
  assumes "(k', v') \<in> set (dict_setitem d k v)"
  shows "(k', v') \<in> set d \<or> (v' = v \<and> (k' = k \<or> (\<exists>w. (k', w) \<in> set d \<and> key_eq k' k)))"
  using assms
  by (induction d) (auto split: if_splits)

lemma dict_setitem_keeps:
  assumes "(k', v') \<in> set d" and "\<not> key_eq k' k"
  shows "(k', v') \<in> set (dict_setitem d k v)"
  using assms by (induction d) auto

lemma user_entry_kept:
  assumes "\<forall>kv \<in> set kvs. json_key f (fst kv) \<noteq> uid"
    and "(JStr uid, c) \<in> set d"
    and "\<forall>kv \<in> set d. json_key f (fst kv) = uid \<longrightarrow> kv = (JStr uid, c)"
  shows "(JStr uid, c) \<in> set (set_entries d kvs)
     \<and> (\<forall>kv \<in> set (set_entries d kvs). json_key f (fst kv) = uid \<longrightarrow> kv = (JStr uid, c))"
  using assms
proof (induction kvs arbitrary: d)
  case Nil
  then show ?case by (simp add: set_entries_def)
next
  case (Cons e kvs)
  obtain k v where e: "e = (k, v)" by (cases e)
  from Cons.prems(1) e have ne: "json_key f k \<noteq> uid" by simp
  then have nk: "\<not> key_eq (JStr uid) k" by (auto simp: key_eq_str json_key_def)
  have m: "(JStr uid, c) \<in> set (dict_setitem d k v)"
    by (rule dict_setitem_keeps[OF Cons.prems(2) nk])
  have a: "\<forall>kv \<in> set (dict_setitem d k v). json_key f (fst kv) = uid \<longrightarrow> kv = (JStr uid, c)"
  proof (intro ballI impI)
    fix kv assume i: "kv \<in> set (dict_setitem d k v)" and j: "json_key f (fst kv) = uid"
    obtain k' v' where kv: "kv = (k', v')" by (cases kv)
    from dict_setitem_entries[OF i[unfolded kv]]
    show "kv = (JStr uid, c)"
    proof
      assume "(k', v') \<in> set d"
      with Cons.prems(3) j kv show ?thesis by force
    next
      assume r: "v' = v \<and> (k' = k \<or> (\<exists>w. (k', w) \<in> set d \<and> key_eq k' k))"
      then have "k' = k \<or> (\<exists>w. (k', w) \<in> set d \<and> key_eq k' k)" by simp
      then show ?thesis
      proof
        assume "k' = k" with j kv ne show ?thesis by simp
      next
        assume "\<exists>w. (k', w) \<in> set d \<and> key_eq k' k"
        then obtain w where w: "(k', w) \<in> set d" and q: "key_eq k' k" by blast
        from Cons.prems(3) w j kv have "k' = JStr uid" by force
        with q nk show ?thesis by simp
      qed
    qed
  qed
  from Cons.prems(1) have r: "\<forall>kv \<in> set kvs. json_key f (fst kv) \<noteq> uid" by simp
  from Cons.IH[OF r m a] show ?case by (simp add: set_entries_def e)
qed

lemma to_pydict_entries: "set (to_pydict d) = (\<lambda>(k, v). (JStr k, v)) ` set d"
  by (auto simp: to_pydict_def)

lemma user_entry_initial:
  assumes "distinct (map fst cp)"
  shows "(JStr uid, JStr ''*'') \<in> set (to_pydict (AList.update uid (JStr ''*'') cp))"
    and "\<forall>kv \<in> set (to_pydict (AList.update uid (JStr ''*'') cp)).
           json_key f (fst kv) = uid \<longrightarrow> kv = (JStr uid, JStr ''*'')"
proof -
  have l: "map_of (AList.update uid (JStr ''*'') cp) uid = Some (JStr ''*'')"
    by (simp add: AList.update_conv')
  from map_of_SomeD[OF l] show "(JStr uid, JStr ''*'') \<in> set (to_pydict (AList.update uid (JStr ''*'') cp))"
    by (force simp: to_pydict_entries)
  have d: "distinct (map fst (AList.update uid (JStr ''*'') cp))"
    by (rule AList.distinct_update[OF assms])
  show "\<forall>kv \<in> set (to_pydict (AList.update uid (JStr ''*'') cp)).
           json_key f (fst kv) = uid \<longrightarrow> kv = (JStr uid, JStr ''*'')"
  proof (intro ballI impI)
    fix kv assume i: "kv \<in> set (to_pydict (AList.update uid (JStr ''*'') cp))"
      and j: "json_key f (fst kv) = uid"
    from i obtain k v where kv: "kv = (JStr k, v)"
      and m: "(k, v) \<in> set (AList.update uid (JStr ''*'') cp)"
      by (auto simp: to_pydict_entries)
    from j kv have "k = uid" by (simp add: json_key_def)
    with m d l have "v = JStr ''*''" by (metis map_of_is_SomeI option.inject)
    with kv \<open>k = uid\<close> show "kv = (JStr uid, JStr ''*'')" by simp
  qed
qed

lemma acting_user_entry:
  assumes "distinct (map fst cp)" and "\<forall>kv \<in> set kvs. json_key f (fst kv) \<noteq> uid"
  shows "\<exists>ps. merged_permissions f uid cp kvs = JObj ps \<and> map_of ps uid = Some (JStr ''*'')"
proof -
  let ?d = "set_entries (to_pydict (AList.update uid (JStr ''*'') cp)) kvs"
  from user_entry_kept[OF assms(2) user_entry_initial(1)[OF assms(1)]
      user_entry_initial(2)[OF assms(1)]]
  have m: "(JStr uid, JStr ''*'') \<in> set ?d"
    and a: "\<forall>kv \<in> set ?d. json_key f (fst kv) = uid \<longrightarrow> kv = (JStr uid, JStr ''*'')"
    by blast+
  let ?xs = "map (\<lambda>(k, v). (json_key f k, v)) ?d"
  have "\<exists>kv \<in> set ?xs. fst kv = uid" using m by (force simp: json_key_def)
  moreover have "\<forall>kv \<in> set ?xs. fst kv = uid \<longrightarrow> snd kv = JStr ''*''" using a by force
  ultimately have "map_of (rev ?xs) uid = Some (JStr ''*'')" by (rule map_of_rev_const)
  then have "map_of (json_dict f ?d) uid = Some (JStr ''*'')"
    by (simp add: json_dict_def json_dict_fold_lookup)
  then show ?thesis by (simp add: merged_permissions_def)
qed

lemma merged_permissions_cases:
  assumes "update_entries parent_permissions = Inr kvs"
  shows "\<forall>pp. parent_permissions = JObj pp \<longrightarrow> distinct (map fst cp) \<longrightarrow>
       merged_permissions f uid cp kvs = JObj (dict_update (AList.update uid (JStr ''*'') cp) pp)
       \<and> (distinct (map fst pp) \<longrightarrow>
            map_of (dict_update (AList.update uid (JStr ''*'') cp) pp)
              = (map_of cp)(uid \<mapsto> JStr ''*'') ++ map_of pp)
       \<and> (uid \<notin> fst ` set pp \<longrightarrow>
            map_of (dict_update (AList.update uid (JStr ''*'') cp) pp) uid = Some (JStr ''*''))"
    and "distinct (map fst cp) \<longrightarrow> (\<forall>kv \<in> set kvs. json_key f (fst kv) \<noteq> uid) \<longrightarrow>
       (\<exists>ps. merged_permissions f uid cp kvs = JObj ps \<and> map_of ps uid = Some (JStr ''*''))"
proof -
  show "\<forall>pp. parent_permissions = JObj pp \<longrightarrow> distinct (map fst cp) \<longrightarrow>
       merged_permissions f uid cp kvs = JObj (dict_update (AList.update uid (JStr ''*'') cp) pp)
       \<and> (distinct (map fst pp) \<longrightarrow>
            map_of (dict_update (AList.update uid (JStr ''*'') cp) pp)
              = (map_of cp)(uid \<mapsto> JStr ''*'') ++ map_of pp)
       \<and> (uid \<notin> fst ` set pp \<longrightarrow>
            map_of (dict_update (AList.update uid (JStr ''*'') cp) pp) uid = Some (JStr ''*''))"
  proof (intro allI impI conjI)
    fix pp
    assume "parent_permissions = JObj pp" and d: "distinct (map fst cp)"
    with assms have "kvs = to_pydict pp" by (simp add: update_entries_dict)
    then show "merged_permissions f uid cp kvs
        = JObj (dict_update (AList.update uid (JStr ''*'') cp) pp)"
      by (simp add: merged_permissions_dict[OF d])
  next
    fix pp :: dict
    assume "distinct (map fst pp)"
    then show "map_of (dict_update (AList.update uid (JStr ''*'') cp) pp)
                = (map_of cp)(uid \<mapsto> JStr ''*'') ++ map_of pp"
      by (simp add: map_of_dict_update_distinct AList.update_conv')
  next
    fix pp :: dict
    assume "uid \<notin> fst ` set pp"
    then show "map_of (dict_update (AList.update uid (JStr ''*'') cp) pp) uid = Some (JStr ''*'')"
      by (rule star_survives)
  qed
  show "distinct (map fst cp) \<longrightarrow> (\<forall>kv \<in> set kvs. json_key f (fst kv) \<noteq> uid) \<longrightarrow>
       (\<exists>ps. merged_permissions f uid cp kvs = JObj ps \<and> map_of ps uid = Some (JStr ''*''))"
    using acting_user_entry[of cp kvs f uid] by blast
qed

text \<open>
  C5, as the code has it: after a successful \<open>create\<close>, and after a successful \<open>edit\<close> that
  supplies a config for an artifact that has a parent, the stored \<open>config.permissions\<close> is
  the caller's permissions with the acting user set to \<open>*\<close> and then the parent's entries
  written over them, as \<open>dict.update\<close> reads the parent's permissions (a dict, or a
  sequence of pairs). The acting user's entry is \<open>*\<close> when none of the parent's entries is
  written under that user's id; when the parent's permissions are a dict, an entry of the
  parent for that user stands instead.
\<close>

theorem permissions_after_create_and_edit:
  "(create ev st alias0 workspace0 parent_id0 manifest0 type0 config0 secrets0 publish_to
      version0 comment0 overwrite ctx = Inr (out, st') \<longrightarrow>
    (\<exists>w u alias1 workspace1 parent_artifact parent_id1 workspace2 a c cp parent_permissions kvs.
       with_context ctx = Inr (w, u)
       \<and> create_split_alias alias0 workspace0 = Inr (alias1, workspace1)
       \<and> create_resolve_parent (artifacts st) u w parent_id0 workspace1
            = Inr (parent_artifact, parent_id1, workspace2)
       \<and> dict_get (dict_or_empty config0) ''permissions'' (JObj []) = JObj cp
       \<and> parent_permissions_of parent_artifact = Inr parent_permissions
       \<and> update_entries parent_permissions = Inr kvs
       \<and> a \<in> set (artifacts st') \<and> map_of out ''_id'' = Some (JStr (id_col a))
       \<and> config a = Some c
       \<and> map_of c ''permissions'' = Some (merged_permissions (repr_float ev) (user_id u) cp kvs)
       \<and> (\<forall>pp. parent_permissions = JObj pp \<longrightarrow> distinct (map fst cp) \<longrightarrow>
            merged_permissions (repr_float ev) (user_id u) cp kvs
              = JObj (dict_update (AList.update (user_id u) (JStr ''*'') cp) pp)
            \<and> (distinct (map fst pp) \<longrightarrow>
                 map_of (dict_update (AList.update (user_id u) (JStr ''*'') cp) pp)
                   = (map_of cp)(user_id u \<mapsto> JStr ''*'') ++ map_of pp)
            \<and> (user_id u \<notin> fst ` set pp \<longrightarrow>
                 map_of (dict_update (AList.update (user_id u) (JStr ''*'') cp) pp) (user_id u)
                   = Some (JStr ''*'')))
       \<and> (distinct (map fst cp) \<longrightarrow>
            (\<forall>kv \<in> set kvs. json_key (repr_float ev) (fst kv) \<noteq> user_id u) \<longrightarrow>
            (\<exists>ps. merged_permissions (repr_float ev) (user_id u) cp kvs = JObj ps
                  \<and> map_of ps (user_id u) = Some (JStr ''*''))))) \<and>
   (edit ev st artifact_id manifest1 type1 (Some config1) secrets1 version1 comment1 ctx1
      = Inr (out1, st1) \<longrightarrow>
    (\<forall>w u artifact_id1 a0 p.
       with_context ctx1 = Inr (w, u) \<longrightarrow>
       validate_artifact_id artifact_id w = Inr artifact_id1 \<longrightarrow>
       get_artifact_with_permission (artifacts st) u artifact_id1 ''edit'' = Inr (a0, Some p) \<longrightarrow>
       (\<exists>a c cp parent_permissions kvs.
          dict_get config1 ''permissions'' (JObj []) = JObj cp
          \<and> parent_permissions_of (Some p) = Inr parent_permissions
          \<and> update_entries parent_permissions = Inr kvs
          \<and> a \<in> set (artifacts st1) \<and> id_col a = id_col a0
          \<and> map_of out1 ''_id'' = Some (JStr (id_col a))
          \<and> config a = Some c
          \<and> map_of c ''permissions''
               = Some (merged_permissions (repr_float ev) (user_id u) cp kvs)
          \<and> (\<forall>pp. parent_permissions = JObj pp \<longrightarrow> distinct (map fst cp) \<longrightarrow>
               merged_permissions (repr_float ev) (user_id u) cp kvs
                 = JObj (dict_update (AList.update (user_id u) (JStr ''*'') cp) pp)
               \<and> (distinct (map fst pp) \<longrightarrow>
                    map_of (dict_update (AList.update (user_id u) (JStr ''*'') cp) pp)
                      = (map_of cp)(user_id u \<mapsto> JStr ''*'') ++ map_of pp)
               \<and> (user_id u \<notin> fst ` set pp \<longrightarrow>
                    map_of (dict_update (AList.update (user_id u) (JStr ''*'') cp) pp) (user_id u)
                      = Some (JStr ''*'')))
          \<and> (distinct (map fst cp) \<longrightarrow>
               (\<forall>kv \<in> set kvs. json_key (repr_float ev) (fst kv) \<noteq> user_id u) \<longrightarrow>
               (\<exists>ps. merged_permissions (repr_float ev) (user_id u) cp kvs = JObj ps
                     \<and> map_of ps (user_id u) = Some (JStr ''*''))))))"
proof (intro conjI impI allI)
  assume cr: "create ev st alias0 workspace0 parent_id0 manifest0 type0 config0 secrets0 publish_to
      version0 comment0 overwrite ctx = Inr (out, st')"
  from create_success[OF cr] obtain w u alias1 workspace1 parent_artifact parent_id1 workspace2
      alias2 id1 overwrite1 config1' config2 where
    ctx: "with_context ctx = Inr (w, u)"
    and sp: "create_split_alias alias0 workspace0 = Inr (alias1, workspace1)"
    and rp: "create_resolve_parent (artifacts st) u w parent_id0 workspace1
         = Inr (parent_artifact, parent_id1, workspace2)"
    and ch: "create_choose_alias ev (artifacts st) parent_artifact alias1 workspace2 parent_id1
              publish_to overwrite (dict_or_empty config0) = Inr (alias2, id1, overwrite1, config1')"
    and mp: "merge_permissions ev u parent_artifact config1' = Inr config2"
    and p: "create_persist ev st
         (create_row ev u id1 type0 workspace2 parent_id1 alias2 manifest0 version0 comment0
            config2 secrets0)
         parent_artifact overwrite1 (snd (initial_versions (now ev) version0 comment0))
         config2 = Inr (out, st')"
    by blast
  let ?a = "create_row ev u id1 type0 workspace2 parent_id1 alias2 manifest0 version0 comment0
            config2 secrets0"
  from merge_permissions_result[OF mp] obtain cp parent_permissions kvs where
    cp: "dict_get config1' ''permissions'' (JObj []) = JObj cp"
    and pp: "parent_permissions_of parent_artifact = Inr parent_permissions"
    and ue: "update_entries parent_permissions = Inr kvs"
    and c2: "config2 = AList.update ''permissions''
               (merged_permissions (repr_float ev) (user_id u) cp kvs) config1'"
    by blast
  from cp create_choose_alias_permissions[OF ch]
  have cp0: "dict_get (dict_or_empty config0) ''permissions'' (JObj []) = JObj cp" by simp
  from create_persist_result[OF p] have mem: "?a \<in> set (artifacts st')"
    and oid: "map_of out ''_id'' = Some (JStr (id_col ?a))"
    by (simp_all add: generate_artifact_data_id)
  have cfg: "config ?a = Some config2" by (simp add: create_row_def split: prod.splits)
  have lk: "map_of config2 ''permissions''
      = Some (merged_permissions (repr_float ev) (user_id u) cp kvs)"
    by (simp add: c2 AList.update_conv')
  show "\<exists>w u alias1 workspace1 parent_artifact parent_id1 workspace2 a c cp parent_permissions kvs.
       with_context ctx = Inr (w, u)
       \<and> create_split_alias alias0 workspace0 = Inr (alias1, workspace1)
       \<and> create_resolve_parent (artifacts st) u w parent_id0 workspace1
            = Inr (parent_artifact, parent_id1, workspace2)
       \<and> dict_get (dict_or_empty config0) ''permissions'' (JObj []) = JObj cp
       \<and> parent_permissions_of parent_artifact = Inr parent_permissions
       \<and> update_entries parent_permissions = Inr kvs
       \<and> a \<in> set (artifacts st') \<and> map_of out ''_id'' = Some (JStr (id_col a))
       \<and> config a = Some c
       \<and> map_of c ''permissions'' = Some (merged_permissions (repr_float ev) (user_id u) cp kvs)
       \<and> (\<forall>pp. parent_permissions = JObj pp \<longrightarrow> distinct (map fst cp) \<longrightarrow>
            merged_permissions (repr_float ev) (user_id u) cp kvs
              = JObj (dict_update (AList.update (user_id u) (JStr ''*'') cp) pp)
            \<and> (distinct (map fst pp) \<longrightarrow>
                 map_of (dict_update (AList.update (user_id u) (JStr ''*'') cp) pp)
                   = (map_of cp)(user_id u \<mapsto> JStr ''*'') ++ map_of pp)
            \<and> (user_id u \<notin> fst ` set pp \<longrightarrow>
                 map_of (dict_update (AList.update (user_id u) (JStr ''*'') cp) pp) (user_id u)
                   = Some (JStr ''*'')))
       \<and> (distinct (map fst cp) \<longrightarrow>
            (\<forall>kv \<in> set kvs. json_key (repr_float ev) (fst kv) \<noteq> user_id u) \<longrightarrow>
            (\<exists>ps. merged_permissions (repr_float ev) (user_id u) cp kvs = JObj ps
                  \<and> map_of ps (user_id u) = Some (JStr ''*'')))"
    using ctx sp rp cp0 pp ue mem oid cfg lk
      merged_permissions_cases[OF ue, of cp "repr_float ev" "user_id u"]
    by (intro exI[of _ w] exI[of _ u] exI[of _ alias1] exI[of _ workspace1]
          exI[of _ parent_artifact] exI[of _ parent_id1] exI[of _ workspace2] exI[of _ ?a]
          exI[of _ config2] exI[of _ cp] exI[of _ parent_permissions] exI[of _ kvs])
       (intro conjI, assumption+)
next
  fix w u artifact_id1 a0 p
  assume ed: "edit ev st artifact_id manifest1 type1 (Some config1) secrets1 version1 comment1 ctx1
      = Inr (out1, st1)"
    and ctx: "with_context ctx1 = Inr (w, u)"
    and va: "validate_artifact_id artifact_id w = Inr artifact_id1"
    and ga: "get_artifact_with_permission (artifacts st) u artifact_id1 ''edit'' = Inr (a0, Some p)"
  from edit_success[OF ed] ctx va ga obtain a7 version_index where
    er: "edit_row ev u a0 (Some p) manifest1 type1 (Some config1) secrets1 version1 comment1
          = Inr (a7, version_index)"
    and tb: "artifacts st1 = update_row a7 (artifacts st)"
    and o: "out1 = generate_artifact_data a7 (Some p)"
    by auto
  from edit_row_result(4)[OF er] obtain c1 where
    mp: "merge_permissions ev u (Some p) config1 = Inr c1" and cfg: "config a7 = Some c1" by blast
  from merge_permissions_result[OF mp] obtain cp parent_permissions kvs where
    cp: "dict_get config1 ''permissions'' (JObj []) = JObj cp"
    and pp: "parent_permissions_of (Some p) = Inr parent_permissions"
    and ue: "update_entries parent_permissions = Inr kvs"
    and c2: "c1 = AList.update ''permissions''
               (merged_permissions (repr_float ev) (user_id u) cp kvs) config1"
    by blast
  have mem: "a7 \<in> set (artifacts st1)"
    unfolding tb
    by (rule update_row_mem[OF get_artifact_with_permission_mem[OF ga] edit_row_result(1)[OF er]])
  have oid: "map_of out1 ''_id'' = Some (JStr (id_col a7))"
    by (simp add: o generate_artifact_data_id)
  have lk: "map_of c1 ''permissions''
      = Some (merged_permissions (repr_float ev) (user_id u) cp kvs)"
    by (simp add: c2 AList.update_conv')
  note idc = edit_row_result(1)[OF er]
  show "\<exists>a c cp parent_permissions kvs.
          dict_get config1 ''permissions'' (JObj []) = JObj cp
          \<and> parent_permissions_of (Some p) = Inr parent_permissions
          \<and> update_entries parent_permissions = Inr kvs
          \<and> a \<in> set (artifacts st1) \<and> id_col a = id_col a0
          \<and> map_of out1 ''_id'' = Some (JStr (id_col a))
          \<and> config a = Some c
          \<and> map_of c ''permissions''
               = Some (merged_permissions (repr_float ev) (user_id u) cp kvs)
          \<and> (\<forall>pp. parent_permissions = JObj pp \<longrightarrow> distinct (map fst cp) \<longrightarrow>
               merged_permissions (repr_float ev) (user_id u) cp kvs
                 = JObj (dict_update (AList.update (user_id u) (JStr ''*'') cp) pp)
               \<and> (distinct (map fst pp) \<longrightarrow>
                    map_of (dict_update (AList.update (user_id u) (JStr ''*'') cp) pp)
                      = (map_of cp)(user_id u \<mapsto> JStr ''*'') ++ map_of pp)
               \<and> (user_id u \<notin> fst ` set pp \<longrightarrow>
                    map_of (dict_update (AList.update (user_id u) (JStr ''*'') cp) pp) (user_id u)
                      = Some (JStr ''*'')))
          \<and> (distinct (map fst cp) \<longrightarrow>
               (\<forall>kv \<in> set kvs. json_key (repr_float ev) (fst kv) \<noteq> user_id u) \<longrightarrow>
               (\<exists>ps. merged_permissions (repr_float ev) (user_id u) cp kvs = JObj ps
                     \<and> map_of ps (user_id u) = Some (JStr ''*'')))"
    using cp pp ue mem idc oid cfg lk
      merged_permissions_cases[OF ue, of cp "repr_float ev" "user_id u"]
    by (intro exI[of _ a7] exI[of _ c1] exI[of _ cp] exI[of _ parent_permissions] exI[of _ kvs])
       (intro conjI, assumption+)
qed

text \<open>
  C9: a successful \<open>edit\<close> with no version leaves the row with null staging (whatever was
  staged), with the versions it had, and writes the row's snapshot at index
  \<open>max 0 (N - 1)\<close>, \<open>N\<close> being the length of the versions: the key of the latest committed
  version's snapshot, which is overwritten.
\<close>

theorem edit_without_version:
  assumes "edit ev st artifact_id manifest0 type0 config0 secrets0 None comment0 ctx = Inr (out, st')"
  shows "\<exists>w u artifact_id1 a parent_artifact a7 vs b p.
     with_context ctx = Inr (w, u)
     \<and> validate_artifact_id artifact_id w = Inr artifact_id1
     \<and> get_artifact_with_permission (artifacts st) u artifact_id1 ''edit'' = Inr (a, parent_artifact)
     \<and> a7 \<in> set (artifacts st') \<and> id_col a7 = id_col a
     \<and> map_of out ''_id'' = Some (JStr (id_col a7))
     \<and> staging a7 = JsonNull
     \<and> versions a = Some vs \<and> versions a7 = Some vs
     \<and> create_client (get_s3_config ev a7 parent_artifact) = Inr (b, p)
     \<and> s3 st' = AList.update
                  (b, VersionJson p (workspace a7) (id_col a7) (nat (max 0 (int (length vs) - 1))))
                  (JsonBody (JObj (model_to_dict a7))) (s3 st)"
proof -
  from edit_success[OF assms] obtain w u artifact_id1 a parent_artifact a7 version_index where
    ctx: "with_context ctx = Inr (w, u)"
    and va: "validate_artifact_id artifact_id w = Inr artifact_id1"
    and ga: "get_artifact_with_permission (artifacts st) u artifact_id1 ''edit'' = Inr (a, parent_artifact)"
    and er: "edit_row ev u a parent_artifact manifest0 type0 config0 secrets0 None comment0
          = Inr (a7, version_index)"
    and sv: "save_version_to_s3 version_index a7 (get_s3_config ev a7 parent_artifact) (s3 st)
          = Inr (s3 st')"
    and tb: "artifacts st' = update_row a7 (artifacts st)"
    and o: "out = generate_artifact_data a7 parent_artifact"
    by blast
  from edit_row_result(3)[OF er] have v7: "versions a7 = versions a" and s7: "staging a7 = JsonNull"
    and gi: "get_version_index a VNone = Inr version_index" by simp_all
  from gi obtain vs where vs: "versions a = Some vs"
    and vi: "version_index = max 0 (int (length vs) - 1)"
    by (auto simp: get_version_index_def split: option.splits)
  from save_version_to_s3_result[OF sv] obtain b p where
    cc: "create_client (get_s3_config ev a7 parent_artifact) = Inr (b, p)"
    and st: "s3 st' = AList.update (b, VersionJson p (workspace a7) (id_col a7) (nat version_index))
                (JsonBody (JObj (model_to_dict a7))) (s3 st)"
    by blast
  have mem: "a7 \<in> set (artifacts st')"
    unfolding tb
    by (rule update_row_mem[OF get_artifact_with_permission_mem[OF ga] edit_row_result(1)[OF er]])
  show ?thesis
    using ctx va ga mem edit_row_result(1)[OF er] s7 vs v7 cc st vi
    by (intro exI[of _ w] exI[of _ u] exI[of _ artifact_id1] exI[of _ a]
          exI[of _ parent_artifact] exI[of _ a7] exI[of _ vs] exI[of _ b] exI[of _ p])
       (simp add: o generate_artifact_data_id)
qed

lemma dec_enc_version: "dec_version (enc_version v) = v"
  by (simp add: dec_version_def enc_version_def dict_get_def dec_str_def dec_opt_str_def
      dec_int_def enc_opt_str_def split: option.splits)

lemma dec_enc_versions: "dec_versions (enc_versions vs) = vs"
  by (cases vs) (simp_all add: dec_versions_def enc_versions_def dec_enc_version map_idI)

lemma snapshot_versions:
  "versions (ArtifactModel fresh (AList.delete ''secrets'' (model_to_dict snap))) = versions snap"
  by (simp add: ArtifactModel_def model_to_dict_def dict_get_def dec_enc_versions)

lemma snapshot_id:
  "id_col (ArtifactModel fresh (AList.delete ''secrets'' (model_to_dict snap))) = id_col snap"
  by (simp add: ArtifactModel_def model_to_dict_def)

lemma commit_staged_files_keeps:
  assumes "commit_staged_files ev store a parent_artifact version_index = Inr a2"
  shows "versions a2 = versions a" "id_col a2 = id_col a" "staging a2 = staging a"
    "workspace a2 = workspace a"
  using assms
  by (auto simp: commit_staged_files_def on_ok_Inr Let_def
           split: staging_col.splits list.splits prod.splits if_splits)

lemma commit_row_result:
  assumes "commit_row ev store artifact_data parent_artifact version_index version0 comment0 = Inr a3"
  shows "staging a3 = JsonNull"
    and "id_col a3 = id_col (ArtifactModel (new_id ev) artifact_data)"
    and "versions a3 =
      Some (let vs0 = (case versions (ArtifactModel (new_id ev) artifact_data) of
                         None \<Rightarrow> [] | Some vs \<Rightarrow> vs)
            in case version0 of
                 None \<Rightarrow> vs0
               | Some v \<Rightarrow>
                   vs0 @ [\<lparr>version = (if v = ''new'' then ''v'' @ str_of_nat (length vs0) else v),
                           comment = comment0, created_at_v = now ev\<rparr>])"
proof -
  let ?a = "ArtifactModel (new_id ev) artifact_data"
  let ?a1 = "?a\<lparr>config := Some (dict_or_empty (config ?a))\<rparr>"
  from assms obtain a2 where
    f: "commit_staged_files ev store ?a1 parent_artifact version_index = Inr a2"
    and r: "a3 = a2\<lparr>versions := Some (let vs0 = (case versions ?a of None \<Rightarrow> [] | Some vs \<Rightarrow> vs)
            in case version0 of
                 None \<Rightarrow> vs0
               | Some v \<Rightarrow>
                   vs0 @ [\<lparr>version = (if v = ''new'' then ''v'' @ str_of_nat (length vs0) else v),
                           comment = comment0, created_at_v = now ev\<rparr>]),
              staging := JsonNull, last_modified := now ev\<rparr>"
    unfolding commit_row_def Let_def
    by (auto simp: on_ok_Inr check_Inr)
  show "staging a3 = JsonNull" by (simp add: r)
  show "id_col a3 = id_col ?a" using commit_staged_files_keeps(2)[OF f] by (simp add: r)
  show "versions a3 =
      Some (let vs0 = (case versions ?a of None \<Rightarrow> [] | Some vs \<Rightarrow> vs)
            in case version0 of
                 None \<Rightarrow> vs0
               | Some v \<Rightarrow>
                   vs0 @ [\<lparr>version = (if v = ''new'' then ''v'' @ str_of_nat (length vs0) else v),
                           comment = comment0, created_at_v = now ev\<rparr>])"
    by (simp add: r)
qed

lemma session_merge_result:
  assumes "session_merge a3 table = Inr table1" and "a0 \<in> set table" and "id_col a3 = id_col a0"
  shows "table1 = update_row a3 table" "a3 \<in> set table1"
    "\<forall>r \<in> set table1. id_col r = id_col a0 \<longrightarrow> r = a3"
  using assms
  by (auto simp: session_merge_def update_row_def list_ex_iff split: if_splits)

lemma snapshot_id_given:
  "map_of artifact_data ''id'' = Some (JStr i) \<Longrightarrow> id_col (ArtifactModel fresh artifact_data) = i"
  by (simp add: ArtifactModel_def)

text \<open>
  The snapshots the controller writes are filed under the id they carry, so in a store
  that holds only such snapshots the one loaded for an artifact carries that artifact's id.
\<close>

lemma list_all_update:
  "list_all P store \<Longrightarrow> P (k, v) \<Longrightarrow> list_all P (AList.update k v store)"
  by (induction store) auto

lemma save_version_keeps_ids:
  assumes "save_version_to_s3 version_index a c store = Inr store1" and "snapshot_ids_ok store"
  shows "snapshot_ids_ok store1"
proof -
  from save_version_to_s3_result[OF assms(1)] obtain b p where
    "store1 = AList.update (b, VersionJson p (workspace a) (id_col a) (nat version_index))
                (JsonBody (JObj (model_to_dict a))) store"
    by blast
  with assms(2) show ?thesis
    unfolding snapshot_ids_ok_def
    by (auto intro!: list_all_update simp: model_to_dict_def)
qed

lemma written_snapshots_keep_ids:
  "create ev st alias0 workspace0 parent_id0 manifest0 type0 config0 secrets0 publish_to
      version0 comment0 overwrite ctx = Inr (out, st') \<Longrightarrow> snapshot_ids_ok (s3 st)
    \<Longrightarrow> snapshot_ids_ok (s3 st')"
  "edit ev st artifact_id manifest0 type0 config0 secrets0 version0 comment0 ctx = Inr (out, st')
    \<Longrightarrow> snapshot_ids_ok (s3 st) \<Longrightarrow> snapshot_ids_ok (s3 st')"
  "commit ev st artifact_id version0 comment0 ctx = Inr (out, st')
    \<Longrightarrow> snapshot_ids_ok (s3 st) \<Longrightarrow> snapshot_ids_ok (s3 st')"
proof -
  assume c: "create ev st alias0 workspace0 parent_id0 manifest0 type0 config0 secrets0 publish_to
      version0 comment0 overwrite ctx = Inr (out, st')" and i: "snapshot_ids_ok (s3 st)"
  from create_success[OF c] create_persist_result(3) save_version_keeps_ids i
  show "snapshot_ids_ok (s3 st')" by blast
next
  assume e: "edit ev st artifact_id manifest0 type0 config0 secrets0 version0 comment0 ctx
      = Inr (out, st')" and i: "snapshot_ids_ok (s3 st)"
  from edit_success[OF e] save_version_keeps_ids i show "snapshot_ids_ok (s3 st')" by blast
next
  assume c: "commit ev st artifact_id version0 comment0 ctx = Inr (out, st')"
    and i: "snapshot_ids_ok (s3 st)"
  from commit_success[OF c] save_version_keeps_ids i show "snapshot_ids_ok (s3 st')" by blast
qed

lemma loaded_snapshot_id:
  assumes "snapshot_ids_ok store"
    and "load_version_from_s3 ev a version_index False store = Inr artifact_data"
  shows "map_of artifact_data ''id'' = Some (JStr (id_col a))"
proof -
  from load_version_result[OF assms(2)] obtain b p body where
    m: "map_of store (b, VersionJson p (workspace a) (id_col a) (nat version_index))
         = Some (JsonBody (JObj body))"
    and d: "artifact_data = AList.delete ''secrets'' body"
    by auto
  from map_of_SomeD[OF m] assms(1) have "map_of body ''id'' = Some (JStr (id_col a))"
    by (auto simp: snapshot_ids_ok_def list_all_iff)
  then show ?thesis by (simp add: d AList.delete_conv')
qed

text \<open>
  C6, as the code has it: a successful \<open>commit\<close> stores the snapshot found at the stage
  index, with null staging, as the row with the snapshot's id. With a version it appends
  exactly one entry to the versions of that snapshot, labelled \<open>v<N>\<close> for \<open>new\<close> (\<open>N\<close> the
  length of these versions) and with the given string otherwise; with no version it
  appends nothing. When the snapshot carries the id of the artifact that is committed,
  this row replaces the artifact's row, so the artifact is no longer staged.
\<close>

theorem commit_versions_and_staging:
  assumes "commit ev st artifact_id version0 comment0 ctx = Inr (out, st')"
  shows "\<exists>w u artifact_id1 a0 parent_artifact n artifact_data a3 vs0.
     with_context ctx = Inr (w, u)
     \<and> validate_artifact_id artifact_id w = Inr artifact_id1
     \<and> get_artifact_with_permission (artifacts st) u artifact_id1 ''commit'' = Inr (a0, parent_artifact)
     \<and> get_version_index a0 (VStr ''stage'') = Inr n
     \<and> load_version_from_s3 ev a0 n False (s3 st) = Inr artifact_data
     \<and> vs0 = (case versions (ArtifactModel (new_id ev) artifact_data) of
                None \<Rightarrow> [] | Some vs \<Rightarrow> vs)
     \<and> (\<forall>snap. artifact_data = AList.delete ''secrets'' (model_to_dict snap) \<longrightarrow>
            vs0 = (case versions snap of None \<Rightarrow> [] | Some vs \<Rightarrow> vs))
     \<and> a3 \<in> set (artifacts st') \<and> map_of out ''_id'' = Some (JStr (id_col a3))
     \<and> staging a3 = JsonNull \<and> \<not> stage_condition True a3
     \<and> versions a3 =
          Some (case version0 of
                  None \<Rightarrow> vs0
                | Some v \<Rightarrow>
                    vs0 @ [\<lparr>version = (if v = ''new'' then ''v'' @ str_of_nat (length vs0) else v),
                            comment = comment0, created_at_v = now ev\<rparr>])
     \<and> (map_of artifact_data ''id'' = Some (JStr (id_col a0)) \<longrightarrow>
          id_col a3 = id_col a0
          \<and> artifacts st' = update_row a3 (artifacts st)
          \<and> (\<forall>r \<in> set (artifacts st'). id_col r = id_col a0 \<longrightarrow> r = a3))
     \<and> (snapshot_ids_ok (s3 st) \<longrightarrow> map_of artifact_data ''id'' = Some (JStr (id_col a0)))"
proof -
  from commit_success[OF assms] obtain w u artifact_id1 a0 parent_artifact n artifact_data a3 where
    ctx: "with_context ctx = Inr (w, u)"
    and va: "validate_artifact_id artifact_id w = Inr artifact_id1"
    and ga: "get_artifact_with_permission (artifacts st) u artifact_id1 ''commit'' = Inr (a0, parent_artifact)"
    and gi: "get_version_index a0 (VStr ''stage'') = Inr n"
    and ld: "load_version_from_s3 ev a0 n False (s3 st) = Inr artifact_data"
    and cr: "commit_row ev (s3 st) artifact_data parent_artifact n version0 comment0 = Inr a3"
    and sm: "session_merge a3 (artifacts st) = Inr (artifacts st')"
    and o: "out = generate_artifact_data a3 parent_artifact"
    by blast
  let ?vs0 = "(case versions (ArtifactModel (new_id ev) artifact_data) of
                None \<Rightarrow> [] | Some vs \<Rightarrow> vs)"
  have rt: "\<forall>snap. artifact_data = AList.delete ''secrets'' (model_to_dict snap) \<longrightarrow>
            ?vs0 = (case versions snap of None \<Rightarrow> [] | Some vs \<Rightarrow> vs)"
    by (simp add: snapshot_versions)
  note r = commit_row_result[OF cr]
  have ns: "\<not> stage_condition True a3" using r(1) by (simp add: stage_condition_def)
  have own: "id_col a3 = id_col a0
          \<and> artifacts st' = update_row a3 (artifacts st)
          \<and> (\<forall>r \<in> set (artifacts st'). id_col r = id_col a0 \<longrightarrow> r = a3)"
    if i: "map_of artifact_data ''id'' = Some (JStr (id_col a0))"
  proof -
    from r(2) snapshot_id_given[OF i] have e: "id_col a3 = id_col a0" by simp
    from session_merge_result[OF sm get_artifact_with_permission_mem[OF ga] e] e
    show ?thesis by blast
  qed
  have inv: "map_of artifact_data ''id'' = Some (JStr (id_col a0))" if "snapshot_ids_ok (s3 st)"
    using loaded_snapshot_id[OF that ld] .
  have vs: "versions a3 =
          Some (case version0 of
                  None \<Rightarrow> ?vs0
                | Some v \<Rightarrow>
                    ?vs0 @ [\<lparr>version = (if v = ''new'' then ''v'' @ str_of_nat (length ?vs0) else v),
                            comment = comment0, created_at_v = now ev\<rparr>])"
    using r(3) by (simp add: Let_def)
  have oid: "map_of out ''_id'' = Some (JStr (id_col a3))"
    by (simp add: o generate_artifact_data_id)
  show ?thesis
    using ctx va ga gi ld rt session_merge_mem[OF sm] oid r(1) ns vs own inv
    by (intro exI[of _ w] exI[of _ u] exI[of _ artifact_id1] exI[of _ a0]
          exI[of _ parent_artifact] exI[of _ n] exI[of _ artifact_data] exI[of _ a3]
          exI[of _ ?vs0]) blast
qed

lemma filter_conditions_stage:
  "filter_conditions [(''stage'', JBool b)] False cs = Inr (b, cs)"
  by simp

lemma order_rows_set:
  assumes "order_rows order_by table = Inr ordered"
  shows "set ordered = set table" "length ordered = length table"
  using assms
  by (auto simp: order_rows_def Let_def split: if_splits)

lemma generate_artifact_data_staging:
  "map_of (generate_artifact_data r parent_artifact) ''staging'' = Some (enc_staging (staging r))"
  by (cases parent_artifact)
     (simp_all add: generate_artifact_data_def Let_def AList.update_conv' model_to_dict_def)

lemma stage_condition_cases:
  "stage_condition True r = (staging r \<noteq> SqlNull \<and> staging r \<noteq> JsonNull)"
  "stage_condition False r = (\<not> stage_condition True r)"
  by (simp_all add: stage_condition_def)

lemma staged_data_differs:
  assumes "stage_condition True r1" and "stage_condition False r2"
  shows "generate_artifact_data r1 p \<noteq> generate_artifact_data r2 p"
proof
  assume "generate_artifact_data r1 p = generate_artifact_data r2 p"
  then have "map_of (generate_artifact_data r1 p) ''staging''
      = map_of (generate_artifact_data r2 p) ''staging''" by simp
  then have "enc_staging (staging r1) = enc_staging (staging r2)"
    by (simp add: generate_artifact_data_staging)
  with assms show False
    by (auto simp: stage_condition_def enc_staging_def split: staging_col.splits)
qed

lemma selected_rows_split:
  "selected_rows ev table parent_artifact w stage mode conditions
     = filter (stage_condition stage)
         (filter (\<lambda>r. scope_condition parent_artifact w r \<and> combined_condition ev mode conditions r)
            table)"
  by (auto simp: selected_rows_def intro: filter_cong)

lemma list_results_items:
  assumes "list_results projection parent_artifact page = Inr items"
  shows "set items \<subseteq> (\<lambda>r. generate_artifact_data r parent_artifact) ` set page"
    and "projection = None \<Longrightarrow> set items = (\<lambda>r. generate_artifact_data r parent_artifact) ` set page"
    and "projection \<noteq> None \<Longrightarrow> page = [] \<and> items = []"
  using assms by (auto simp: list_results_def split: option.splits if_splits)

lemma page_of_subset: "set (page_of limit offset ordered) \<subseteq> set ordered"
  unfolding page_of_def by (meson set_drop_subset set_take_subset subset_trans)

lemma page_of_all: "length ordered \<le> limit \<Longrightarrow> page_of limit 0 ordered = ordered"
  by (simp add: page_of_def)

text \<open>
  C8, as the code has it: for the same other arguments the items listed with
  \<open>{stage: true}\<close> and those listed with \<open>{stage: false}\<close> are disjoint; when the offset is
  0 and the limit is not below the number of immediate children that satisfy the keyword
  conditions, their union is the data of exactly these children (all immediate children
  when there is no keyword). The stage condition holds for the rows whose staging is
  neither SQL NULL nor the JSON null, the other condition for the complementary rows.
\<close>

theorem stage_listings_partition:
  assumes r1: "list_children ev st parent_id0 keywords0 (Some [(''stage'', JBool True)]) mode offset
                 limit order_by silent pagination ctx = Inr (res1, st1)"
    and r2: "list_children ev st parent_id0 keywords0 (Some [(''stage'', JBool False)]) mode offset
                 limit order_by silent pagination ctx = Inr (res2, st2)"
  shows "set (items_of res1) \<inter> set (items_of res2) = {}
    \<and> (\<exists>w u parent_artifact.
          with_context ctx = Inr (w, u)
          \<and> list_parent (artifacts st) u w parent_id0 = Inr parent_artifact
          \<and> (offset = 0
              \<and> length (filter (\<lambda>r. scope_condition parent_artifact w r
                                   \<and> combined_condition ev mode
                                       (map KeywordLike (case keywords0 of None \<Rightarrow> [] | Some ks \<Rightarrow> ks)) r)
                          (artifacts st)) \<le> limit
              \<longrightarrow> set (items_of res1) \<union> set (items_of res2)
                   = (\<lambda>r. generate_artifact_data r parent_artifact)
                       ` {r \<in> set (artifacts st).
                            scope_condition parent_artifact w r
                            \<and> combined_condition ev mode
                                (map KeywordLike (case keywords0 of None \<Rightarrow> [] | Some ks \<Rightarrow> ks)) r}))
    \<and> (\<forall>r. stage_condition True r = (staging r \<noteq> SqlNull \<and> staging r \<noteq> JsonNull)
           \<and> stage_condition False r = (\<not> stage_condition True r))"
proof -
  let ?conds = "map KeywordLike (case keywords0 of None \<Rightarrow> [] | Some ks \<Rightarrow> ks)"
  let ?ob = "(case order_by of Some (c # cs) \<Rightarrow> c # cs | _ \<Rightarrow> ''id'')"
  from list_children_success[OF r1] obtain w u parent_artifact projection ordered1 where
    ctx: "with_context ctx = Inr (w, u)"
    and lp: "list_parent (artifacts st) u w parent_id0 = Inr parent_artifact"
    and pr: "list_projection parent_artifact = Inr projection"
    and o1: "order_rows ?ob (selected_rows ev (artifacts st) parent_artifact w True mode ?conds)
               = Inr ordered1"
    and i1: "list_results projection parent_artifact (page_of limit offset ordered1)
               = Inr (items_of res1)"
    by (auto simp: dict_or_empty_def)
  from list_children_success[OF r2] ctx lp pr obtain ordered2 where
    o2: "order_rows ?ob (selected_rows ev (artifacts st) parent_artifact w False mode ?conds)
               = Inr ordered2"
    and i2: "list_results projection parent_artifact (page_of limit offset ordered2)
               = Inr (items_of res2)"
    by (auto simp: dict_or_empty_def)
  let ?children = "filter (\<lambda>r. scope_condition parent_artifact w r
                               \<and> combined_condition ev mode ?conds r) (artifacts st)"
  let ?gen = "\<lambda>r. generate_artifact_data r parent_artifact"
  have sel: "selected_rows ev (artifacts st) parent_artifact w b mode ?conds
      = filter (stage_condition b) ?children" for b
    by (rule selected_rows_split)
  have len: "length (selected_rows ev (artifacts st) parent_artifact w b mode ?conds)
      \<le> length ?children" for b
    unfolding sel by (rule length_filter_le)
  have mem: "set (selected_rows ev (artifacts st) parent_artifact w b mode ?conds)
      = {r \<in> set ?children. stage_condition b r}" for b
    unfolding sel by auto
  have s1: "set ordered1 = {r \<in> set ?children. stage_condition True r}"
    and s2: "set ordered2 = {r \<in> set ?children. stage_condition False r}"
    using order_rows_set(1)[OF o1] order_rows_set(1)[OF o2] mem by simp_all
  have l1: "length ordered1 \<le> length ?children"
    and l2: "length ordered2 \<le> length ?children"
    using order_rows_set(2)[OF o1] order_rows_set(2)[OF o2] len by simp_all
  have disj: "set (items_of res1) \<inter> set (items_of res2) = {}"
  proof (rule ccontr)
    assume "set (items_of res1) \<inter> set (items_of res2) \<noteq> {}"
    then obtain d where d1: "d \<in> set (items_of res1)" and d2: "d \<in> set (items_of res2)" by auto
    from d1 list_results_items(1)[OF i1] page_of_subset[of limit offset ordered1] s1
    obtain x where "stage_condition True x" "d = ?gen x" by auto
    moreover from d2 list_results_items(1)[OF i2] page_of_subset[of limit offset ordered2] s2
    obtain y where "stage_condition False y" "d = ?gen y" by auto
    ultimately show False using staged_data_differs by metis
  qed
  have un: "set (items_of res1) \<union> set (items_of res2) = ?gen ` {r \<in> set (artifacts st).
                            scope_condition parent_artifact w r
                            \<and> combined_condition ev mode ?conds r}"
    if off: "offset = 0" and lim: "length ?children \<le> limit"
  proof -
    have p1: "page_of limit offset ordered1 = ordered1" and p2: "page_of limit offset ordered2 = ordered2"
      using off lim l1 l2 by (simp_all add: page_of_all)
    have part: "set ordered1 \<union> set ordered2 = set ?children"
      unfolding s1 s2 by (auto simp: stage_condition_cases(2))
    show ?thesis
    proof (cases projection)
      case None
      from list_results_items(2)[OF i1 None] list_results_items(2)[OF i2 None]
      have "set (items_of res1) \<union> set (items_of res2) = ?gen ` (set ordered1 \<union> set ordered2)"
        by (simp add: p1 p2 image_Un)
      with part show ?thesis by simp
    next
      case (Some cs)
      then have ne: "projection \<noteq> None" by simp
      from list_results_items(3)[OF i1 ne] list_results_items(3)[OF i2 ne]
      have "ordered1 = []" "ordered2 = []" "items_of res1 = []" "items_of res2 = []"
        by (simp_all add: p1 p2)
      with part show ?thesis by simp
    qed
  qed
  show ?thesis
    using disj ctx lp un stage_condition_cases by blast
qed

section \<open>The operations on the example states\<close>

lemmas controller_defs =
  on_ok_def check_def with_context_def create_split_alias_def strip_def is_space_def
  create_resolve_parent_def validate_artifact_id_def matches_uuid_def uuid_shape_def is_hex_def
  get_artifact_with_permission_def operation_map_def get_artifact_with_parent_def
  get_artifact_def get_artifact_id_cond_def scalar_one_or_none_def check_permissions_def
  artifact_permissions_def check_entry_def check_wildcards_def permission_map_def
  create_choose_alias_def truthy_str_def truthy_dict_def str_of_opt_def dict_or_empty_def
  merge_permissions_def parent_permissions_of_def dict_get_def dict_update_def
  py_update_def update_entries_def update_pair_def set_entries_def to_pydict_def key_eq_def
  json_dict_def json_key_def str_of_int_def
  create_row_def initial_versions_def create_persist_def get_version_index_def
  version_sel_of_def session_add_def session_merge_def alias_taken_def
  create_vector_collection_def save_version_to_s3_def get_s3_config_def merged_secrets_def
  create_client_def json_or_def load_version_from_s3_def update_row_def
  edit_row_def edit_version_def edit_config_def commit_row_def commit_staged_files_def
  count_files_in_prefix_def under_version_def increment_view_count_def set_config_entry_def
  list_parent_def list_projection_def check_list_fields_def selected_rows_def
  scope_condition_def stage_condition_def combined_condition_def order_rows_def page_of_def
  list_results_def delete_begin_def delete_version_def list_pop_def
  delete_version_files_from_s3_def Let_def

lemmas example_defs =
  example_env_def example_context_def example_parent_def example_child_def example_state_def
  example_state_staged_def snapshot_key_def snapshot_of_def

lemma create_staged_example:
  "create example_env example_state (Some ''ds'') None (Some ''ws/zoo'')
         (Some [(''name'', JStr ''n'')]) (Some ''generic'')
         (Some [(''permissions'', JObj [(''bob'', JStr ''rw'')])]) (Some [(''K'', JStr ''s'')])
         None (Some ''stage'') None False (example_context ''carol'')
   = Inr (generate_artifact_data example_child (Some example_parent), example_state_staged)"
  by (simp add: create_def controller_defs example_defs)

lemma commit_new_example:
  "commit example_env example_state_staged ''ws/ds'' (Some ''new'') None (example_context ''carol'')
   = Inr (generate_artifact_data
            (example_child\<lparr>secrets := None, staging := JsonNull,
               versions := Some [\<lparr>version = ''v0'', comment = None, created_at_v = 1700000000\<rparr>]\<rparr>)
            (Some example_parent),
          \<lparr>artifacts = [example_parent,
              example_child\<lparr>secrets := None, staging := JsonNull,
               versions := Some [\<lparr>version = ''v0'', comment = None, created_at_v = 1700000000\<rparr>]\<rparr>],
           s3 = [(snapshot_key example_child 0,
                  snapshot_of (example_child\<lparr>secrets := None, staging := JsonNull,
               versions := Some [\<lparr>version = ''v0'', comment = None, created_at_v = 1700000000\<rparr>]\<rparr>))]\<rparr>)"
  by (simp add: commit_def controller_defs example_defs ArtifactModel_def model_to_dict_def
        enc_opt_str_def enc_opt_dict_def enc_versions_def enc_staging_def
        dec_opt_str_def dec_str_def dec_int_def dec_float_def dec_opt_dict_def dec_versions_def
        dec_staging_def str_of_nat.simps digit_char_def)

lemma commit_none_example:
  "commit example_env example_state_staged ''ws/ds'' None None (example_context ''carol'')
   = Inr (generate_artifact_data (example_child\<lparr>secrets := None, staging := JsonNull\<rparr>)
            (Some example_parent),
          \<lparr>artifacts = [example_parent, example_child\<lparr>secrets := None, staging := JsonNull\<rparr>],
           s3 = [(snapshot_key example_child 0,
                  snapshot_of (example_child\<lparr>secrets := None, staging := JsonNull\<rparr>))]\<rparr>)"
  by (simp add: commit_def controller_defs example_defs ArtifactModel_def model_to_dict_def
        enc_opt_str_def enc_opt_dict_def enc_versions_def enc_staging_def
        dec_opt_str_def dec_str_def dec_int_def dec_float_def dec_opt_dict_def dec_versions_def
        dec_staging_def)

lemma edit_none_example:
  "edit example_env example_state_staged ''ws/ds'' None None None None None None
     (example_context ''carol'')
   = Inr (generate_artifact_data (example_child\<lparr>staging := JsonNull\<rparr>) (Some example_parent),
          \<lparr>artifacts = [example_parent, example_child\<lparr>staging := JsonNull\<rparr>],
           s3 = [(snapshot_key example_child 0, snapshot_of (example_child\<lparr>staging := JsonNull\<rparr>))]\<rparr>)"
  by (simp add: edit_def controller_defs example_defs)

lemmas example_defs2 =
  example_versioned_def example_state_versioned_def example_versions_def example_kids_def

lemma create_new_example:
  "create example_env example_state (Some ''ds'') None (Some ''ws/zoo'')
         (Some [(''name'', JStr ''n'')]) (Some ''generic'')
         (Some [(''permissions'', JObj [(''bob'', JStr ''rw'')])]) (Some [(''K'', JStr ''s'')])
         None (Some ''new'') None False (example_context ''carol'')
   = Inr (generate_artifact_data
            (example_child\<lparr>staging := JsonNull,
               versions := Some [\<lparr>version = ''v0'', comment = Some ''Initial version'',
                                  created_at_v = 1700000000\<rparr>]\<rparr>)
            (Some example_parent),
          \<lparr>artifacts = [example_parent,
             example_child\<lparr>staging := JsonNull,
               versions := Some [\<lparr>version = ''v0'', comment = Some ''Initial version'',
                                  created_at_v = 1700000000\<rparr>]\<rparr>],
           s3 = [(snapshot_key example_child 0,
                  snapshot_of (example_child\<lparr>staging := JsonNull,
               versions := Some [\<lparr>version = ''v0'', comment = Some ''Initial version'',
                                  created_at_v = 1700000000\<rparr>]\<rparr>))]\<rparr>)"
  by (simp add: create_def controller_defs example_defs str_of_nat.simps digit_char_def)

lemma create_none_example:
  "create example_env example_state (Some ''ds'') None (Some ''ws/zoo'')
         (Some [(''name'', JStr ''n'')]) (Some ''generic'')
         (Some [(''permissions'', JObj [(''bob'', JStr ''rw'')])]) (Some [(''K'', JStr ''s'')])
         None None None False (example_context ''carol'')
   = Inr (generate_artifact_data (example_child\<lparr>staging := JsonNull\<rparr>) (Some example_parent),
          \<lparr>artifacts = [example_parent, example_child\<lparr>staging := JsonNull\<rparr>],
           s3 = [(snapshot_key example_child 0,
                  snapshot_of (example_child\<lparr>staging := JsonNull\<rparr>))]\<rparr>)"
  by (simp add: create_def controller_defs example_defs)

lemma create_under_carol_parent_example:
  "create example_env
     \<lparr>artifacts = [example_parent\<lparr>config := Some [(''permissions'', JObj [(''carol'', JStr ''r'')])]\<rparr>],
      s3 = []\<rparr>
     (Some ''ds'') None (Some ''ws/zoo'')
         (Some [(''name'', JStr ''n'')]) (Some ''generic'')
         (Some [(''permissions'', JObj [(''bob'', JStr ''rw'')])]) (Some [(''K'', JStr ''s'')])
         None (Some ''stage'') None False (example_context ''carol'')
   = Inr (generate_artifact_data
            (example_child\<lparr>config := Some [(''permissions'',
                 JObj [(''bob'', JStr ''rw''), (''carol'', JStr ''r'')])]\<rparr>)
            (Some (example_parent\<lparr>config := Some [(''permissions'', JObj [(''carol'', JStr ''r'')])]\<rparr>)),
          \<lparr>artifacts =
             [example_parent\<lparr>config := Some [(''permissions'', JObj [(''carol'', JStr ''r'')])]\<rparr>,
              example_child\<lparr>config := Some [(''permissions'',
                 JObj [(''bob'', JStr ''rw''), (''carol'', JStr ''r'')])]\<rparr>],
           s3 = [(snapshot_key example_child 0,
                  snapshot_of (example_child\<lparr>config := Some [(''permissions'',
                 JObj [(''bob'', JStr ''rw''), (''carol'', JStr ''r'')])]\<rparr>))]\<rparr>)"
  by (simp add: create_def controller_defs example_defs)

lemma edit_config_example:
  "edit example_env example_state_staged ''ws/ds'' None None
     (Some [(''permissions'', JObj [(''dave'', JStr ''r'')])]) None (Some ''stage'') None
     (example_context ''bob'')
   = Inr (generate_artifact_data
            (example_child\<lparr>config := Some [(''permissions'',
                JObj [(''dave'', JStr ''r''), (''bob'', JStr ''*''), (''alice'', JStr ''r'')])]\<rparr>)
            (Some example_parent),
          \<lparr>artifacts = [example_parent,
              example_child\<lparr>config := Some [(''permissions'',
                JObj [(''dave'', JStr ''r''), (''bob'', JStr ''*''), (''alice'', JStr ''r'')])]\<rparr>],
           s3 = [(snapshot_key example_child 0,
                  snapshot_of (example_child\<lparr>config := Some [(''permissions'',
                JObj [(''dave'', JStr ''r''), (''bob'', JStr ''*''), (''alice'', JStr ''r'')])]\<rparr>))]\<rparr>)"
  by (simp add: edit_def controller_defs example_defs)

lemma edit_config_orphan_example:
  "edit example_env example_state ''ws/zoo'' None None (Some []) None None None
     (example_context ''carol'')
   = Inr (generate_artifact_data (example_parent\<lparr>config := Some [], last_modified := 1700000000\<rparr>) None,
          \<lparr>artifacts = [example_parent\<lparr>config := Some [], last_modified := 1700000000\<rparr>],
           s3 = [(snapshot_key example_parent 0,
                  snapshot_of (example_parent\<lparr>config := Some [], last_modified := 1700000000\<rparr>))]\<rparr>)"
  by (simp add: edit_def controller_defs example_defs)

lemma edit_orphan_permissions_example:
  "edit example_env example_state ''ws/zoo'' None None
     (Some [(''permissions'', JObj [(''bob'', JStr ''rw'')])]) None None None
     (example_context ''carol'')
   = Inr (generate_artifact_data
            (example_parent\<lparr>config := Some [(''permissions'', JObj [(''bob'', JStr ''rw'')])],
                             last_modified := 1700000000\<rparr>) None,
          \<lparr>artifacts =
             [example_parent\<lparr>config := Some [(''permissions'', JObj [(''bob'', JStr ''rw'')])],
                              last_modified := 1700000000\<rparr>],
           s3 = [(snapshot_key example_parent 0,
                  snapshot_of
                    (example_parent\<lparr>config := Some [(''permissions'', JObj [(''bob'', JStr ''rw'')])],
                                     last_modified := 1700000000\<rparr>))]\<rparr>)"
  by (simp add: edit_def controller_defs example_defs)

lemma create_under_list_parent_example:
  "create example_env \<lparr>artifacts = [example_list_parent], s3 = []\<rparr>
     (Some ''ds'') None (Some ''ws/zoo'')
         (Some [(''name'', JStr ''n'')]) (Some ''generic'')
         (Some [(''permissions'', JObj [(''bob'', JStr ''rw'')])]) (Some [(''K'', JStr ''s'')])
         None (Some ''stage'') None False (example_context ''carol'')
   = Inr (generate_artifact_data example_child (Some example_list_parent),
          \<lparr>artifacts = [example_list_parent, example_child],
           s3 = [(snapshot_key example_child 0, snapshot_of example_child)]\<rparr>)"
  by (simp add: create_def controller_defs example_defs example_list_parent_def)

lemma create_null_entry_example:
  "create example_env example_state (Some ''ds'') None (Some ''ws/zoo'')
         (Some [(''name'', JStr ''n'')]) (Some ''generic'')
         (Some [(''permissions'', JObj [(''bob'', JNull), (''*'', JStr ''r'')])])
         (Some [(''K'', JStr ''s'')])
         None (Some ''stage'') None False (example_context ''carol'')
   = Inr (generate_artifact_data example_null_entry (Some example_parent),
          \<lparr>artifacts = [example_parent, example_null_entry],
           s3 = [(snapshot_key example_child 0, snapshot_of example_null_entry)]\<rparr>)"
  by (simp add: create_def controller_defs example_defs example_null_entry_def)

lemma null_entry_raises:
  "get_artifact_with_permission [example_parent, example_null_entry]
     \<lparr>user_id = ''bob'', is_anonymous = False, check_permission = (\<lambda>w p. w = ''ws'')\<rparr>
     ''ws/ds'' ''read'' = Inl TypeError"
  "get_artifact_with_parent [example_parent, example_null_entry] ''ws/ds''
     = Inr (example_null_entry, Some example_parent)"
  by (simp_all add: controller_defs example_defs example_null_entry_def)

lemma unreadable_permissions_raise:
  "get_artifact_with_permission
     [example_artifact\<lparr>config := Some [(''permissions'', JObj [(''@'', JNull)])]\<rparr>]
     \<lparr>user_id = ''bob'', is_anonymous = False, check_permission = (\<lambda>w p. w = ''ws'')\<rparr>
     ''ws/ds'' ''read'' = Inl TypeError"
  "get_artifact_with_permission
     [example_artifact\<lparr>config := Some [(''permissions'', JObj [(''*'', JNull)])]\<rparr>]
     \<lparr>user_id = ''bob'', is_anonymous = True, check_permission = (\<lambda>w p. w = ''ws'')\<rparr>
     ''ws/ds'' ''read'' = Inl TypeError"
  "get_artifact_with_permission
     [example_artifact\<lparr>config := Some [(''permissions'', JArr [JStr ''bob''])]\<rparr>]
     \<lparr>user_id = ''bob'', is_anonymous = False, check_permission = (\<lambda>w p. w = ''ws'')\<rparr>
     ''ws/ds'' ''read'' = Inl TypeError"
  by (simp_all add: controller_defs example_defs example_artifact_def)

lemmas example_defs3 =
  example_committed_def example_restaged_def example_state_popped_def example_state_foreign_def

lemmas snapshot_defs =
  ArtifactModel_def model_to_dict_def enc_opt_str_def enc_opt_dict_def enc_versions_def
  enc_staging_def enc_version_def dec_opt_str_def dec_str_def dec_int_def dec_float_def
  dec_opt_dict_def dec_versions_def dec_staging_def dec_version_def str_of_nat.simps
  digit_char_def

lemma create_committed_example:
  "create example_env example_state (Some ''ds'') None (Some ''ws/zoo'')
         (Some [(''name'', JStr ''n'')]) (Some ''generic'')
         (Some [(''permissions'', JObj [(''bob'', JStr ''rw'')])]) (Some [(''K'', JStr ''s'')])
         None (Some ''new'') None False (example_context ''carol'')
   = Inr (generate_artifact_data example_committed (Some example_parent),
          \<lparr>artifacts = [example_parent, example_committed],
           s3 = [(snapshot_key example_child 0, snapshot_of example_committed)]\<rparr>)"
  by (simp add: create_def controller_defs example_defs example_defs3 str_of_nat.simps
        digit_char_def)

lemma edit_restaged_example:
  "edit example_env
     \<lparr>artifacts = [example_parent, example_committed],
      s3 = [(snapshot_key example_child 0, snapshot_of example_committed)]\<rparr>
     ''ws/ds'' None None None None (Some ''stage'') None (example_context ''carol'')
   = Inr (generate_artifact_data example_restaged (Some example_parent),
          \<lparr>artifacts = [example_parent, example_restaged],
           s3 = [(snapshot_key example_child 0, snapshot_of example_committed),
                 (snapshot_key example_child 1, snapshot_of example_restaged)]\<rparr>)"
  by (simp add: edit_def controller_defs example_defs example_defs3)

lemma delete_popped_example:
  "delete example_env
     \<lparr>artifacts = [example_parent, example_restaged],
      s3 = [(snapshot_key example_child 0, snapshot_of example_committed),
            (snapshot_key example_child 1, snapshot_of example_restaged)]\<rparr>
     ''ws/ds'' False False (VStr ''v0'') (example_context ''carol'')
   = Inr example_state_popped"
  by (simp add: delete_def controller_defs example_defs example_defs3)

lemma commit_popped_example:
  "commit example_env example_state_popped ''ws/ds'' (Some ''new'') None (example_context ''carol'')
   = Inr (generate_artifact_data
            (example_committed\<lparr>secrets := None,
               versions := Some [\<lparr>version = ''v0'', comment = Some ''Initial version'',
                                  created_at_v = 1700000000\<rparr>,
                                 \<lparr>version = ''v1'', comment = None, created_at_v = 1700000000\<rparr>]\<rparr>)
            (Some example_parent),
          \<lparr>artifacts = [example_parent,
              example_committed\<lparr>secrets := None,
               versions := Some [\<lparr>version = ''v0'', comment = Some ''Initial version'',
                                  created_at_v = 1700000000\<rparr>,
                                 \<lparr>version = ''v1'', comment = None, created_at_v = 1700000000\<rparr>]\<rparr>],
           s3 = [(snapshot_key example_child 0, snapshot_of example_committed),
                 (snapshot_key example_child 1,
                  snapshot_of (example_committed\<lparr>secrets := None,
               versions := Some [\<lparr>version = ''v0'', comment = Some ''Initial version'',
                                  created_at_v = 1700000000\<rparr>,
                                 \<lparr>version = ''v1'', comment = None, created_at_v = 1700000000\<rparr>]\<rparr>))]\<rparr>)"
  by (simp add: commit_def controller_defs example_defs example_defs3 snapshot_defs)

lemma commit_foreign_example:
  "commit example_env example_state_foreign ''ws/ds'' (Some ''new'') None (example_context ''carol'')
   = Inr (generate_artifact_data
            (example_parent\<lparr>last_modified := 1700000000,
               versions := Some [\<lparr>version = ''v0'', comment = Some ''Initial version'',
                                  created_at_v = 0\<rparr>,
                                 \<lparr>version = ''v1'', comment = None, created_at_v = 1700000000\<rparr>]\<rparr>)
            (Some example_parent),
          \<lparr>artifacts = [example_parent\<lparr>last_modified := 1700000000,
               versions := Some [\<lparr>version = ''v0'', comment = Some ''Initial version'',
                                  created_at_v = 0\<rparr>,
                                 \<lparr>version = ''v1'', comment = None, created_at_v = 1700000000\<rparr>]\<rparr>,
              example_child],
           s3 = [(snapshot_key example_child 0, snapshot_of example_parent),
                 (snapshot_key example_parent 1,
                  snapshot_of (example_parent\<lparr>last_modified := 1700000000,
               versions := Some [\<lparr>version = ''v0'', comment = Some ''Initial version'',
                                  created_at_v = 0\<rparr>,
                                 \<lparr>version = ''v1'', comment = None, created_at_v = 1700000000\<rparr>]\<rparr>))]\<rparr>)"
  by (simp add: commit_def controller_defs example_defs example_defs3 snapshot_defs)

lemma commit_example_reads:
  "with_context (example_context ''carol'')
     = Inr (''ws'', \<lparr>user_id = ''carol'', is_anonymous = False,
                      check_permission = (\<lambda>w p. w = ''ws'')\<rparr>)"
  "validate_artifact_id ''ws/ds'' ''ws'' = Inr ''ws/ds''"
  "get_artifact_with_permission (artifacts example_state_staged)
     \<lparr>user_id = ''carol'', is_anonymous = False, check_permission = (\<lambda>w p. w = ''ws'')\<rparr>
     ''ws/ds'' ''commit'' = Inr (example_child, Some example_parent)"
  "get_version_index example_child (VStr ''stage'') = Inr 0"
  "load_version_from_s3 example_env example_child 0 False (s3 example_state_staged)
     = Inr (AList.delete ''secrets'' (model_to_dict example_child))"
  by (simp_all add: controller_defs example_defs)

lemma read_snapshot_example:
  "read example_env example_state_versioned ''ws/ds'' True (Some ''v0'') (example_context ''carol'')
   = Inr (AList.delete ''secrets'' (model_to_dict example_child), example_state_versioned)"
  by (simp add: read_def controller_defs example_defs example_defs2)

lemma delete_version_example:
  "delete example_env example_state_versioned ''ws/ds'' True False (VStr ''v0'')
     (example_context ''carol'')
   = Inr \<lparr>artifacts = [example_parent,
             example_versioned\<lparr>versions := Some [\<lparr>version = ''1'', comment = Some ''second'',
                                                   created_at_v = 1\<rparr>]\<rparr>],
          s3 = s3 example_state_versioned\<rparr>"
  by (simp add: delete_def controller_defs example_defs example_defs2)

lemma awaited_cleanup_example:
  "delete_version_files_from_s3 0 example_versioned
     (get_s3_config example_env example_versioned (Some example_parent)) True
     (s3 example_state_versioned)
   = Inr [(snapshot_key example_child 1, snapshot_of example_versioned)]"
  by (simp add: controller_defs example_defs example_defs2)

lemma list_staged_1:
  "list_children example_env example_listing_state (Some ''ws/zoo'')
     None (Some [(''stage'', JBool True)]) ''AND'' 0 1 None True False (example_context ''alice'')
   = Inr (Items [generate_artifact_data (example_kids ! 0) (Some example_parent)],
          example_listing_state)"
  by (simp add: list_children_def controller_defs example_defs example_defs2 example_listing_state_def)

lemma list_unstaged_1:
  "list_children example_env example_listing_state (Some ''ws/zoo'')
     None (Some [(''stage'', JBool False)]) ''AND'' 0 1 None True False (example_context ''alice'')
   = Inr (Items [generate_artifact_data (example_kids ! 2) (Some example_parent)],
          example_listing_state)"
  by (simp add: list_children_def controller_defs example_defs example_defs2 example_listing_state_def)

lemma list_staged_100:
  "list_children example_env example_listing_state (Some ''ws/zoo'')
     None (Some [(''stage'', JBool True)]) ''AND'' 0 100 None True False (example_context ''alice'')
   = Inr (Items [generate_artifact_data (example_kids ! 0) (Some example_parent)],
          example_listing_state)"
  by (simp add: list_children_def controller_defs example_defs example_defs2 example_listing_state_def)

lemma list_unstaged_100:
  "list_children example_env example_listing_state (Some ''ws/zoo'')
     None (Some [(''stage'', JBool False)]) ''AND'' 0 100 None True False (example_context ''alice'')
   = Inr (Items [generate_artifact_data (example_kids ! 2) (Some example_parent),
                 generate_artifact_data (example_kids ! 1) (Some example_parent)],
          example_listing_state)"
  by (simp add: list_children_def controller_defs example_defs example_defs2 example_listing_state_def)

lemma list_all_example:
  "list_children example_env example_listing_state (Some ''ws/zoo'')
     None None ''AND'' 0 100 None True False (example_context ''alice'')
   = Inr (Items [generate_artifact_data (example_kids ! 2) (Some example_parent),
                 generate_artifact_data (example_kids ! 1) (Some example_parent)],
          example_listing_state)"
  by (simp add: list_children_def controller_defs example_defs example_defs2 example_listing_state_def)

lemma example_child_has_secrets: "''secrets'' \<in> fst ` set (model_to_dict example_child)"
  by (simp add: model_to_dict_def)

theorem secrets_never_returned_witness:
  "create example_env example_state (Some ''ds'') None (Some ''ws/zoo'')
         (Some [(''name'', JStr ''n'')]) (Some ''generic'')
         (Some [(''permissions'', JObj [(''bob'', JStr ''rw'')])]) (Some [(''K'', JStr ''s'')])
         None (Some ''stage'') None False (example_context ''carol'')
     = Inr (generate_artifact_data example_child (Some example_parent), example_state_staged)
   \<and> ''secrets'' \<notin> fst ` set (generate_artifact_data example_child (Some example_parent))
   \<and> ''secrets'' \<notin> fst ` set (generate_artifact_data (example_child\<lparr>staging := JsonNull\<rparr>)
                                 (Some example_parent))
   \<and> read example_env example_state_versioned ''ws/ds'' True (Some ''v0'')
         (example_context ''carol'')
     = Inr (AList.delete ''secrets'' (model_to_dict example_child), example_state_versioned)
   \<and> ''secrets'' \<in> fst ` set (model_to_dict example_child)
   \<and> ''secrets'' \<notin> fst ` set (AList.delete ''secrets'' (model_to_dict example_child))
   \<and> ''secrets'' \<notin> fst ` set (generate_artifact_data
            (example_child\<lparr>secrets := None, staging := JsonNull,
               versions := Some [\<lparr>version = ''v0'', comment = None, created_at_v = 1700000000\<rparr>]\<rparr>)
            (Some example_parent))
   \<and> ''secrets'' \<notin> fst ` set (generate_artifact_data (example_kids ! 2) (Some example_parent))
   \<and> ''secrets'' \<notin> fst ` set (generate_artifact_data (example_kids ! 1) (Some example_parent))
   \<and> list_children example_env \<lparr>artifacts = [example_projecting_parent], s3 = []\<rparr>
         (Some ''ws/zoo'') None None ''AND'' 0 100 None True False (example_context ''alice'')
       = Inl AssertionError"
proof -
  have p: "list_parent (artifacts \<lparr>artifacts = [example_projecting_parent], s3 = []\<rparr>)
        \<lparr>user_id = ''alice'', is_anonymous = False, check_permission = (\<lambda>w p. w = ''ws'')\<rparr>
        ''ws'' (Some ''ws/zoo'') = Inr (Some example_projecting_parent)"
    by (simp add: controller_defs example_defs example_projecting_parent_def)
  have c: "with_context (example_context ''alice'')
      = Inr (''ws'', \<lparr>user_id = ''alice'', is_anonymous = False,
                       check_permission = (\<lambda>w p. w = ''ws'')\<rparr>)"
    by (simp add: with_context_def example_context_def)
  have f: "dict_get (dict_or_empty (config example_projecting_parent)) ''list_fields'' JNull
      = JArr [JStr ''id'', JStr ''secrets'']"
    by (simp add: dict_get_def dict_or_empty_def example_projecting_parent_def)
  have m: "JStr ''secrets'' \<in> set [JStr ''id'', JStr ''secrets'']" by simp
  note a1 = secrets_never_returned[THEN conjunct1, THEN mp, OF create_staged_example]
  note a2 = secrets_never_returned[THEN conjunct2, THEN conjunct1, THEN mp, OF edit_none_example]
  note a3 = secrets_never_returned[THEN conjunct2, THEN conjunct2, THEN conjunct1, THEN mp,
      OF read_snapshot_example]
  note a4 = secrets_never_returned[THEN conjunct2, THEN conjunct2, THEN conjunct2, THEN conjunct2,
      THEN conjunct1, THEN mp, OF commit_new_example]
  have a5: "''secrets'' \<notin> fst ` set (generate_artifact_data (example_kids ! 2) (Some example_parent))"
    "''secrets'' \<notin> fst ` set (generate_artifact_data (example_kids ! 1) (Some example_parent))"
    using secrets_never_returned[THEN conjunct2, THEN conjunct2, THEN conjunct2, THEN conjunct2,
      THEN conjunct2, THEN conjunct1, THEN mp, OF list_all_example]
    by (simp_all add: items_of_def)
  have a6: "list_children example_env \<lparr>artifacts = [example_projecting_parent], s3 = []\<rparr>
         (Some ''ws/zoo'') None None ''AND'' 0 100 None True False (example_context ''alice'')
       = Inl AssertionError"
    using secrets_never_returned[THEN conjunct2, THEN conjunct2, THEN conjunct2, THEN conjunct2,
      THEN conjunct2, THEN conjunct2, THEN spec, THEN spec, THEN spec, THEN spec,
      THEN mp, THEN mp, THEN mp, THEN mp, OF c p f m]
    by simp
  show ?thesis
    using create_staged_example read_snapshot_example example_child_has_secrets a1 a2 a3 a4 a5 a6
    by blast
qed

text \<open>
  The claim C2 as stated fails on the code: \<open>create\<close> stores the permissions
  \<open>{bob: null, *: r}\<close> it is given; for bob, who holds every tier on the workspace, the
  \<open>*\<close> entry allows \<open>read\<close> and so does the workspace tier, yet the check raises a
  \<open>TypeError\<close> on bob's own entry. The same happens on a null entry under \<open>@\<close> or \<open>*\<close>,
  and on permissions that are a list naming the user.
\<close>

theorem unreadable_entry_counterexample:
  "create example_env example_state (Some ''ds'') None (Some ''ws/zoo'')
         (Some [(''name'', JStr ''n'')]) (Some ''generic'')
         (Some [(''permissions'', JObj [(''bob'', JNull), (''*'', JStr ''r'')])])
         (Some [(''K'', JStr ''s'')])
         None (Some ''stage'') None False (example_context ''carol'')
     = Inr (generate_artifact_data example_null_entry (Some example_parent),
          \<lparr>artifacts = [example_parent, example_null_entry],
           s3 = [(snapshot_key example_child 0, snapshot_of example_null_entry)]\<rparr>)
   \<and> get_artifact_with_parent [example_parent, example_null_entry] ''ws/ds''
       = Inr (example_null_entry, Some example_parent)
   \<and> spec_required_tier ''read'' = Some perm_read
   \<and> spec_allows (artifact_permissions example_null_entry) ''*'' ''read''
   \<and> check_permission
         \<lparr>user_id = ''bob'', is_anonymous = False, check_permission = (\<lambda>w p. w = ''ws'')\<rparr>
         (workspace example_null_entry) perm_read
   \<and> get_artifact_with_permission [example_parent, example_null_entry]
         \<lparr>user_id = ''bob'', is_anonymous = False, check_permission = (\<lambda>w p. w = ''ws'')\<rparr>
         ''ws/ds'' ''read'' = Inl TypeError
   \<and> get_artifact_with_permission
         [example_artifact\<lparr>config := Some [(''permissions'', JObj [(''@'', JNull)])]\<rparr>]
         \<lparr>user_id = ''bob'', is_anonymous = False, check_permission = (\<lambda>w p. w = ''ws'')\<rparr>
         ''ws/ds'' ''read'' = Inl TypeError
   \<and> get_artifact_with_permission
         [example_artifact\<lparr>config := Some [(''permissions'', JObj [(''*'', JNull)])]\<rparr>]
         \<lparr>user_id = ''bob'', is_anonymous = True, check_permission = (\<lambda>w p. w = ''ws'')\<rparr>
         ''ws/ds'' ''read'' = Inl TypeError
   \<and> get_artifact_with_permission
         [example_artifact\<lparr>config := Some [(''permissions'', JArr [JStr ''bob''])]\<rparr>]
         \<lparr>user_id = ''bob'', is_anonymous = False, check_permission = (\<lambda>w p. w = ''ws'')\<rparr>
         ''ws/ds'' ''read'' = Inl TypeError
   \<and> workspace example_artifact = ''ws''"
  using create_null_entry_example null_entry_raises unreadable_permissions_raise
  by (simp add: spec_required_tier_def spec_allows_def artifact_permissions_def
        example_null_entry_def example_child_def example_artifact_def permission_map_def)

theorem create_versions_staging_manifest_witness:
  "\<exists>a \<in> set [example_parent,
             example_child\<lparr>staging := JsonNull,
               versions := Some [\<lparr>version = ''v0'', comment = Some ''Initial version'',
                                  created_at_v = 1700000000\<rparr>]\<rparr>].
     id_col a = ''0192f4be-11f7-7610-9da2-ffc39feeb010''
     \<and> manifest a = Some [(''name'', JStr ''n'')] \<and> truthy_dict (manifest a)
     \<and> versions a = Some [\<lparr>version = ''v0'', comment = Some ''Initial version'',
                             created_at_v = 1700000000\<rparr>]
     \<and> staging a = JsonNull"
  using create_versions_staging_manifest[OF create_new_example]
  by (simp add: generate_artifact_data_id example_defs)

text \<open>
  The claim C4 as stated fails on the code: a staged \<open>create\<close> succeeds and stores the
  manifest, and a \<open>create\<close> without a version stores no version entry.
\<close>

theorem create_manifest_counterexample:
  "create example_env example_state (Some ''ds'') None (Some ''ws/zoo'')
         (Some [(''name'', JStr ''n'')]) (Some ''generic'')
         (Some [(''permissions'', JObj [(''bob'', JStr ''rw'')])]) (Some [(''K'', JStr ''s'')])
         None (Some ''stage'') None False (example_context ''carol'')
     = Inr (generate_artifact_data example_child (Some example_parent), example_state_staged)
   \<and> artifacts example_state_staged = [example_parent, example_child]
   \<and> manifest example_child = Some [(''name'', JStr ''n'')]
   \<and> create example_env example_state (Some ''ds'') None (Some ''ws/zoo'')
         (Some [(''name'', JStr ''n'')]) (Some ''generic'')
         (Some [(''permissions'', JObj [(''bob'', JStr ''rw'')])]) (Some [(''K'', JStr ''s'')])
         None None None False (example_context ''carol'')
     = Inr (generate_artifact_data (example_child\<lparr>staging := JsonNull\<rparr>) (Some example_parent),
          \<lparr>artifacts = [example_parent, example_child\<lparr>staging := JsonNull\<rparr>],
           s3 = [(snapshot_key example_child 0,
                  snapshot_of (example_child\<lparr>staging := JsonNull\<rparr>))]\<rparr>)
   \<and> versions (example_child\<lparr>staging := JsonNull\<rparr>) = Some []"
  using create_staged_example create_none_example
  by (simp add: example_state_staged_def example_child_def)

theorem permissions_after_create_and_edit_witness:
  "(\<exists>a \<in> set (artifacts example_state_staged). \<exists>c.
      id_col a = ''0192f4be-11f7-7610-9da2-ffc39feeb010'' \<and> config a = Some c
      \<and> map_of c ''permissions''
          = Some (JObj [(''bob'', JStr ''rw''), (''carol'', JStr ''*''), (''alice'', JStr ''r'')]))
   \<and> map_of [(''bob'', JStr ''rw''), (''carol'', JStr ''*''), (''alice'', JStr ''r'')]
       = [''carol'' \<mapsto> JStr ''*'', ''bob'' \<mapsto> JStr ''rw'', ''alice'' \<mapsto> JStr ''r'']
   \<and> (\<exists>a \<in> set [example_parent,
              example_child\<lparr>config := Some [(''permissions'',
                JObj [(''dave'', JStr ''r''), (''bob'', JStr ''*''), (''alice'', JStr ''r'')])]\<rparr>].
        \<exists>c. id_col a = ''0192f4be-11f7-7610-9da2-ffc39feeb010'' \<and> config a = Some c
      \<and> map_of c ''permissions''
          = Some (JObj [(''dave'', JStr ''r''), (''bob'', JStr ''*''), (''alice'', JStr ''r'')]))
   \<and> parent_permissions_of (Some example_list_parent) = Inr (JArr [JArr [JStr ''alice'', JStr ''r'']])
   \<and> (\<exists>a \<in> set [example_list_parent, example_child]. \<exists>c.
        id_col a = ''0192f4be-11f7-7610-9da2-ffc39feeb010'' \<and> config a = Some c
      \<and> map_of c ''permissions''
          = Some (JObj [(''bob'', JStr ''rw''), (''carol'', JStr ''*''), (''alice'', JStr ''r'')]))"
proof (intro conjI)
  show "\<exists>a \<in> set (artifacts example_state_staged). \<exists>c.
      id_col a = ''0192f4be-11f7-7610-9da2-ffc39feeb010'' \<and> config a = Some c
      \<and> map_of c ''permissions''
          = Some (JObj [(''bob'', JStr ''rw''), (''carol'', JStr ''*''), (''alice'', JStr ''r'')])"
    using permissions_after_create_and_edit[THEN conjunct1, THEN mp, OF create_staged_example]
    by (auto simp: controller_defs example_defs generate_artifact_data_id)
  show "map_of [(''bob'', JStr ''rw''), (''carol'', JStr ''*''), (''alice'', JStr ''r'')]
       = [''carol'' \<mapsto> JStr ''*'', ''bob'' \<mapsto> JStr ''rw'', ''alice'' \<mapsto> JStr ''r'']"
    by (auto simp: fun_eq_iff)
  show "\<exists>a \<in> set [example_parent,
              example_child\<lparr>config := Some [(''permissions'',
                JObj [(''dave'', JStr ''r''), (''bob'', JStr ''*''), (''alice'', JStr ''r'')])]\<rparr>].
        \<exists>c. id_col a = ''0192f4be-11f7-7610-9da2-ffc39feeb010'' \<and> config a = Some c
      \<and> map_of c ''permissions''
          = Some (JObj [(''dave'', JStr ''r''), (''bob'', JStr ''*''), (''alice'', JStr ''r'')])"
    using permissions_after_create_and_edit[THEN conjunct2, THEN mp, OF edit_config_example]
    by (auto simp: controller_defs example_defs generate_artifact_data_id)
  show "parent_permissions_of (Some example_list_parent)
      = Inr (JArr [JArr [JStr ''alice'', JStr ''r'']])"
    by (simp add: parent_permissions_of_def example_list_parent_def)
  show "\<exists>a \<in> set [example_list_parent, example_child]. \<exists>c.
        id_col a = ''0192f4be-11f7-7610-9da2-ffc39feeb010'' \<and> config a = Some c
      \<and> map_of c ''permissions''
          = Some (JObj [(''bob'', JStr ''rw''), (''carol'', JStr ''*''), (''alice'', JStr ''r'')])"
    using permissions_after_create_and_edit[THEN conjunct1, THEN mp,
        OF create_under_list_parent_example]
    by (auto simp: controller_defs example_defs example_list_parent_def generate_artifact_data_id
          merged_permissions_def)
qed

text \<open>
  The claim C5 as stated fails on the code: under a parent whose permissions give carol
  \<open>r\<close>, the child carol creates holds \<open>r\<close> for carol, not \<open>*\<close>; and an \<open>edit\<close> by carol of
  an artifact without a parent stores the permissions of the supplied config as they are,
  with no entry for carol.
\<close>

theorem creator_permission_counterexample:
  "create example_env
     \<lparr>artifacts = [example_parent\<lparr>config := Some [(''permissions'', JObj [(''carol'', JStr ''r'')])]\<rparr>],
      s3 = []\<rparr>
     (Some ''ds'') None (Some ''ws/zoo'')
         (Some [(''name'', JStr ''n'')]) (Some ''generic'')
         (Some [(''permissions'', JObj [(''bob'', JStr ''rw'')])]) (Some [(''K'', JStr ''s'')])
         None (Some ''stage'') None False (example_context ''carol'')
   = Inr (generate_artifact_data
            (example_child\<lparr>config := Some [(''permissions'',
                 JObj [(''bob'', JStr ''rw''), (''carol'', JStr ''r'')])]\<rparr>)
            (Some (example_parent\<lparr>config := Some [(''permissions'', JObj [(''carol'', JStr ''r'')])]\<rparr>)),
          \<lparr>artifacts =
             [example_parent\<lparr>config := Some [(''permissions'', JObj [(''carol'', JStr ''r'')])]\<rparr>,
              example_child\<lparr>config := Some [(''permissions'',
                 JObj [(''bob'', JStr ''rw''), (''carol'', JStr ''r'')])]\<rparr>],
           s3 = [(snapshot_key example_child 0,
                  snapshot_of (example_child\<lparr>config := Some [(''permissions'',
                 JObj [(''bob'', JStr ''rw''), (''carol'', JStr ''r'')])]\<rparr>))]\<rparr>)
   \<and> str_getitem (artifact_permissions
          (example_child\<lparr>config := Some [(''permissions'',
                 JObj [(''bob'', JStr ''rw''), (''carol'', JStr ''r'')])]\<rparr>)) ''carol''
       = Inr (JStr ''r'')
   \<and> parent_id example_parent = None
   \<and> edit example_env example_state ''ws/zoo'' None None
        (Some [(''permissions'', JObj [(''bob'', JStr ''rw'')])]) None None None
        (example_context ''carol'')
     = Inr (generate_artifact_data
            (example_parent\<lparr>config := Some [(''permissions'', JObj [(''bob'', JStr ''rw'')])],
                             last_modified := 1700000000\<rparr>) None,
          \<lparr>artifacts =
             [example_parent\<lparr>config := Some [(''permissions'', JObj [(''bob'', JStr ''rw'')])],
                              last_modified := 1700000000\<rparr>],
           s3 = [(snapshot_key example_parent 0,
                  snapshot_of
                    (example_parent\<lparr>config := Some [(''permissions'', JObj [(''bob'', JStr ''rw'')])],
                                     last_modified := 1700000000\<rparr>))]\<rparr>)
   \<and> str_getitem (artifact_permissions
          (example_parent\<lparr>config := Some [(''permissions'', JObj [(''bob'', JStr ''rw'')])],
                           last_modified := 1700000000\<rparr>)) ''carol''
       = Inl KeyError"
  using create_under_carol_parent_example edit_orphan_permissions_example
  by (simp add: artifact_permissions_def example_parent_def)

theorem commit_versions_and_staging_witness:
  "staging example_child = Staged []
   \<and> map_of (AList.delete ''secrets'' (model_to_dict example_child)) ''id''
       = Some (JStr (id_col example_child))
   \<and> (\<exists>a3 \<in> set [example_parent,
              example_child\<lparr>secrets := None, staging := JsonNull,
               versions := Some [\<lparr>version = ''v0'', comment = None, created_at_v = 1700000000\<rparr>]\<rparr>].
     id_col a3 = id_col example_child \<and> staging a3 = JsonNull
     \<and> versions a3 = Some [\<lparr>version = ''v0'', comment = None, created_at_v = 1700000000\<rparr>]
     \<and> [example_parent,
              example_child\<lparr>secrets := None, staging := JsonNull,
               versions := Some [\<lparr>version = ''v0'', comment = None, created_at_v = 1700000000\<rparr>]\<rparr>]
        = update_row a3 (artifacts example_state_staged))"
proof -
  let ?row = "example_child\<lparr>secrets := None, staging := JsonNull,
               versions := Some [\<lparr>version = ''v0'', comment = None, created_at_v = 1700000000\<rparr>]\<rparr>"
  let ?st' = "\<lparr>artifacts = [example_parent, ?row],
           s3 = [(snapshot_key example_child 0, snapshot_of ?row)]\<rparr>"
  from commit_versions_and_staging[OF commit_new_example]
  obtain w u artifact_id1 a0 parent_artifact n artifact_data a3 vs0 where
    c: "with_context (example_context ''carol'') = Inr (w, u)"
    and v: "validate_artifact_id ''ws/ds'' w = Inr artifact_id1"
    and g: "get_artifact_with_permission (artifacts example_state_staged) u artifact_id1 ''commit''
        = Inr (a0, parent_artifact)"
    and i: "get_version_index a0 (VStr ''stage'') = Inr n"
    and l: "load_version_from_s3 example_env a0 n False (s3 example_state_staged)
        = Inr artifact_data"
    and vs0: "vs0 = (case versions (ArtifactModel (new_id example_env) artifact_data) of
                None \<Rightarrow> [] | Some vs \<Rightarrow> vs)"
    and m: "a3 \<in> set (artifacts ?st')"
    and s: "staging a3 = JsonNull"
    and vs: "versions a3 =
          Some (case Some ''new'' of
                  None \<Rightarrow> vs0
                | Some v \<Rightarrow>
                    vs0 @ [\<lparr>version = (if v = ''new'' then ''v'' @ str_of_nat (length vs0) else v),
                            comment = None, created_at_v = now example_env\<rparr>])"
    and own: "map_of artifact_data ''id'' = Some (JStr (id_col a0)) \<longrightarrow>
          id_col a3 = id_col a0
          \<and> artifacts ?st' = update_row a3 (artifacts example_state_staged)
          \<and> (\<forall>r \<in> set (artifacts ?st'). id_col r = id_col a0 \<longrightarrow> r = a3)"
    by blast
  note cu = c[unfolded commit_example_reads(1), THEN sum.inject(2)[THEN iffD1],
      THEN prod.inject[THEN iffD1]]
  note w = cu[THEN conjunct1, symmetric] and u = cu[THEN conjunct2, symmetric]
  from v w have a: "artifact_id1 = ''ws/ds''" by (simp add: commit_example_reads(2))
  from g u a have a0: "a0 = example_child" by (simp add: commit_example_reads(3))
  from i a0 have n: "n = 0" by (simp add: commit_example_reads(4))
  from l a0 n have d: "artifact_data = AList.delete ''secrets'' (model_to_dict example_child)"
    by (simp add: commit_example_reads(5))
  have k: "map_of (AList.delete ''secrets'' (model_to_dict example_child)) ''id''
       = Some (JStr (id_col example_child))"
    by (simp add: model_to_dict_def)
  have e: "vs0 = []"
    unfolding vs0 d snapshot_versions by (simp add: example_child_def)
  from vs e have vs': "versions a3
      = Some [\<lparr>version = ''v0'', comment = None, created_at_v = 1700000000\<rparr>]"
    by (simp add: str_of_nat_0 example_env_def)
  note own' = own[unfolded d a0, THEN mp, OF k]
  note o1 = own'[THEN conjunct1]
  from own'[THEN conjunct2, THEN conjunct1]
  have o2: "[example_parent, ?row] = update_row a3 (artifacts example_state_staged)"
    by simp
  from m have m': "a3 \<in> set [example_parent, ?row]" by simp
  have st: "staging example_child = Staged []" by (simp add: example_child_def)
  from st k m' s vs' o1 o2 show ?thesis by blast
qed

text \<open>
  The claim C6 as stated fails on the code. A \<open>commit\<close> without a version succeeds on the
  staged child and leaves its versions empty. After \<open>create\<close> with the version \<open>new\<close>, an
  \<open>edit\<close> with the version \<open>stage\<close> and a \<open>delete\<close> of the version \<open>v0\<close>, the row is staged
  with no version while the snapshot at its stage index still lists \<open>v0\<close>: the \<open>commit\<close>
  with the version \<open>new\<close> then leaves the row with the two versions \<open>v0\<close> and \<open>v1\<close>. And
  on a store whose object at the stage key is the snapshot of another artifact, \<open>commit\<close>
  succeeds on that artifact's row and the child stays staged.
\<close>

theorem commit_without_version_counterexample:
  "staging example_child = Staged [] \<and> versions example_child = Some []
   \<and> map_of (s3 example_state_staged) (snapshot_key example_child 0) = Some (snapshot_of example_child)
   \<and> commit example_env example_state_staged ''ws/ds'' None None (example_context ''carol'')
     = Inr (generate_artifact_data (example_child\<lparr>secrets := None, staging := JsonNull\<rparr>)
            (Some example_parent),
          \<lparr>artifacts = [example_parent, example_child\<lparr>secrets := None, staging := JsonNull\<rparr>],
           s3 = [(snapshot_key example_child 0,
                  snapshot_of (example_child\<lparr>secrets := None, staging := JsonNull\<rparr>))]\<rparr>)
   \<and> versions (example_child\<lparr>secrets := None, staging := JsonNull\<rparr>) = Some []
   \<and> create example_env example_state (Some ''ds'') None (Some ''ws/zoo'')
         (Some [(''name'', JStr ''n'')]) (Some ''generic'')
         (Some [(''permissions'', JObj [(''bob'', JStr ''rw'')])]) (Some [(''K'', JStr ''s'')])
         None (Some ''new'') None False (example_context ''carol'')
     = Inr (generate_artifact_data example_committed (Some example_parent),
          \<lparr>artifacts = [example_parent, example_committed],
           s3 = [(snapshot_key example_child 0, snapshot_of example_committed)]\<rparr>)
   \<and> edit example_env
        \<lparr>artifacts = [example_parent, example_committed],
         s3 = [(snapshot_key example_child 0, snapshot_of example_committed)]\<rparr>
        ''ws/ds'' None None None None (Some ''stage'') None (example_context ''carol'')
     = Inr (generate_artifact_data example_restaged (Some example_parent),
          \<lparr>artifacts = [example_parent, example_restaged],
           s3 = [(snapshot_key example_child 0, snapshot_of example_committed),
                 (snapshot_key example_child 1, snapshot_of example_restaged)]\<rparr>)
   \<and> delete example_env
        \<lparr>artifacts = [example_parent, example_restaged],
         s3 = [(snapshot_key example_child 0, snapshot_of example_committed),
               (snapshot_key example_child 1, snapshot_of example_restaged)]\<rparr>
        ''ws/ds'' False False (VStr ''v0'') (example_context ''carol'')
     = Inr example_state_popped
   \<and> artifacts example_state_popped = [example_parent, example_child]
   \<and> commit example_env example_state_popped ''ws/ds'' (Some ''new'') None
        (example_context ''carol'')
     = Inr (generate_artifact_data
            (example_committed\<lparr>secrets := None,
               versions := Some [\<lparr>version = ''v0'', comment = Some ''Initial version'',
                                  created_at_v = 1700000000\<rparr>,
                                 \<lparr>version = ''v1'', comment = None, created_at_v = 1700000000\<rparr>]\<rparr>)
            (Some example_parent),
          \<lparr>artifacts = [example_parent,
              example_committed\<lparr>secrets := None,
               versions := Some [\<lparr>version = ''v0'', comment = Some ''Initial version'',
                                  created_at_v = 1700000000\<rparr>,
                                 \<lparr>version = ''v1'', comment = None, created_at_v = 1700000000\<rparr>]\<rparr>],
           s3 = [(snapshot_key example_child 0, snapshot_of example_committed),
                 (snapshot_key example_child 1,
                  snapshot_of (example_committed\<lparr>secrets := None,
               versions := Some [\<lparr>version = ''v0'', comment = Some ''Initial version'',
                                  created_at_v = 1700000000\<rparr>,
                                 \<lparr>version = ''v1'', comment = None, created_at_v = 1700000000\<rparr>]\<rparr>))]\<rparr>)
   \<and> artifacts example_state_foreign = [example_parent, example_child]
   \<and> map_of (s3 example_state_foreign) (snapshot_key example_child 0)
       = Some (snapshot_of example_parent)
   \<and> commit example_env example_state_foreign ''ws/ds'' (Some ''new'') None
        (example_context ''carol'')
     = Inr (generate_artifact_data
            (example_parent\<lparr>last_modified := 1700000000,
               versions := Some [\<lparr>version = ''v0'', comment = Some ''Initial version'',
                                  created_at_v = 0\<rparr>,
                                 \<lparr>version = ''v1'', comment = None, created_at_v = 1700000000\<rparr>]\<rparr>)
            (Some example_parent),
          \<lparr>artifacts = [example_parent\<lparr>last_modified := 1700000000,
               versions := Some [\<lparr>version = ''v0'', comment = Some ''Initial version'',
                                  created_at_v = 0\<rparr>,
                                 \<lparr>version = ''v1'', comment = None, created_at_v = 1700000000\<rparr>]\<rparr>,
              example_child],
           s3 = [(snapshot_key example_child 0, snapshot_of example_parent),
                 (snapshot_key example_parent 1,
                  snapshot_of (example_parent\<lparr>last_modified := 1700000000,
               versions := Some [\<lparr>version = ''v0'', comment = Some ''Initial version'',
                                  created_at_v = 0\<rparr>,
                                 \<lparr>version = ''v1'', comment = None, created_at_v = 1700000000\<rparr>]\<rparr>))]\<rparr>)"
  using commit_none_example create_committed_example edit_restaged_example delete_popped_example
    commit_popped_example commit_foreign_example
  by (simp add: example_state_staged_def example_child_def example_state_popped_def
        example_state_foreign_def)

text \<open>
  C7: with a version given, a successful \<open>delete\<close> leaves the object store exactly as it
  was, and \<open>delete_files\<close> makes no difference to its result: the entry is popped from the
  row, the files and the snapshot of that version stay behind.
\<close>

theorem delete_version_keeps_store:
  assumes "version0 \<noteq> VNone"
    and "delete ev st artifact_id delete_files recursive version0 ctx = Inr st'"
  shows "s3 st' = s3 st
         \<and> delete ev st artifact_id (\<not> delete_files) recursive version0 ctx = Inr st'"
  using assms
  by (auto simp: delete_def delete_version_def on_ok_Inr split: prod.splits option.splits)

text \<open>
  On the example with two versions: \<open>v0\<close> is popped, the snapshot of index 0 is still in
  the store afterwards, and the cleanup, had it been awaited, would have removed it.
\<close>

theorem delete_version_leaves_snapshot:
  "map_of (s3 example_state_versioned) (snapshot_key example_child 0)
     = Some (snapshot_of example_child)
   \<and> delete example_env example_state_versioned ''ws/ds'' True False (VStr ''v0'')
       (example_context ''carol'')
     = Inr \<lparr>artifacts = [example_parent,
               example_versioned\<lparr>versions := Some [\<lparr>version = ''1'', comment = Some ''second'',
                                                     created_at_v = 1\<rparr>]\<rparr>],
            s3 = s3 example_state_versioned\<rparr>
   \<and> map_of (s3 \<lparr>artifacts = [example_parent,
               example_versioned\<lparr>versions := Some [\<lparr>version = ''1'', comment = Some ''second'',
                                                     created_at_v = 1\<rparr>]\<rparr>],
            s3 = s3 example_state_versioned\<rparr>) (snapshot_key example_child 0)
     = Some (snapshot_of example_child)
   \<and> delete_version_files_from_s3 0 example_versioned
       (get_s3_config example_env example_versioned (Some example_parent)) True
       (s3 example_state_versioned)
     = Inr [(snapshot_key example_child 1, snapshot_of example_versioned)]"
  using delete_version_keeps_store [OF _ delete_version_example]
    delete_version_example awaited_cleanup_example
  by (simp add: example_state_versioned_def)

theorem edit_without_version_witness:
  "staging example_child = Staged []
   \<and> (\<exists>a7 \<in> set [example_parent, example_child\<lparr>staging := JsonNull\<rparr>].
        id_col a7 = id_col example_child \<and> staging a7 = JsonNull
        \<and> versions a7 = versions example_child
        \<and> map_of [(snapshot_key example_child 0, snapshot_of (example_child\<lparr>staging := JsonNull\<rparr>))]
             (snapshot_key example_child (nat (max 0 (int (length ([] :: version_entry list)) - 1))))
            = Some (snapshot_of a7))"
  using edit_without_version[OF edit_none_example]
  by (simp add: example_child_def)

lemma example_kids_data_distinct:
  "generate_artifact_data (example_kids ! 1) (Some example_parent)
     \<noteq> generate_artifact_data (example_kids ! 0) (Some example_parent)"
  "generate_artifact_data (example_kids ! 1) (Some example_parent)
     \<noteq> generate_artifact_data (example_kids ! 2) (Some example_parent)"
  by (simp_all add: generate_artifact_data_def model_to_dict_def example_kids_def example_child_def
        example_parent_def Let_def)

lemma example_children:
  "filter (\<lambda>r. scope_condition (Some example_parent) ''ws'' r
                \<and> combined_condition example_env ''AND'' [] r)
     (artifacts example_listing_state) = example_kids"
  by (simp add: example_listing_state_def scope_condition_def combined_condition_def
          example_kids_def example_child_def example_parent_def)

theorem stage_listings_partition_witness:
  "set [generate_artifact_data (example_kids ! 0) (Some example_parent)]
     \<inter> set [generate_artifact_data (example_kids ! 2) (Some example_parent),
            generate_artifact_data (example_kids ! 1) (Some example_parent)] = {}
   \<and> set [generate_artifact_data (example_kids ! 0) (Some example_parent)]
     \<union> set [generate_artifact_data (example_kids ! 2) (Some example_parent),
            generate_artifact_data (example_kids ! 1) (Some example_parent)]
     = (\<lambda>r. generate_artifact_data r (Some example_parent)) ` set example_kids"
proof -
  have c: "with_context (example_context ''alice'')
      = Inr (''ws'', \<lparr>user_id = ''alice'', is_anonymous = False,
                       check_permission = (\<lambda>w p. w = ''ws'')\<rparr>)"
    by (simp add: with_context_def example_context_def)
  have p: "list_parent (artifacts example_listing_state)
        \<lparr>user_id = ''alice'', is_anonymous = False, check_permission = (\<lambda>w p. w = ''ws'')\<rparr>
        ''ws'' (Some ''ws/zoo'') = Inr (Some example_parent)"
    by (simp add: controller_defs example_defs example_defs2 example_listing_state_def)
  have k: "{r \<in> set (artifacts example_listing_state).
             scope_condition (Some example_parent) ''ws'' r
             \<and> combined_condition example_env ''AND'' [] r}
           = set example_kids"
    using arg_cong[OF example_children, of set] by simp
  have l: "length (filter (\<lambda>r. scope_condition (Some example_parent) ''ws'' r
             \<and> combined_condition example_env ''AND'' [] r)
             (artifacts example_listing_state)) \<le> 100"
    unfolding example_children by (simp add: example_kids_def)
  from stage_listings_partition[OF list_staged_100 list_unstaged_100]
  have "set [generate_artifact_data (example_kids ! 0) (Some example_parent)]
     \<inter> set [generate_artifact_data (example_kids ! 2) (Some example_parent),
            generate_artifact_data (example_kids ! 1) (Some example_parent)] = {}"
    and "\<exists>w u parent_artifact.
          with_context (example_context ''alice'') = Inr (w, u)
          \<and> list_parent (artifacts example_listing_state) u w (Some ''ws/zoo'') = Inr parent_artifact
          \<and> (length (filter (\<lambda>r. scope_condition parent_artifact w r
                                   \<and> combined_condition example_env ''AND'' [] r)
                          (artifacts example_listing_state)) \<le> 100
              \<longrightarrow> set [generate_artifact_data (example_kids ! 0) (Some example_parent)]
     \<union> set [generate_artifact_data (example_kids ! 2) (Some example_parent),
            generate_artifact_data (example_kids ! 1) (Some example_parent)]
                   = (\<lambda>r. generate_artifact_data r parent_artifact)
                       ` {r \<in> set (artifacts example_listing_state).
                            scope_condition parent_artifact w r
                            \<and> combined_condition example_env ''AND'' [] r})"
    by (simp_all add: items_of_def)
  then show ?thesis using c p k l by auto
qed

text \<open>
  The claim C8 as stated fails on the code: with \<open>limit = 1\<close> the two listings return one
  item each, and the data of the third child \<open>kb\<close> is in neither.
\<close>

theorem stage_listings_limit_counterexample:
  "list_children example_env example_listing_state (Some ''ws/zoo'')
     None (Some [(''stage'', JBool True)]) ''AND'' 0 1 None True False (example_context ''alice'')
     = Inr (Items [generate_artifact_data (example_kids ! 0) (Some example_parent)],
            example_listing_state)
   \<and> list_children example_env example_listing_state (Some ''ws/zoo'')
     None (Some [(''stage'', JBool False)]) ''AND'' 0 1 None True False (example_context ''alice'')
     = Inr (Items [generate_artifact_data (example_kids ! 2) (Some example_parent)],
            example_listing_state)
   \<and> example_kids ! 1 \<in> set (artifacts example_listing_state)
   \<and> parent_id (example_kids ! 1) = Some (id_col example_parent)
   \<and> generate_artifact_data (example_kids ! 1) (Some example_parent)
       \<notin> set [generate_artifact_data (example_kids ! 0) (Some example_parent)]
         \<union> set [generate_artifact_data (example_kids ! 2) (Some example_parent)]"
  using list_staged_1 list_unstaged_1 example_kids_data_distinct
  by (simp add: example_listing_state_def example_kids_def example_child_def example_parent_def)

end
